theory Spec2Isabelle
  imports
    Main
    "HOL-Library.List_Lexorder"
    "HOL-Library.Char_ord"
    "HOL-Library.AList"
    "HOL-Library.Multiset"
begin

section \<open>Python list primitives used by the sources\<close>

text \<open>
  \<^verbatim>\<open>sorted(xs, key=k, reverse=True)\<close> is a stable descending sort: elements with equal
  keys keep their original relative order (CPython reverses, sorts stably, reverses).
  Strings are compared lexicographically, character by character.
\<close>

definition py_sorted_desc :: "('a \<Rightarrow> 'k::linorder) \<Rightarrow> 'a list \<Rightarrow> 'a list" where
  "py_sorted_desc key xs = rev (sort_key key (rev xs))"

text \<open>
  The slices \<^verbatim>\<open>xs[:k]\<close> and \<^verbatim>\<open>xs[k:]\<close> for a Python integer \<open>k\<close>: a negative
  bound counts from the end and is clipped at the start of the list.
\<close>

definition py_slice_to :: "int \<Rightarrow> 'a list \<Rightarrow> 'a list" where
  "py_slice_to k xs = (if 0 \<le> k then take (nat k) xs else take (length xs - nat (- k)) xs)"

definition py_slice_from :: "int \<Rightarrow> 'a list \<Rightarrow> 'a list" where
  "py_slice_from k xs = (if 0 \<le> k then drop (nat k) xs else drop (length xs - nat (- k)) xs)"

section \<open>The manifest (sync/core/manifest.py)\<close>

text \<open>
  \<open>FileVersion\<close> and \<open>FileRecord\<close> are the two dataclasses of the source. The
  timestamp is the string produced by \<^verbatim>\<open>strftime("%Y-%m-%dT%H:%M:%SZ")\<close>.
\<close>

record FileVersion =
  fv_hash :: string
  fv_asset_name :: string
  fv_size :: int
  fv_timestamp :: string
  fv_uploaded :: bool

record FileRecord =
  current_hash :: string
  versions :: "FileVersion list"

text \<open>
  The \<open>Manifest\<close> object: its \<^verbatim>\<open>_data["files"]\<close> dictionary is an association list in
  insertion order (a Python dict iterates in insertion order, and assigning to an
  existing key keeps its position, which is what \<open>AList.update\<close> does).
  \<open>persisted\<close> is the content last written to \<^verbatim>\<open>.lfs/manifest.json\<close> by \<open>save\<close>.
\<close>

record Manifest =
  hist_dir :: string
  manifest_release_tag :: string
  manifest_files :: "(string \<times> FileRecord) list"
  persisted :: "(string \<times> FileRecord) list"

definition save :: "Manifest \<Rightarrow> Manifest" where
  "save m = m\<lparr>persisted := manifest_files m\<rparr>"

definition get_file_record :: "Manifest \<Rightarrow> string \<Rightarrow> FileRecord option" where
  "get_file_record m file_path = map_of (manifest_files m) file_path"

text \<open>\<open>now\<close> is the value \<^verbatim>\<open>_current_time()\<close> returns at the call.\<close>

definition add_version ::
  "string \<Rightarrow> Manifest \<Rightarrow> string \<Rightarrow> string \<Rightarrow> string \<Rightarrow> int \<Rightarrow> bool \<Rightarrow> Manifest" where
  "add_version now m file_path hash_value asset_name sz set_as_current =
     (let new_version = \<lparr>fv_hash = hash_value, fv_asset_name = asset_name, fv_size = sz,
                          fv_timestamp = now, fv_uploaded = True\<rparr>
      in case map_of (manifest_files m) file_path of
           Some record \<Rightarrow>
             (let vs = (if \<not> list_ex (\<lambda>v. fv_hash v = hash_value) (versions record)
                        then versions record @ [new_version] else versions record);
                  ch = (if set_as_current then hash_value else current_hash record)
              in m\<lparr>manifest_files :=
                     AList.update file_path \<lparr>current_hash = ch, versions = vs\<rparr> (manifest_files m)\<rparr>)
         | None \<Rightarrow>
             m\<lparr>manifest_files :=
                 AList.update file_path \<lparr>current_hash = hash_value, versions = [new_version]\<rparr>
                   (manifest_files m)\<rparr>)"

definition get_current_version :: "Manifest \<Rightarrow> string \<Rightarrow> FileVersion option" where
  "get_current_version m file_path =
     (case get_file_record m file_path of
        None \<Rightarrow> None
      | Some record \<Rightarrow>
          (case find (\<lambda>v. fv_hash v = current_hash record) (versions record) of
             Some v \<Rightarrow> Some v
           | None \<Rightarrow> (if versions record \<noteq> [] then Some (last (versions record)) else None)))"

definition get_all_versions :: "Manifest \<Rightarrow> string \<Rightarrow> FileVersion list" where
  "get_all_versions m file_path =
     (case get_file_record m file_path of
        None \<Rightarrow> []
      | Some record \<Rightarrow> py_sorted_desc fv_timestamp (versions record))"

text \<open>
  \<open>cleanup_old_versions\<close> returns the asset names to delete together with the updated
  manifest. \<open>keep\<close> is a Python \<^verbatim>\<open>int\<close>.
\<close>

definition cleanup_old_versions :: "Manifest \<Rightarrow> string \<Rightarrow> int \<Rightarrow> string list \<times> Manifest" where
  "cleanup_old_versions m file_path keep =
     (case get_file_record m file_path of
        None \<Rightarrow> ([], m)
      | Some record \<Rightarrow>
          if int (length (versions record)) \<le> keep then ([], m)
          else
            (let sorted_versions = py_sorted_desc fv_timestamp (versions record);
                 to_keep = py_slice_to keep sorted_versions;
                 to_remove = py_slice_from keep sorted_versions
             in (map fv_asset_name to_remove,
                 m\<lparr>manifest_files :=
                     AList.update file_path (record\<lparr>versions := to_keep\<rparr>) (manifest_files m)\<rparr>)))"

fun cleanup_paths ::
  "int \<Rightarrow> string list \<Rightarrow> (string \<times> string list) list \<times> Manifest
     \<Rightarrow> (string \<times> string list) list \<times> Manifest" where
  "cleanup_paths keep [] acc = acc"
| "cleanup_paths keep (file_path # rest) (result, m) =
     (case cleanup_old_versions m file_path keep of
        (removed, m') \<Rightarrow>
          cleanup_paths keep rest
            (if removed \<noteq> [] then AList.update file_path removed result else result, m'))"

definition cleanup_all_old_versions ::
  "Manifest \<Rightarrow> int \<Rightarrow> (string \<times> string list) list \<times> Manifest" where
  "cleanup_all_old_versions m keep = cleanup_paths keep (map fst (manifest_files m)) ([], m)"

definition remove_file :: "Manifest \<Rightarrow> string \<Rightarrow> string list \<times> Manifest" where
  "remove_file m file_path =
     (case get_file_record m file_path of
        None \<Rightarrow> ([], m)
      | Some record \<Rightarrow>
          (map fv_asset_name (versions record),
           m\<lparr>manifest_files := AList.delete file_path (manifest_files m)\<rparr>))"

section \<open>Strings, JSON values and exceptions\<close>

text \<open>
  \<^verbatim>\<open>s.startswith(p)\<close>, \<^verbatim>\<open>s.endswith(p)\<close> and the substring test \<^verbatim>\<open>sub in s\<close>.
\<close>

fun startswith :: "string \<Rightarrow> string \<Rightarrow> bool" where
  "startswith s [] = True"
| "startswith [] (p # ps) = False"
| "startswith (c # cs) (p # ps) = (c = p \<and> startswith cs ps)"

definition endswith :: "string \<Rightarrow> string \<Rightarrow> bool" where
  "endswith s p = startswith (rev s) (rev p)"

fun contains :: "string \<Rightarrow> string \<Rightarrow> bool" where
  "contains [] sub = (sub = [])"
| "contains (c # cs) sub = (startswith (c # cs) sub \<or> contains cs sub)"

text \<open>
  The values \<^verbatim>\<open>json.load\<close> produces. Numbers are integers (no pointer or manifest field
  is fractional); an object is an association list looked up with \<open>map_of\<close>.
\<close>

datatype json =
  JNull
| JBool bool
| JInt int
| JStr string
| JList "json list"
| JDict "(string \<times> json) list"

text \<open>Python truthiness of a JSON value, as used by \<^verbatim>\<open>not x\<close>.\<close>

fun truthy :: "json \<Rightarrow> bool" where
  "truthy JNull = False"
| "truthy (JBool b) = b"
| "truthy (JInt n) = (n \<noteq> 0)"
| "truthy (JStr s) = (s \<noteq> [])"
| "truthy (JList xs) = (xs \<noteq> [])"
| "truthy (JDict kvs) = (kvs \<noteq> [])"

text \<open>The exceptions the modelled code raises or catches.\<close>

datatype exn =
  KeyError string
| OSError
| JSONDecodeError
| TypeError
| AttributeError
| IndexError
| HTTPStatusError nat
| RequestError
| RuntimeError string

section \<open>The environment: library functions and collaborators outside the sources\<close>

text \<open>
  The file system maps the path of a regular file to its content; it is an association
  list so that a directory walk can enumerate it. Library functions and the behaviour
  of external collaborators are parameters of the model, collected in \<open>env\<close>:
  \<^item> \<open>json_loads\<close>, \<open>json_dumps\<close>: \<^verbatim>\<open>json.loads\<close> (\<open>None\<close> for a \<^verbatim>\<open>JSONDecodeError\<close>) and
    \<^verbatim>\<open>json.dumps\<close>;
  \<^item> \<open>sha256_hexdigest\<close>: \<^verbatim>\<open>hashlib.sha256(content).hexdigest()\<close>;
  \<^item> \<open>relpath\<close>: \<^verbatim>\<open>os.path.relpath(path, start)\<close>;
  \<^item> \<open>str_of\<close>: \<^verbatim>\<open>str(x)\<close> for a JSON value \<open>x\<close> that is not a string;
  \<^item> \<open>stored_name\<close>: the name under which the blob store files an upload requested
    under a given name (the store's answer is authoritative and may differ);
  \<^item> \<open>git_pull\<close>: the effect of \<^verbatim>\<open>git pull --rebase\<close> on the working tree.
\<close>

type_synonym fs = "(string \<times> string) list"

record env =
  json_loads :: "string \<Rightarrow> json option"
  json_dumps :: "json \<Rightarrow> string"
  sha256_hexdigest :: "string \<Rightarrow> string"
  relpath :: "string \<Rightarrow> string \<Rightarrow> string"
  str_of :: "json \<Rightarrow> string"
  stored_name :: "string \<Rightarrow> string"
  git_pull :: "fs \<Rightarrow> fs"

definition isfile :: "fs \<Rightarrow> string \<Rightarrow> bool" where
  "isfile files path = (map_of files path \<noteq> None)"

section \<open>Pointer files (sync/core/pointer.py)\<close>

text \<open>
  The dataclass \<open>PointerFile\<close>. Python checks no field type when \<open>from_dict\<close> builds
  the object from parsed JSON, so each field holds whatever JSON value the file had.
\<close>

record PointerFile =
  pf_version :: json
  pf_hash :: json
  pf_size :: json
  pf_filename :: json
  pf_release_tag :: json
  pf_asset_name :: json

definition to_dict :: "PointerFile \<Rightarrow> json" where
  "to_dict p = JDict
     [(''version'', pf_version p),
      (''type'', JStr ''lfs-pointer''),
      (''hash'', pf_hash p),
      (''size'', pf_size p),
      (''filename'', pf_filename p),
      (''release_tag'', pf_release_tag p),
      (''asset_name'', pf_asset_name p)]"

text \<open>\<^verbatim>\<open>data[key]\<close> raises \<^verbatim>\<open>KeyError\<close> on a missing key.\<close>

definition subscript :: "(string \<times> json) list \<Rightarrow> string \<Rightarrow> exn + json" where
  "subscript data key = (case map_of data key of None \<Rightarrow> Inl (KeyError key) | Some v \<Rightarrow> Inr v)"

text \<open>
  \<open>from_dict\<close> evaluates its keyword arguments in order; the first missing key raises.
  The version is read with \<^verbatim>\<open>data.get("version", 1)\<close>.
\<close>

definition from_dict :: "(string \<times> json) list \<Rightarrow> exn + PointerFile" where
  "from_dict data =
     (let version = (case map_of data ''version'' of None \<Rightarrow> JInt 1 | Some v \<Rightarrow> v) in
      case subscript data ''hash'' of Inl e \<Rightarrow> Inl e | Inr h \<Rightarrow>
      case subscript data ''size'' of Inl e \<Rightarrow> Inl e | Inr sz \<Rightarrow>
      case subscript data ''filename'' of Inl e \<Rightarrow> Inl e | Inr fname \<Rightarrow>
      case subscript data ''release_tag'' of Inl e \<Rightarrow> Inl e | Inr tag \<Rightarrow>
      case subscript data ''asset_name'' of Inl e \<Rightarrow> Inl e | Inr aname \<Rightarrow>
        Inr \<lparr>pf_version = version, pf_hash = h, pf_size = sz, pf_filename = fname,
             pf_release_tag = tag, pf_asset_name = aname\<rparr>)"

text \<open>
  \<open>read_pointer\<close>: every exception of the body (\<^verbatim>\<open>OSError\<close> from \<^verbatim>\<open>open\<close>,
  \<^verbatim>\<open>JSONDecodeError\<close>, \<^verbatim>\<open>KeyError\<close> from \<open>from_dict\<close>) is caught and gives \<open>None\<close>.
\<close>

definition read_pointer :: "env \<Rightarrow> fs \<Rightarrow> string \<Rightarrow> PointerFile option" where
  "read_pointer e files path =
     (case map_of files path of
        None \<Rightarrow> None
      | Some content \<Rightarrow>
          (case json_loads e content of
             None \<Rightarrow> None
           | Some (JDict data) \<Rightarrow>
               (if map_of data ''type'' \<noteq> Some (JStr ''lfs-pointer'') then None
                else (case from_dict data of Inl err \<Rightarrow> None | Inr p \<Rightarrow> Some p))
           | Some other \<Rightarrow> None))"

definition write_pointer :: "env \<Rightarrow> fs \<Rightarrow> string \<Rightarrow> PointerFile \<Rightarrow> fs" where
  "write_pointer e files path pointer = AList.update path (json_dumps e (to_dict pointer)) files"

text \<open>
  \<open>is_pointer_file\<close> catches \<^verbatim>\<open>JSONDecodeError\<close>, \<^verbatim>\<open>OSError\<close>, \<^verbatim>\<open>KeyError\<close> and
  \<^verbatim>\<open>UnicodeDecodeError\<close> only: on a small file that parses to JSON other than an object,
  \<^verbatim>\<open>data.get\<close> raises an \<^verbatim>\<open>AttributeError\<close> that leaves the function.
\<close>

definition is_pointer_file :: "env \<Rightarrow> fs \<Rightarrow> string \<Rightarrow> exn + bool" where
  "is_pointer_file e files path =
     (case map_of files path of
        None \<Rightarrow> Inr False
      | Some content \<Rightarrow>
          if endswith path ''.pointer'' then Inr True
          else if length content > 2048 then Inr False
          else if \<not> contains content ''lfs-pointer'' then Inr False
          else (case json_loads e content of
                  None \<Rightarrow> Inr False
                | Some (JDict data) \<Rightarrow> Inr (map_of data ''type'' = Some (JStr ''lfs-pointer''))
                | Some other \<Rightarrow> Inl AttributeError))"

definition get_real_path_from_pointer :: "string \<Rightarrow> string" where
  "get_real_path_from_pointer pointer_path =
     (if endswith pointer_path ''.pointer'' then take (length pointer_path - 8) pointer_path
      else pointer_path)"

text \<open>
  \<open>validate_pointer\<close> on the untyped fields: \<^verbatim>\<open>.startswith\<close> exists on strings only
  (\<^verbatim>\<open>AttributeError\<close> otherwise), and \<^verbatim>\<open>size <= 0\<close> is defined for integers and booleans
  (\<^verbatim>\<open>TypeError\<close> otherwise).
\<close>

definition validate_pointer :: "PointerFile \<Rightarrow> exn + bool" where
  "validate_pointer pointer =
     (if \<not> truthy (pf_hash pointer) then Inr False
      else case pf_hash pointer of
        JStr h \<Rightarrow>
          (if \<not> startswith h ''sha256:'' then Inr False
           else (case (case pf_size pointer of
                         JInt n \<Rightarrow> Inr (n \<le> 0)
                       | JBool b \<Rightarrow> Inr (\<not> b)
                       | other \<Rightarrow> Inl TypeError) of
                   Inl err \<Rightarrow> Inl err
                 | Inr True \<Rightarrow> Inr False
                 | Inr False \<Rightarrow>
                     (if \<not> truthy (pf_filename pointer) \<or> \<not> truthy (pf_asset_name pointer)
                      then Inr False
                      else if \<not> truthy (pf_release_tag pointer) then Inr False
                      else Inr True)))
      | other \<Rightarrow> Inl AttributeError)"

section \<open>The blob store and its HTTP client (sync/core/release_api.py)\<close>

subsection \<open>The store\<close>

text \<open>
  Modelled from the spec: the blob store is GitHub's release service, an external
  collaborator that no source file implements. Its contract (spec, sections 4.2 and 6):
  containers (releases) found or created by tag; named assets listed, uploaded,
  downloaded and deleted within a container; an upload answers with the authoritative
  stored name; a lookup of something absent answers 404. An asset is identified by a
  number (its URL); a release by its tag. An upload whose stored name is taken answers
  422, as does creating a release whose tag exists.
\<close>

record Asset =
  asset_id :: nat
  asset_name :: string
  asset_size :: nat

record Blob =
  blob_id :: nat
  blob_name :: string
  blob_content :: string

record store =
  releases :: "(string \<times> Blob list) list"
  next_id :: nat

definition describe :: "Blob \<Rightarrow> Asset" where
  "describe b = \<lparr>asset_id = blob_id b, asset_name = blob_name b,
                  asset_size = length (blob_content b)\<rparr>"

definition all_blobs :: "store \<Rightarrow> Blob list" where
  "all_blobs st = concat (map snd (releases st))"

datatype request =
  GetReleaseByTag string
| CreateRelease string
| ListAssets string
| DeleteAsset nat
| UploadAsset string string string
| DownloadAsset nat

datatype response =
  ReleaseJson string
| AssetsJson "Asset list"
| AssetJson Asset
| Bytes string
| NoContent

text \<open>
  \<open>serve\<close> answers one request: an error status (\<open>Inl\<close>) or a response, and the new
  state of the store.
\<close>

fun serve :: "env \<Rightarrow> request \<Rightarrow> store \<Rightarrow> (nat + response) \<times> store" where
  "serve e (GetReleaseByTag tag) st =
     (case map_of (releases st) tag of
        None \<Rightarrow> (Inl 404, st)
      | Some blobs \<Rightarrow> (Inr (ReleaseJson tag), st))"
| "serve e (CreateRelease tag) st =
     (case map_of (releases st) tag of
        Some blobs \<Rightarrow> (Inl 422, st)
      | None \<Rightarrow> (Inr (ReleaseJson tag), st\<lparr>releases := AList.update tag [] (releases st)\<rparr>))"
| "serve e (ListAssets tag) st =
     (case map_of (releases st) tag of
        None \<Rightarrow> (Inl 404, st)
      | Some blobs \<Rightarrow> (Inr (AssetsJson (map describe blobs)), st))"
| "serve e (DeleteAsset i) st =
     (if list_ex (\<lambda>b. blob_id b = i) (all_blobs st)
      then (Inr NoContent,
            st\<lparr>releases := map (\<lambda>(tag, blobs). (tag, filter (\<lambda>b. blob_id b \<noteq> i) blobs))
                               (releases st)\<rparr>)
      else (Inl 404, st))"
| "serve e (UploadAsset tag name payload) st =
     (case map_of (releases st) tag of
        None \<Rightarrow> (Inl 404, st)
      | Some blobs \<Rightarrow>
          (if list_ex (\<lambda>b. blob_name b = stored_name e name) blobs then (Inl 422, st)
           else (let b = \<lparr>blob_id = next_id st, blob_name = stored_name e name,
                          blob_content = payload\<rparr>
                 in (Inr (AssetJson (describe b)),
                     st\<lparr>releases := AList.update tag (blobs @ [b]) (releases st),
                        next_id := Suc (next_id st)\<rparr>))))"
| "serve e (DownloadAsset i) st =
     (case find (\<lambda>b. blob_id b = i) (all_blobs st) of
        None \<Rightarrow> (Inl 404, st)
      | Some b \<Rightarrow> (Inr (Bytes (blob_content b)), st))"

subsection \<open>The world the engines run in\<close>

text \<open>
  What an HTTP exchange meets on the network: it is delivered to the store, or fails
  with a network error, or is answered with an error status by something on the way
  (\<open>Status c\<close>, with \<open>c\<close> a 4xx or 5xx code). \<open>faults\<close> schedules the coming exchanges,
  one entry each; when the schedule is used up every exchange is delivered.
\<close>

datatype fault = Deliver | NetworkError | Status nat

text \<open>
  The trace records what the code did, in order: HTTP exchanges, back-off sleeps, and
  the calls of the scanning, restoring, converting and version-control steps.
\<close>

datatype event =
  Http request
| Sleep nat
| GitPull
| Chmod
| ScanPointers string
| RestoreCall string bool
| ScanLarge string
| ConvertCall string
| TrackEmptyDirs
| GitCommit
| GitPush

text \<open>
  \<open>git_index\<close> holds the paths the version-control index tracks, \<open>git_exclude\<close> the
  lines of \<^verbatim>\<open>.git/info/exclude\<close>, \<open>clock\<close> the current UTC time as \<^verbatim>\<open>_current_time\<close>
  formats it.
\<close>

record world =
  files :: fs
  blob_store :: store
  faults :: "fault list"
  trace :: "event list"
  manifest :: Manifest
  git_index :: "string list"
  git_exclude :: "string list"
  clock :: string

text \<open>
  A step of the program takes the world and returns a value or a raised exception,
  together with the world it leaves behind.
\<close>

type_synonym 'a action = "world \<Rightarrow> (exn + 'a) \<times> world"

definition ret :: "'a \<Rightarrow> 'a action" where
  "ret x w = (Inr x, w)"

definition raise :: "exn \<Rightarrow> 'a action" where
  "raise err w = (Inl err, w)"

definition and_then :: "'a action \<Rightarrow> ('a \<Rightarrow> 'b action) \<Rightarrow> 'b action" where
  "and_then m f w = (case m w of (Inl err, w') \<Rightarrow> (Inl err, w') | (Inr x, w') \<Rightarrow> f x w')"

definition log_event :: "event \<Rightarrow> world \<Rightarrow> world" where
  "log_event ev w = w\<lparr>trace := trace w @ [ev]\<rparr>"

subsection \<open>One exchange, and the retrying request\<close>

text \<open>
  \<open>exchange\<close> is \<^verbatim>\<open>client.request(...)\<close> followed by \<^verbatim>\<open>raise_for_status()\<close>: the
  response, or \<^verbatim>\<open>HTTPStatusError\<close>, or \<^verbatim>\<open>RequestError\<close>.
\<close>

definition deliver :: "env \<Rightarrow> request \<Rightarrow> response action" where
  "deliver e rq w =
     (case serve e rq (blob_store w) of
        (Inl code, st) \<Rightarrow> (Inl (HTTPStatusError code), w\<lparr>blob_store := st\<rparr>)
      | (Inr resp, st) \<Rightarrow> (Inr resp, w\<lparr>blob_store := st\<rparr>))"

definition exchange :: "env \<Rightarrow> request \<Rightarrow> response action" where
  "exchange e rq w =
     (let w1 = log_event (Http rq) w in
      case faults w1 of
        [] \<Rightarrow> deliver e rq w1
      | Deliver # rest \<Rightarrow> deliver e rq (w1\<lparr>faults := rest\<rparr>)
      | NetworkError # rest \<Rightarrow> (Inl RequestError, w1\<lparr>faults := rest\<rparr>)
      | Status code # rest \<Rightarrow> (Inl (HTTPStatusError code), w1\<lparr>faults := rest\<rparr>))"

definition max_retries :: nat where
  "max_retries = 3"

text \<open>
  The loop \<^verbatim>\<open>for attempt in range(max_retries)\<close> of \<^verbatim>\<open>_request\<close>: \<open>attempt\<close> is the loop
  variable and \<open>remaining\<close> the number of iterations left. The statement after the loop
  (\<^verbatim>\<open>raise RuntimeError("Max retries exceeded")\<close>) is the case of no iteration left.
\<close>

fun request_attempts :: "env \<Rightarrow> request \<Rightarrow> nat \<Rightarrow> nat \<Rightarrow> response action" where
  "request_attempts e rq attempt 0 w = (Inl (RuntimeError ''Max retries exceeded''), w)"
| "request_attempts e rq attempt (Suc remaining) w =
     (case exchange e rq w of
        (Inr resp, w') \<Rightarrow> (Inr resp, w')
      | (Inl (HTTPStatusError code), w') \<Rightarrow>
          (if code = 404 \<and> attempt = max_retries - 1 then (Inl (HTTPStatusError code), w')
           else if code \<ge> 500 \<and> attempt < max_retries - 1
             then request_attempts e rq (attempt + 1) remaining (log_event (Sleep (2 ^ attempt)) w')
           else (Inl (HTTPStatusError code), w'))
      | (Inl RequestError, w') \<Rightarrow>
          (if attempt < max_retries - 1
             then request_attempts e rq (attempt + 1) remaining (log_event (Sleep (2 ^ attempt)) w')
           else (Inl RequestError, w'))
      | (Inl err, w') \<Rightarrow> (Inl err, w'))"

definition request :: "env \<Rightarrow> request \<Rightarrow> response action" where
  "request e rq = request_attempts e rq 0 max_retries"

subsection \<open>The client's operations\<close>

text \<open>
  A response of another shape than the request asks for does not occur with \<open>serve\<close>;
  the model raises a \<^verbatim>\<open>TypeError\<close> there, where the Python would fail on the JSON.
\<close>

definition get_release :: "env \<Rightarrow> string \<Rightarrow> string option action" where
  "get_release e tag w =
     (case request e (GetReleaseByTag tag) w of
        (Inr (ReleaseJson release), w') \<Rightarrow> (Inr (Some release), w')
      | (Inr other, w') \<Rightarrow> (Inl TypeError, w')
      | (Inl (HTTPStatusError code), w') \<Rightarrow>
          (if code = 404 then (Inr None, w') else (Inl (HTTPStatusError code), w'))
      | (Inl err, w') \<Rightarrow> (Inl err, w'))"

definition create_release :: "env \<Rightarrow> string \<Rightarrow> string action" where
  "create_release e tag w =
     (case request e (CreateRelease tag) w of
        (Inr (ReleaseJson release), w') \<Rightarrow> (Inr release, w')
      | (Inr other, w') \<Rightarrow> (Inl TypeError, w')
      | (Inl err, w') \<Rightarrow> (Inl err, w'))"

definition get_or_create_release :: "env \<Rightarrow> string \<Rightarrow> string action" where
  "get_or_create_release e tag =
     and_then (get_release e tag)
       (\<lambda>release. case release of Some r \<Rightarrow> ret r | None \<Rightarrow> create_release e tag)"

definition list_assets :: "env \<Rightarrow> string \<Rightarrow> Asset list action" where
  "list_assets e release w =
     (case request e (ListAssets release) w of
        (Inr (AssetsJson assets), w') \<Rightarrow> (Inr assets, w')
      | (Inr other, w') \<Rightarrow> (Inl TypeError, w')
      | (Inl err, w') \<Rightarrow> (Inl err, w'))"

text \<open>
  The name looked for is a JSON value: \<open>restore_from_lfs\<close> passes the pointer's field
  as it was read, and \<^verbatim>\<open>asset["name"] == name\<close> is false for anything but an equal string.
\<close>

definition get_asset_by_name :: "env \<Rightarrow> string \<Rightarrow> json \<Rightarrow> Asset option action" where
  "get_asset_by_name e release name =
     and_then (list_assets e release)
       (\<lambda>assets. ret (find (\<lambda>asset. JStr (asset_name asset) = name) assets))"

text \<open>\<open>delete_asset\<close> catches every exception and answers \<open>False\<close>.\<close>

definition delete_asset :: "env \<Rightarrow> Asset \<Rightarrow> bool action" where
  "delete_asset e asset w =
     (case request e (DeleteAsset (asset_id asset)) w of
        (Inr resp, w') \<Rightarrow> (Inr True, w')
      | (Inl err, w') \<Rightarrow> (Inr False, w'))"

text \<open>
  \<open>upload_asset\<close> and \<open>download_asset\<close> send their payload request through a client
  of their own (\<^verbatim>\<open>client.post\<close>, \<^verbatim>\<open>client.stream\<close>) followed by \<^verbatim>\<open>raise_for_status\<close>:
  one exchange, outside \<open>request\<close>.
\<close>

definition upload_asset :: "env \<Rightarrow> string \<Rightarrow> string \<Rightarrow> string \<Rightarrow> Asset action" where
  "upload_asset e release file_path name =
     and_then (get_asset_by_name e release (JStr name)) (\<lambda>existing.
     and_then (case existing of
                 Some old \<Rightarrow> delete_asset e old
               | None \<Rightarrow> ret True) (\<lambda>deleted.
     (\<lambda>w. case map_of (files w) file_path of
             None \<Rightarrow> (Inl OSError, w)
           | Some file_data \<Rightarrow>
               (case exchange e (UploadAsset release name file_data) w of
                  (Inr (AssetJson asset), w') \<Rightarrow> (Inr asset, w')
                | (Inr other, w') \<Rightarrow> (Inl TypeError, w')
                | (Inl err, w') \<Rightarrow> (Inl err, w')))))"

definition download_asset :: "env \<Rightarrow> Asset \<Rightarrow> string \<Rightarrow> bool action" where
  "download_asset e asset save_path w =
     (case exchange e (DownloadAsset (asset_id asset)) w of
        (Inr (Bytes payload), w') \<Rightarrow>
          (Inr True, w'\<lparr>files := AList.update save_path payload (files w')\<rparr>)
      | (Inr other, w') \<Rightarrow> (Inl TypeError, w')
      | (Inl err, w') \<Rightarrow> (Inl err, w'))"

section \<open>Offload and restore (sync/core/lfs_ops.py)\<close>

subsection \<open>Paths and names\<close>

text \<open>\<^verbatim>\<open>os.path.basename\<close> and \<^verbatim>\<open>os.path.dirname\<close> on POSIX paths.\<close>

definition basename :: "string \<Rightarrow> string" where
  "basename path = rev (takeWhile (\<lambda>c. c \<noteq> CHR ''/'') (rev path))"

definition dirname :: "string \<Rightarrow> string" where
  "dirname path =
     (let head = dropWhile (\<lambda>c. c \<noteq> CHR ''/'') (rev path) in
      if head \<noteq> [] \<and> \<not> list_all (\<lambda>c. c = CHR ''/'') head
      then rev (dropWhile (\<lambda>c. c = CHR ''/'') head)
      else rev head)"

text \<open>\<^verbatim>\<open>re.sub(r'_+', '_', s)\<close>: every run of underscores becomes one underscore.\<close>

fun collapse_underscores :: "string \<Rightarrow> string" where
  "collapse_underscores [] = []"
| "collapse_underscores [c] = [c]"
| "collapse_underscores (c # d # cs) =
     (if c = CHR ''_'' \<and> d = CHR ''_'' then collapse_underscores (d # cs)
      else c # collapse_underscores (d # cs))"

definition allowed_char :: "char \<Rightarrow> bool" where
  "allowed_char c =
     ((CHR ''a'' \<le> c \<and> c \<le> CHR ''z'') \<or> (CHR ''A'' \<le> c \<and> c \<le> CHR ''Z'')
      \<or> (CHR ''0'' \<le> c \<and> c \<le> CHR ''9'')
      \<or> c = CHR ''.'' \<or> c = CHR ''_'' \<or> c = CHR ''-'')"

definition sanitize_filename :: "string \<Rightarrow> string" where
  "sanitize_filename filename =
     (let s1 = map (\<lambda>c. if c = CHR '' '' then CHR ''_'' else c) filename;
          s2 = map (\<lambda>c. if c = CHR ''('' \<or> c = CHR '')'' then CHR ''_'' else c) s1;
          s3 = collapse_underscores s2
      in map (\<lambda>c. if allowed_char c then c else CHR ''_'') s3)"

definition calculate_file_hash :: "env \<Rightarrow> fs \<Rightarrow> string \<Rightarrow> exn + string" where
  "calculate_file_hash e fsys file_path =
     (case map_of fsys file_path of
        None \<Rightarrow> Inl OSError
      | Some content \<Rightarrow> Inr (''sha256:'' @ sha256_hexdigest e content))"

definition should_use_lfs :: "fs \<Rightarrow> string \<Rightarrow> int \<Rightarrow> bool" where
  "should_use_lfs fsys file_path threshold =
     (case map_of fsys file_path of
        None \<Rightarrow> False
      | Some content \<Rightarrow> int (length content) > threshold)"

text \<open>
  \<^verbatim>\<open>file_hash.split(':')[1]\<close>: the text between the first and the second colon
  (\<^verbatim>\<open>IndexError\<close> when there is no colon).
\<close>

definition split_colon_1 :: "string \<Rightarrow> exn + string" where
  "split_colon_1 s =
     (if CHR '':'' \<notin> set s then Inl IndexError
      else Inr (takeWhile (\<lambda>c. c \<noteq> CHR '':'') (drop 1 (dropWhile (\<lambda>c. c \<noteq> CHR '':'') s))))"

text \<open>\<^verbatim>\<open>str.strip()\<close> removes leading and trailing ASCII whitespace.\<close>

definition is_space :: "char \<Rightarrow> bool" where
  "is_space c = (c = CHR '' '' \<or> c = CHR 0x09 \<or> c = CHR 0x0A \<or> c = CHR 0x0B
                 \<or> c = CHR 0x0C \<or> c = CHR 0x0D)"

definition strip :: "string \<Rightarrow> string" where
  "strip s = rev (dropWhile is_space (rev (dropWhile is_space s)))"

text \<open>
  \<open>ensure_git_info_exclude\<close> (sync/core/blacklist.py) appends the entries that are not
  yet lines of the exclude file.
\<close>

definition ensure_git_info_exclude :: "string list \<Rightarrow> world \<Rightarrow> world" where
  "ensure_git_info_exclude excludes w =
     w\<lparr>git_exclude := git_exclude w @
          filter (\<lambda>ex. ex \<noteq> [] \<and> ex \<notin> set (git_exclude w)) (map strip excludes)\<rparr>"

text \<open>
  Modelled from the spec: \<^verbatim>\<open>git_ops.run\<close> is not among the sources. Step 6 of
  \<open>convert_to_lfs\<close> asks the index whether the path is tracked and, if so, removes it
  from the index only (spec 4.4, step 5); failures there are caught and logged.
\<close>

definition unstage :: "string \<Rightarrow> world \<Rightarrow> world" where
  "unstage rel_path w =
     (if rel_path \<in> set (git_index w) then w\<lparr>git_index := removeAll rel_path (git_index w)\<rparr>
      else w)"

subsection \<open>Offload\<close>

text \<open>
  The body of the \<^verbatim>\<open>try\<close> of \<open>convert_to_lfs\<close>; the manifest is the one of the world,
  and its \<open>hist_dir\<close> is the repository directory.
\<close>

definition convert_body :: "env \<Rightarrow> string \<Rightarrow> string \<Rightarrow> bool action" where
  "convert_body e file_path release_tag =
     and_then (\<lambda>w. (calculate_file_hash e (files w) file_path, w)) (\<lambda>file_hash.
     and_then (\<lambda>w. (case map_of (files w) file_path of
                       None \<Rightarrow> Inl OSError
                     | Some content \<Rightarrow> Inr (int (length content)), w)) (\<lambda>file_size.
     and_then (\<lambda>w. (split_colon_1 file_hash, w)) (\<lambda>hex.
     (let filename = basename file_path;
          hash_prefix = take 12 hex;
          clean_filename = sanitize_filename filename;
          name = hash_prefix @ ''-'' @ clean_filename
      in
     and_then (get_or_create_release e release_tag) (\<lambda>release.
     and_then (get_asset_by_name e release (JStr name)) (\<lambda>existing_asset.
     and_then (case existing_asset of
                 None \<Rightarrow> and_then (upload_asset e release file_path name)
                           (\<lambda>uploaded_asset. ret (asset_name uploaded_asset))
               | Some found \<Rightarrow> ret (asset_name found)) (\<lambda>actual_asset_name.
     (\<lambda>w.
        let pointer = \<lparr>pf_version = JInt 1, pf_hash = JStr file_hash, pf_size = JInt file_size,
                       pf_filename = JStr filename, pf_release_tag = JStr release_tag,
                       pf_asset_name = JStr actual_asset_name\<rparr>;
            pointer_path = file_path @ ''.pointer'';
            w1 = w\<lparr>files := write_pointer e (files w) pointer_path pointer\<rparr>;
            rel_path = relpath e file_path (hist_dir (manifest w1));
            w2 = unstage rel_path w1;
            w3 = w2\<lparr>manifest := save (add_version (clock w2) (manifest w2) rel_path file_hash
                                          actual_asset_name file_size True)\<rparr>;
            w4 = ensure_git_info_exclude [rel_path] w3
        in (Inr True, w4)))))))))"

definition convert_to_lfs :: "env \<Rightarrow> string \<Rightarrow> string \<Rightarrow> world \<Rightarrow> bool \<times> world" where
  "convert_to_lfs e file_path release_tag w =
     (case convert_body e file_path release_tag (log_event (ConvertCall file_path) w) of
        (Inr ok, w') \<Rightarrow> (ok, w')
      | (Inl err, w') \<Rightarrow> (False, w'))"

subsection \<open>Restore\<close>

text \<open>\<^verbatim>\<open>os.remove\<close> raises when the file is missing; \<^verbatim>\<open>shutil.move\<close> renames over the target.\<close>

definition os_remove :: "string \<Rightarrow> unit action" where
  "os_remove path w =
     (if isfile (files w) path then (Inr (), w\<lparr>files := AList.delete path (files w)\<rparr>)
      else (Inl OSError, w))"

definition shutil_move :: "string \<Rightarrow> string \<Rightarrow> unit action" where
  "shutil_move src dst w =
     (case map_of (files w) src of
        None \<Rightarrow> (Inl OSError, w)
      | Some content \<Rightarrow>
          (Inr (), w\<lparr>files := AList.update dst content (AList.delete src (files w))\<rparr>))"

text \<open>The tag of the pointer goes into the request URL through an f-string.\<close>

definition format_tag :: "env \<Rightarrow> json \<Rightarrow> string" where
  "format_tag e tag = (case tag of JStr s \<Rightarrow> s | other \<Rightarrow> str_of e other)"

text \<open>
  The loop over the recorded versions when the pointer's asset is absent: the first
  version whose asset is found ends the loop and overwrites the pointer's asset name,
  hash and size (in memory only).
\<close>

fun fallback_versions ::
  "env \<Rightarrow> string \<Rightarrow> FileVersion list \<Rightarrow> PointerFile \<Rightarrow> (Asset option \<times> PointerFile) action" where
  "fallback_versions e release [] pointer w = (Inr (None, pointer), w)"
| "fallback_versions e release (version # rest) pointer w =
     (case get_asset_by_name e release (JStr (fv_asset_name version)) w of
        (Inl err, w') \<Rightarrow> (Inl err, w')
      | (Inr (Some asset), w') \<Rightarrow>
          (Inr (Some asset,
                pointer\<lparr>pf_asset_name := JStr (fv_asset_name version),
                        pf_hash := JStr (fv_hash version),
                        pf_size := JInt (fv_size version)\<rparr>), w')
      | (Inr None, w') \<Rightarrow> fallback_versions e release rest pointer w')"

text \<open>Step 6 of \<open>restore_from_lfs\<close>: the destination is kept when it already matches.\<close>

definition materialize :: "env \<Rightarrow> string \<Rightarrow> string \<Rightarrow> PointerFile \<Rightarrow> bool action" where
  "materialize e pointer_path temp_path pointer w =
     (let actual_path = (if endswith pointer_path ''.pointer''
                         then take (length pointer_path - 8) pointer_path else pointer_path);
          place = and_then (shutil_move temp_path actual_path) (\<lambda>u. (\<lambda>w1.
                    (Inr True,
                     ensure_git_info_exclude
                       [relpath e actual_path (hist_dir (manifest w1))] w1)))
      in if isfile (files w) actual_path
         then (case calculate_file_hash e (files w) actual_path of
                 Inl err \<Rightarrow> (Inl err, w)
               | Inr existing_hash \<Rightarrow>
                   if JStr existing_hash = pf_hash pointer
                   then and_then (os_remove temp_path) (\<lambda>u. ret True) w
                   else place w)
         else place w)"

definition restore_body :: "env \<Rightarrow> string \<Rightarrow> bool \<Rightarrow> bool action" where
  "restore_body e pointer_path verify_hash w =
     (case read_pointer e (files w) pointer_path of
        None \<Rightarrow> (Inr False, w)
      | Some pointer0 \<Rightarrow>
          (case validate_pointer pointer0 of
             Inl err \<Rightarrow> (Inl err, w)
           | Inr False \<Rightarrow> (Inr False, w)
           | Inr True \<Rightarrow>
               and_then (get_release e (format_tag e (pf_release_tag pointer0))) (\<lambda>found.
               case found of
                 None \<Rightarrow> ret False
               | Some release \<Rightarrow>
                   and_then (get_asset_by_name e release (pf_asset_name pointer0)) (\<lambda>first.
                   and_then (case first of
                               Some asset \<Rightarrow> ret (Some asset, pointer0)
                             | None \<Rightarrow> (\<lambda>w1.
                                 fallback_versions e release
                                   (get_all_versions (manifest w1)
                                      (relpath e (take (length pointer_path - 8) pointer_path)
                                         (hist_dir (manifest w1))))
                                   pointer0 w1)) (\<lambda>(resolved, pointer).
                   case resolved of
                     None \<Rightarrow> ret False
                   | Some asset \<Rightarrow>
                       (let temp_path = pointer_path @ ''.tmp'' in
                        and_then (download_asset e asset temp_path) (\<lambda>done.
                        if verify_hash
                        then and_then (\<lambda>w2. (calculate_file_hash e (files w2) temp_path, w2))
                               (\<lambda>downloaded_hash.
                                  if JStr downloaded_hash \<noteq> pf_hash pointer
                                  then and_then (os_remove temp_path) (\<lambda>u. ret False)
                                  else materialize e pointer_path temp_path pointer)
                        else materialize e pointer_path temp_path pointer))))) w))"

text \<open>
  \<open>restore_from_lfs\<close>: any exception of the body gives \<open>False\<close>, after the temporary
  file is removed if it is there.
\<close>

definition restore_from_lfs :: "env \<Rightarrow> string \<Rightarrow> bool \<Rightarrow> world \<Rightarrow> bool \<times> world" where
  "restore_from_lfs e pointer_path verify_hash w =
     (case restore_body e pointer_path verify_hash
             (log_event (RestoreCall pointer_path verify_hash) w) of
        (Inr ok, w') \<Rightarrow> (ok, w')
      | (Inl err, w') \<Rightarrow>
          (False,
           if isfile (files w') (pointer_path @ ''.tmp'')
           then w'\<lparr>files := AList.delete (pointer_path @ ''.tmp'') (files w')\<rparr> else w'))"

subsection \<open>Scanning the tree\<close>

text \<open>
  \<^verbatim>\<open>os.walk(directory)\<close> over a file system of regular files: the files below
  \<open>directory\<close>, each met with \<open>root = dirname path\<close>. The order is the order of the
  file system's listing.
\<close>

definition walk :: "fs \<Rightarrow> string \<Rightarrow> string list" where
  "walk fsys directory =
     (let prefix = (if endswith directory ''/'' then directory else directory @ ''/'')
      in filter (\<lambda>path. startswith path prefix) (map fst fsys))"

fun scan_pointers_loop :: "env \<Rightarrow> fs \<Rightarrow> string list \<Rightarrow> exn + string list" where
  "scan_pointers_loop e fsys [] = Inr []"
| "scan_pointers_loop e fsys (path # rest) =
     (if contains (dirname path) ''.git'' then scan_pointers_loop e fsys rest
      else (case is_pointer_file e fsys path of
              Inl err \<Rightarrow> Inl err
            | Inr is_ptr \<Rightarrow>
                (case scan_pointers_loop e fsys rest of
                   Inl err \<Rightarrow> Inl err
                 | Inr pointers \<Rightarrow> Inr (if is_ptr then path # pointers else pointers))))"

definition scan_pointer_files :: "env \<Rightarrow> string \<Rightarrow> string list action" where
  "scan_pointer_files e directory w =
     (scan_pointers_loop e (files w) (walk (files w) directory),
      log_event (ScanPointers directory) w)"

definition scan_large_files :: "env \<Rightarrow> string \<Rightarrow> int \<Rightarrow> string list \<Rightarrow> world \<Rightarrow> string list \<times> world" where
  "scan_large_files e directory threshold excludes w =
     (filter (\<lambda>path.
        \<not> (contains (dirname path) ''.git'' \<or> contains (dirname path) ''.lfs'')
        \<and> \<not> list_ex (\<lambda>ex. startswith (relpath e (dirname path) directory) ex) excludes
        \<and> \<not> endswith (basename path) ''.pointer''
        \<and> should_use_lfs (files w) path threshold)
        (walk (files w) directory),
      log_event (ScanLarge directory) w)"

section \<open>The synchronisation cycle (sync/daemon.py)\<close>

text \<open>
  The settings the cycle reads, and the daemon: \<open>lfs_ready\<close> says that the constructor
  set both \<^verbatim>\<open>_lfs_api\<close> and \<^verbatim>\<open>_lfs_manifest\<close>. The manifest of the world is the daemon's.
\<close>

record Settings =
  st_hist_dir :: string
  st_branch :: string
  st_excludes :: "string list"
  lfs_enabled :: bool
  lfs_threshold :: int
  lfs_release_tag :: string
  lfs_max_versions :: int
  lfs_max_workers :: int

record SyncDaemon =
  settings :: Settings
  lfs_ready :: bool

fun convert_all :: "env \<Rightarrow> string \<Rightarrow> string list \<Rightarrow> world \<Rightarrow> world" where
  "convert_all e release_tag [] w = w"
| "convert_all e release_tag (file_path # rest) w =
     convert_all e release_tag rest (snd (convert_to_lfs e file_path release_tag w))"

text \<open>Deleting the evicted assets: a failure on one name is caught, the loop goes on.\<close>

fun delete_old_assets :: "env \<Rightarrow> string \<Rightarrow> string list \<Rightarrow> world \<Rightarrow> world" where
  "delete_old_assets e release [] w = w"
| "delete_old_assets e release (name # rest) w =
     (case get_asset_by_name e release (JStr name) w of
        (Inr (Some asset), w') \<Rightarrow> delete_old_assets e release rest (snd (delete_asset e asset w'))
      | (Inr None, w') \<Rightarrow> delete_old_assets e release rest w'
      | (Inl err, w') \<Rightarrow> delete_old_assets e release rest w')"

text \<open>
  \<open>process_large_files\<close>: an exception of \<open>get_or_create_release\<close> leaves through the
  outer handler, before the manifest is saved.
\<close>

definition process_large_files :: "SyncDaemon \<Rightarrow> env \<Rightarrow> world \<Rightarrow> world" where
  "process_large_files d e w =
     (if \<not> lfs_enabled (settings d) \<or> \<not> lfs_ready d then w
      else
        (case scan_large_files e (st_hist_dir (settings d)) (lfs_threshold (settings d))
                (st_excludes (settings d)) w of
           (large_files, w1) \<Rightarrow>
             if large_files = [] then w1
             else
               (let w2 = convert_all e (lfs_release_tag (settings d)) large_files w1 in
                case cleanup_all_old_versions (manifest w2) (lfs_max_versions (settings d)) of
                  (to_delete, m) \<Rightarrow>
                    (let w3 = w2\<lparr>manifest := m\<rparr> in
                     if to_delete \<noteq> []
                     then (case get_or_create_release e (lfs_release_tag (settings d)) w3 of
                             (Inl err, w4) \<Rightarrow> w4
                           | (Inr release, w4) \<Rightarrow>
                               (let w5 = delete_old_assets e release
                                           (concat (map snd to_delete)) w4
                                in w5\<lparr>manifest := save (manifest w5)\<rparr>))
                     else w3\<lparr>manifest := save (manifest w3)\<rparr>))))"

text \<open>
  The repair step of the cycle, for one pointer and for all: a pointer that does not
  parse is skipped; a pointer whose real file is missing is restored.
\<close>

definition repair_one :: "env \<Rightarrow> string \<Rightarrow> world \<Rightarrow> world" where
  "repair_one e pointer_path w =
     (case read_pointer e (files w) pointer_path of
        None \<Rightarrow> w
      | Some pointer \<Rightarrow>
          (let actual_path = (if endswith pointer_path ''.pointer''
                              then take (length pointer_path - 8) pointer_path
                              else pointer_path)
           in if \<not> isfile (files w) actual_path
              then snd (restore_from_lfs e pointer_path False w)
              else w))"

fun repair_loop :: "env \<Rightarrow> string list \<Rightarrow> world \<Rightarrow> world" where
  "repair_loop e [] w = w"
| "repair_loop e (pointer_path # rest) w = repair_loop e rest (repair_one e pointer_path w)"

definition repair :: "SyncDaemon \<Rightarrow> env \<Rightarrow> world \<Rightarrow> world" where
  "repair d e w =
     (if lfs_enabled (settings d) \<and> lfs_ready d
      then (case scan_pointer_files e (st_hist_dir (settings d)) w of
              (Inl err, w') \<Rightarrow> w'
            | (Inr pointers, w') \<Rightarrow> repair_loop e pointers w')
      else w)"

text \<open>
  Modelled from the spec: \<^verbatim>\<open>git_ops\<close> is not among the sources. The pull changes the
  working tree as \<open>git_pull\<close> says; commit and push are recorded in the trace. The file
  system holds regular files only, so it has no empty directory for
  \<^verbatim>\<open>track_empty_dirs\<close> to mark.
\<close>

definition pull_commit_push :: "SyncDaemon \<Rightarrow> env \<Rightarrow> world \<Rightarrow> world" where
  "pull_commit_push d e w =
     (let w1 = log_event GitPull (w\<lparr>files := git_pull e (files w)\<rparr>);
          w2 = log_event Chmod w1;
          w3 = repair d e w2;
          w4 = process_large_files d e w3;
          w5 = log_event TrackEmptyDirs w4;
          w6 = log_event GitCommit w5
      in log_event GitPush w6)"

section \<open>Vocabulary of the properties\<close>

text \<open>
  The keys \<open>from_dict\<close> reads with \<^verbatim>\<open>data[key]\<close>; \<^verbatim>\<open>version\<close> is read with a default.
\<close>

definition required_fields :: "string list" where
  "required_fields = [''hash'', ''size'', ''filename'', ''release_tag'', ''asset_name'']"

text \<open>
  The failures \<open>request\<close> retries: a network error and an error status of 500 or more.
  \<open>fault_exn\<close> is the exception a scheduled fault makes the exchange raise.
\<close>

fun transient :: "fault \<Rightarrow> bool" where
  "transient NetworkError = True"
| "transient (Status code) = (500 \<le> code)"
| "transient Deliver = False"

fun fault_exn :: "fault \<Rightarrow> exn option" where
  "fault_exn NetworkError = Some RequestError"
| "fault_exn (Status code) = Some (HTTPStatusError code)"
| "fault_exn Deliver = None"

text \<open>
  The destination of a pointer exists and its content hashes to the hash the pointer
  records.
\<close>

definition already_satisfied :: "env \<Rightarrow> fs \<Rightarrow> string \<Rightarrow> PointerFile \<Rightarrow> bool" where
  "already_satisfied e fsys pointer_path pointer =
     (case map_of fsys (get_real_path_from_pointer pointer_path) of
        None \<Rightarrow> False
      | Some content \<Rightarrow> JStr (''sha256:'' @ sha256_hexdigest e content) = pf_hash pointer)"

text \<open>
  The number of download exchanges and of upload exchanges a trace holds: every
  \<^verbatim>\<open>GET\<close> of an asset's bytes and every \<^verbatim>\<open>POST\<close> of a payload the client sent.
\<close>

fun is_download :: "event \<Rightarrow> bool" where
  "is_download (Http (DownloadAsset i)) = True"
| "is_download ev = False"

fun is_upload :: "event \<Rightarrow> bool" where
  "is_upload (Http (UploadAsset tag name payload)) = True"
| "is_upload ev = False"

definition downloads :: "event list \<Rightarrow> nat" where
  "downloads tr = length (filter is_download tr)"

definition uploads :: "event list \<Rightarrow> nat" where
  "uploads tr = length (filter is_upload tr)"

text \<open>
  A recorded version survives in a release when the release still holds an asset of
  the version's name. \<open>adopt\<close> is the pointer after the fallback loop took a version.
\<close>

definition survives :: "Blob list \<Rightarrow> FileVersion \<Rightarrow> bool" where
  "survives blobs v = list_ex (\<lambda>b. blob_name b = fv_asset_name v) blobs"

definition adopt :: "PointerFile \<Rightarrow> FileVersion \<Rightarrow> PointerFile" where
  "adopt pointer v = pointer\<lparr>pf_asset_name := JStr (fv_asset_name v),
                             pf_hash := JStr (fv_hash v),
                             pf_size := JInt (fv_size v)\<rparr>"

text \<open>
  What \<open>convert_to_lfs\<close> computes from a file's path and content: the hash string of
  step 1, the asset name of step 2, and the pointer of step 5 once the store has filed
  the upload under its authoritative name.
\<close>

definition content_hash :: "env \<Rightarrow> string \<Rightarrow> string" where
  "content_hash e content = ''sha256:'' @ sha256_hexdigest e content"

definition derived_asset_name :: "env \<Rightarrow> string \<Rightarrow> string \<Rightarrow> string" where
  "derived_asset_name e file_path content =
     take 12 (takeWhile (\<lambda>c. c \<noteq> CHR '':'') (sha256_hexdigest e content))
       @ ''-'' @ sanitize_filename (basename file_path)"

definition offload_pointer :: "env \<Rightarrow> string \<Rightarrow> string \<Rightarrow> string \<Rightarrow> string \<Rightarrow> PointerFile" where
  "offload_pointer e file_path content release_tag actual_asset_name =
     \<lparr>pf_version = JInt 1, pf_hash = JStr (content_hash e content),
      pf_size = JInt (int (length content)), pf_filename = JStr (basename file_path),
      pf_release_tag = JStr release_tag, pf_asset_name = JStr actual_asset_name\<rparr>"

text \<open>The assets a release holds; none when the release does not exist.\<close>

definition blobs_of :: "store \<Rightarrow> string \<Rightarrow> Blob list" where
  "blobs_of sto tag = (case map_of (releases sto) tag of None \<Rightarrow> [] | Some blobs \<Rightarrow> blobs)"

text \<open>Every asset number of the store is below the next number the store will give.\<close>

definition ids_below_next :: "store \<Rightarrow> bool" where
  "ids_below_next sto = list_all (\<lambda>b. blob_id b < next_id sto) (all_blobs sto)"

text \<open>
  Kinds of events. Network events (exchanges and back-off sleeps) occur inside every
  operation of the client. The repair step of a cycle scans for pointers and calls
  \<open>restore_from_lfs\<close>; the offload step scans for large files and calls
  \<open>convert_to_lfs\<close>.
\<close>

fun is_net :: "event \<Rightarrow> bool" where
  "is_net (Http rq) = True"
| "is_net (Sleep n) = True"
| "is_net ev = False"

fun repair_step_event :: "event \<Rightarrow> bool" where
  "repair_step_event (ScanPointers directory) = True"
| "repair_step_event (RestoreCall pointer_path verify) = True"
| "repair_step_event ev = False"

fun offload_step_event :: "event \<Rightarrow> bool" where
  "offload_step_event (ScanLarge directory) = True"
| "offload_step_event (ConvertCall file_path) = True"
| "offload_step_event ev = False"

text \<open>A restore call that asks for hash verification.\<close>

fun verifying_restore :: "event \<Rightarrow> bool" where
  "verifying_restore (RestoreCall pointer_path verify) = verify"
| "verifying_restore ev = False"

text \<open>
  \<open>extends P w w'\<close>: the trace of \<open>w'\<close> is the trace of \<open>w\<close> followed by events that
  all satisfy \<open>P\<close>. \<open>cycle_events\<close> are the events one cycle adds to the trace.
\<close>

definition extends :: "(event \<Rightarrow> bool) \<Rightarrow> world \<Rightarrow> world \<Rightarrow> bool" where
  "extends P w w' = (\<exists>evs. trace w' = trace w @ evs \<and> list_all P evs)"

definition cycle_events :: "SyncDaemon \<Rightarrow> env \<Rightarrow> world \<Rightarrow> event list" where
  "cycle_events d e w = drop (length (trace w)) (trace (pull_commit_push d e w))"

text \<open>
  The events the repair step may add (network events, its scan, restore calls without
  verification) and the events the offload step may add.
\<close>

definition in_repair_step :: "event \<Rightarrow> bool" where
  "in_repair_step ev = (is_net ev \<or> (repair_step_event ev \<and> \<not> verifying_restore ev))"

definition in_offload_step :: "event \<Rightarrow> bool" where
  "in_offload_step ev = (is_net ev \<or> offload_step_event ev)"

section \<open>Concrete scenarios\<close>

text \<open>
  A record for \<^verbatim>\<open>model.bin\<close> with four versions uploaded on four consecutive days.
  The file was reverted to its first content afterwards: \<open>add_version\<close> found that
  hash already recorded, appended nothing and made it the current hash again.
\<close>

definition ver :: "string \<Rightarrow> string \<Rightarrow> string \<Rightarrow> FileVersion" where
  "ver h a t = \<lparr>fv_hash = h, fv_asset_name = a, fv_size = 100, fv_timestamp = t,
                 fv_uploaded = True\<rparr>"

definition stale_record :: FileRecord where
  "stale_record = \<lparr>current_hash = ''sha256:aa'',
     versions = [ver ''sha256:aa'' ''aa-model.bin'' ''2024-01-01T00:00:00Z'',
                 ver ''sha256:bb'' ''bb-model.bin'' ''2024-01-02T00:00:00Z'',
                 ver ''sha256:cc'' ''cc-model.bin'' ''2024-01-03T00:00:00Z'',
                 ver ''sha256:dd'' ''dd-model.bin'' ''2024-01-04T00:00:00Z'']\<rparr>"

definition stale_manifest :: Manifest where
  "stale_manifest = \<lparr>hist_dir = ''/h'', manifest_release_tag = ''large-files-v1'',
     manifest_files = [(''model.bin'', stale_record)], persisted = []\<rparr>"

text \<open>
  The running example: \<^verbatim>\<open>/h/data/model.bin\<close> in the repository \<^verbatim>\<open>/h\<close>, its pointer as
  \<open>convert_to_lfs\<close> builds it, and the text of that pointer. A second pointer text has
  every field but \<^verbatim>\<open>version\<close>.
\<close>

definition model_pointer :: PointerFile where
  "model_pointer = \<lparr>pf_version = JInt 1, pf_hash = JStr ''sha256:ab12cd34ef56aa77'',
     pf_size = JInt 13, pf_filename = JStr ''model.bin'',
     pf_release_tag = JStr ''large-files-v1'',
     pf_asset_name = JStr ''ab12cd34ef56-model.bin''\<rparr>"

definition model_pointer_text :: string where
  \<open>model_pointer_text = ''{"version": 1, "type": "lfs-pointer", "hash": "sha256:ab12cd34ef56aa77", "size": 13, "filename": "model.bin", "release_tag": "large-files-v1", "asset_name": "ab12cd34ef56-model.bin"}''\<close>

definition unversioned_fields :: "(string \<times> json) list" where
  "unversioned_fields =
     [(''type'', JStr ''lfs-pointer''), (''hash'', JStr ''sha256:ab12cd34ef56aa77''),
      (''size'', JInt 13), (''filename'', JStr ''model.bin''),
      (''release_tag'', JStr ''large-files-v1''),
      (''asset_name'', JStr ''ab12cd34ef56-model.bin'')]"

definition unversioned_text :: string where
  \<open>unversioned_text = ''{"type": "lfs-pointer", "hash": "sha256:ab12cd34ef56aa77", "size": 13, "filename": "model.bin", "release_tag": "large-files-v1", "asset_name": "ab12cd34ef56-model.bin"}''\<close>

text \<open>
  An environment for the examples: \<open>json_loads\<close> and \<open>json_dumps\<close> are tables over the
  texts above, the digest is a table over the contents used, \<open>relpath\<close> strips the
  start directory, the store keeps the names it is given, and the pull changes nothing.
\<close>

definition json_table :: "(string \<times> json) list" where
  "json_table = [(model_pointer_text, to_dict model_pointer),
                 (unversioned_text, JDict unversioned_fields)]"

definition digest_table :: "(string \<times> string) list" where
  "digest_table = [(''MODEL-WEIGHTS'', ''ab12cd34ef56aa77''),
                   (''OLDER-WEIGHTS'', ''77aa65fe43dc21ba''),
                   (''GARBLED-BYTES'', ''ffffeeeeddddcccc'')]"

definition demo_env :: env where
  "demo_env = \<lparr>
     json_loads = map_of json_table,
     json_dumps = (\<lambda>j. case find (\<lambda>entry. snd entry = j) json_table of
                          Some entry \<Rightarrow> fst entry | None \<Rightarrow> []),
     sha256_hexdigest = (\<lambda>content. case map_of digest_table content of
                          Some h \<Rightarrow> h | None \<Rightarrow> ''0000000000000000''),
     relpath = (\<lambda>path start. if startswith path (start @ ''/'')
                               then drop (length start + 1) path else path),
     str_of = (\<lambda>j. []),
     stored_name = (\<lambda>name. name),
     git_pull = (\<lambda>fsys. fsys)\<rparr>"

definition empty_manifest :: Manifest where
  "empty_manifest = \<lparr>hist_dir = ''/h'', manifest_release_tag = ''large-files-v1'',
     manifest_files = [], persisted = []\<rparr>"

text \<open>The world before the first offload: the release exists and holds no asset.\<close>

definition start_world :: world where
  "start_world = \<lparr>
     files = [(''/h/data/model.bin'', ''MODEL-WEIGHTS'')],
     blob_store = \<lparr>releases = [(''large-files-v1'', [])], next_id = 1\<rparr>,
     faults = [],
     trace = [],
     manifest = empty_manifest,
     git_index = [''data/model.bin''],
     git_exclude = [],
     clock = ''2024-01-05T10:00:00Z''\<rparr>"

text \<open>
  The world after \<^verbatim>\<open>model.bin\<close> was offloaded: pointer written, asset 1 in the release,
  one version in the manifest, the real file still in place.
\<close>

definition model_record :: FileRecord where
  "model_record = \<lparr>current_hash = ''sha256:ab12cd34ef56aa77'',
     versions = [\<lparr>fv_hash = ''sha256:ab12cd34ef56aa77'',
                  fv_asset_name = ''ab12cd34ef56-model.bin'', fv_size = 13,
                  fv_timestamp = ''2024-01-05T10:00:00Z'', fv_uploaded = True\<rparr>]\<rparr>"

definition offloaded_world :: world where
  "offloaded_world = \<lparr>
     files = [(''/h/data/model.bin'', ''MODEL-WEIGHTS''),
              (''/h/data/model.bin.pointer'', model_pointer_text)],
     blob_store = \<lparr>releases = [(''large-files-v1'',
                     [\<lparr>blob_id = 1, blob_name = ''ab12cd34ef56-model.bin'',
                       blob_content = ''MODEL-WEIGHTS''\<rparr>])],
                   next_id = 2\<rparr>,
     faults = [],
     trace = [],
     manifest = \<lparr>hist_dir = ''/h'', manifest_release_tag = ''large-files-v1'',
                 manifest_files = [(''data/model.bin'', model_record)],
                 persisted = [(''data/model.bin'', model_record)]\<rparr>,
     git_index = [],
     git_exclude = [''data/model.bin''],
     clock = ''2024-01-05T10:03:00Z''\<rparr>"

text \<open>
  A world where the asset named by the pointer of \<^verbatim>\<open>model.bin\<close> is gone from the release
  and the real file is missing. The manifest records the pointer's version and an older
  one, whose asset (number 7) is still in the release.
\<close>

definition older_version :: FileVersion where
  "older_version = \<lparr>fv_hash = ''sha256:77aa65fe43dc21ba'',
     fv_asset_name = ''77aa65fe43dc-model.bin'', fv_size = 13,
     fv_timestamp = ''2024-01-03T09:00:00Z'', fv_uploaded = True\<rparr>"

definition newer_version :: FileVersion where
  "newer_version = \<lparr>fv_hash = ''sha256:ab12cd34ef56aa77'',
     fv_asset_name = ''ab12cd34ef56-model.bin'', fv_size = 13,
     fv_timestamp = ''2024-01-05T10:00:00Z'', fv_uploaded = True\<rparr>"

definition older_blob :: Blob where
  "older_blob = \<lparr>blob_id = 7, blob_name = ''77aa65fe43dc-model.bin'',
                  blob_content = ''OLDER-WEIGHTS''\<rparr>"

definition evicted_world :: world where
  "evicted_world = \<lparr>
     files = [(''/h/data/model.bin.pointer'', model_pointer_text)],
     blob_store = \<lparr>releases = [(''large-files-v1'', [older_blob])], next_id = 9\<rparr>,
     faults = [],
     trace = [],
     manifest = \<lparr>hist_dir = ''/h'', manifest_release_tag = ''large-files-v1'',
                 manifest_files = [(''data/model.bin'',
                    \<lparr>current_hash = ''sha256:ab12cd34ef56aa77'',
                     versions = [older_version, newer_version]\<rparr>)],
                 persisted = []\<rparr>,
     git_index = [],
     git_exclude = [''data/model.bin''],
     clock = ''2024-01-06T08:00:00Z''\<rparr>"

text \<open>
  A world after a pull that removed \<^verbatim>\<open>model.bin\<close>: the pointer is there, the real file
  is not, and the asset the pointer names holds bytes that do not hash to the pointer's
  hash. The daemon has large-file support enabled with the default threshold.
\<close>

definition garbled_world :: world where
  "garbled_world = \<lparr>
     files = [(''/h/data/model.bin.pointer'', model_pointer_text)],
     blob_store = \<lparr>releases = [(''large-files-v1'',
                     [\<lparr>blob_id = 1, blob_name = ''ab12cd34ef56-model.bin'',
                       blob_content = ''GARBLED-BYTES''\<rparr>])],
                   next_id = 2\<rparr>,
     faults = [],
     trace = [],
     manifest = \<lparr>hist_dir = ''/h'', manifest_release_tag = ''large-files-v1'',
                 manifest_files = [(''data/model.bin'', model_record)],
                 persisted = [(''data/model.bin'', model_record)]\<rparr>,
     git_index = [],
     git_exclude = [''data/model.bin''],
     clock = ''2024-01-07T12:00:00Z''\<rparr>"

definition demo_daemon :: SyncDaemon where
  "demo_daemon = \<lparr>
     settings = \<lparr>st_hist_dir = ''/h'', st_branch = ''main'', st_excludes = [],
                  lfs_enabled = True, lfs_threshold = 62914560,
                  lfs_release_tag = ''large-files-v1'', lfs_max_versions = 3,
                  lfs_max_workers = 3\<rparr>,
     lfs_ready = True\<rparr>"

text \<open>
  A world like \<open>evicted_world\<close> with a third version between the two: its asset
  (number 8) is still in the release, but the bytes stored there do not hash to the
  hash the manifest records for it. The asset of the oldest version is intact.
\<close>

definition middle_version :: FileVersion where
  "middle_version = \<lparr>fv_hash = ''sha256:5555666677778888'',
     fv_asset_name = ''555566667777-model.bin'', fv_size = 13,
     fv_timestamp = ''2024-01-04T09:00:00Z'', fv_uploaded = True\<rparr>"

definition middle_blob :: Blob where
  "middle_blob = \<lparr>blob_id = 8, blob_name = ''555566667777-model.bin'',
                   blob_content = ''GARBLED-BYTES''\<rparr>"

definition tampered_world :: world where
  "tampered_world = \<lparr>
     files = [(''/h/data/model.bin.pointer'', model_pointer_text)],
     blob_store = \<lparr>releases = [(''large-files-v1'', [older_blob, middle_blob])], next_id = 9\<rparr>,
     faults = [],
     trace = [],
     manifest = \<lparr>hist_dir = ''/h'', manifest_release_tag = ''large-files-v1'',
                 manifest_files = [(''data/model.bin'',
                    \<lparr>current_hash = ''sha256:ab12cd34ef56aa77'',
                     versions = [older_version, middle_version, newer_version]\<rparr>)],
                 persisted = []\<rparr>,
     git_index = [],
     git_exclude = [''data/model.bin''],
     clock = ''2024-01-06T08:00:00Z''\<rparr>"





section \<open>Properties of the manifest\<close>

lemma py_sorted_desc_wrt:
  "sorted_wrt (\<lambda>a b. key b \<le> key a) (py_sorted_desc key xs)"
proof -
  have "sorted (map key (sort_key key (rev xs)))" by (rule sorted_sort_key)
  then have "sorted_wrt (\<lambda>a b. key a \<le> key b) (sort_key key (rev xs))"
    by (simp add: sorted_map)
  then show ?thesis
    by (simp add: py_sorted_desc_def sorted_wrt_rev)
qed

lemma mset_py_sorted_desc: "mset (py_sorted_desc key xs) = mset xs"
  by (simp add: py_sorted_desc_def)

lemma set_py_sorted_desc: "set (py_sorted_desc key xs) = set xs"
  by (simp add: py_sorted_desc_def)

lemma length_py_sorted_desc: "length (py_sorted_desc key xs) = length xs"
  by (simp add: py_sorted_desc_def)

lemma take_drop_desc:
  assumes "sorted_wrt (\<lambda>a b. key b \<le> key a) ys"
  shows "\<forall>k\<in>set (take n ys). \<forall>e\<in>set (drop n ys). key e \<le> key k"
proof -
  from assms have "sorted_wrt (\<lambda>a b. key b \<le> key a) (take n ys @ drop n ys)" by simp
  then show ?thesis unfolding sorted_wrt_append by blast
qed

lemma stale_sorted:
  "py_sorted_desc fv_timestamp (versions stale_record) =
     [ver ''sha256:dd'' ''dd-model.bin'' ''2024-01-04T00:00:00Z'',
      ver ''sha256:cc'' ''cc-model.bin'' ''2024-01-03T00:00:00Z'',
      ver ''sha256:bb'' ''bb-model.bin'' ''2024-01-02T00:00:00Z'',
      ver ''sha256:aa'' ''aa-model.bin'' ''2024-01-01T00:00:00Z'']"
  by (simp add: py_sorted_desc_def stale_record_def ver_def)

text \<open>
  Claim C4. When the record of a path holds more than \<open>n\<close> versions,
  \<open>cleanup_old_versions\<close> with \<open>keep = n\<close> leaves exactly \<open>n\<close> versions, the first
  \<open>n\<close> of the record sorted newest first by timestamp (so no evicted version is newer
  than a kept one, and kept and evicted versions together are the old record), returns
  the asset names of the evicted versions, and touches no other path. When the record
  holds \<open>n\<close> versions or fewer, it returns the empty list and the manifest is unchanged.
\<close>

theorem cleanup_old_versions_retention:
  assumes rec: "get_file_record m file_path = Some record"
  shows "(n < length (versions record) \<longrightarrow>
          (let newest_first = py_sorted_desc fv_timestamp (versions record);
               kept = take n newest_first;
               evicted = drop n newest_first;
               res = cleanup_old_versions m file_path (int n)
           in fst res = map fv_asset_name evicted
              \<and> get_file_record (snd res) file_path = Some (record\<lparr>versions := kept\<rparr>)
              \<and> length kept = n
              \<and> mset kept + mset evicted = mset (versions record)
              \<and> (\<forall>k\<in>set kept. \<forall>e\<in>set evicted. fv_timestamp e \<le> fv_timestamp k)
              \<and> (\<forall>q. q \<noteq> file_path \<longrightarrow> get_file_record (snd res) q = get_file_record m q)))
       \<and> (length (versions record) \<le> n \<longrightarrow> cleanup_old_versions m file_path (int n) = ([], m))"
proof (intro conjI impI)
  assume le: "length (versions record) \<le> n"
  with rec show "cleanup_old_versions m file_path (int n) = ([], m)"
    by (simp add: cleanup_old_versions_def)
next
  assume gt: "n < length (versions record)"
  define ys where "ys = py_sorted_desc fv_timestamp (versions record)"
  have res: "cleanup_old_versions m file_path (int n) =
      (map fv_asset_name (drop n ys),
       m\<lparr>manifest_files :=
           AList.update file_path (record\<lparr>versions := take n ys\<rparr>) (manifest_files m)\<rparr>)"
    using rec gt
    by (simp add: cleanup_old_versions_def py_slice_to_def py_slice_from_def ys_def Let_def)
  have len: "length (take n ys) = n"
    using gt by (simp add: ys_def length_py_sorted_desc)
  have ms: "mset (take n ys) + mset (drop n ys) = mset (versions record)"
  proof -
    have "mset (take n ys @ drop n ys) = mset ys" by (simp only: append_take_drop_id)
    then have "mset (take n ys) + mset (drop n ys) = mset ys" by (simp only: mset_append)
    then show ?thesis by (simp only: ys_def mset_py_sorted_desc)
  qed
  have ord: "\<forall>k\<in>set (take n ys). \<forall>e\<in>set (drop n ys). fv_timestamp e \<le> fv_timestamp k"
    unfolding ys_def by (rule take_drop_desc [OF py_sorted_desc_wrt])
  show "let newest_first = py_sorted_desc fv_timestamp (versions record);
            kept = take n newest_first;
            evicted = drop n newest_first;
            res = cleanup_old_versions m file_path (int n)
        in fst res = map fv_asset_name evicted
           \<and> get_file_record (snd res) file_path = Some (record\<lparr>versions := kept\<rparr>)
           \<and> length kept = n
           \<and> mset kept + mset evicted = mset (versions record)
           \<and> (\<forall>k\<in>set kept. \<forall>e\<in>set evicted. fv_timestamp e \<le> fv_timestamp k)
           \<and> (\<forall>q. q \<noteq> file_path \<longrightarrow> get_file_record (snd res) q = get_file_record m q)"
    unfolding Let_def ys_def [symmetric] res
    using len ms ord by (simp add: get_file_record_def update_conv')
qed

theorem cleanup_old_versions_retention_witness:
  "fst (cleanup_old_versions stale_manifest ''model.bin'' 3) = [''aa-model.bin'']
   \<and> get_file_record (snd (cleanup_old_versions stale_manifest ''model.bin'' 3)) ''model.bin''
       = Some \<lparr>current_hash = ''sha256:aa'',
           versions = [ver ''sha256:dd'' ''dd-model.bin'' ''2024-01-04T00:00:00Z'',
                       ver ''sha256:cc'' ''cc-model.bin'' ''2024-01-03T00:00:00Z'',
                       ver ''sha256:bb'' ''bb-model.bin'' ''2024-01-02T00:00:00Z'']\<rparr>
   \<and> cleanup_old_versions stale_manifest ''model.bin'' 4 = ([], stale_manifest)"
proof -
  have rec: "get_file_record stale_manifest ''model.bin'' = Some stale_record"
    by (simp add: get_file_record_def stale_manifest_def)
  have len: "length (versions stale_record) = 4" by (simp add: stale_record_def)
  from cleanup_old_versions_retention [OF rec, of 3]
       cleanup_old_versions_retention [OF rec, of 4]
  show ?thesis
    by (simp add: len Let_def stale_sorted) (simp add: stale_record_def ver_def)
qed

lemma get_current_version_cases:
  assumes "get_file_record m file_path = Some record"
  shows "get_current_version m file_path =
     (case find (\<lambda>v. fv_hash v = current_hash record) (versions record) of
        Some v \<Rightarrow> Some v
      | None \<Rightarrow> (if versions record = [] then None else Some (last (versions record))))"
  using assms by (simp add: get_current_version_def split: option.splits)

text \<open>
  Claim C5. \<open>get_current_version\<close> returns the first version whose hash is the
  current hash, and otherwise the last element of the version list. Appending puts the
  newest version last, but \<open>cleanup_old_versions\<close> stores the kept versions newest
  first, so after a cleanup that evicted the current hash the last element is the
  oldest kept version. In the scenario the lookup returns the version of 2 January
  although the version of 4 January is still in the record.
\<close>

theorem get_current_version_after_cleanup_oldest:
  "get_current_version (snd (cleanup_old_versions stale_manifest ''model.bin'' 3)) ''model.bin''
     = Some (ver ''sha256:bb'' ''bb-model.bin'' ''2024-01-02T00:00:00Z'')
   \<and> ver ''sha256:dd'' ''dd-model.bin'' ''2024-01-04T00:00:00Z''
       \<in> set (get_all_versions (snd (cleanup_old_versions stale_manifest ''model.bin'' 3))
                ''model.bin'')
   \<and> fv_timestamp (ver ''sha256:bb'' ''bb-model.bin'' ''2024-01-02T00:00:00Z'')
       < fv_timestamp (ver ''sha256:dd'' ''dd-model.bin'' ''2024-01-04T00:00:00Z'')"
proof -
  have res: "snd (cleanup_old_versions stale_manifest ''model.bin'' 3) =
     stale_manifest\<lparr>manifest_files := [(''model.bin'',
       \<lparr>current_hash = ''sha256:aa'',
        versions = [ver ''sha256:dd'' ''dd-model.bin'' ''2024-01-04T00:00:00Z'',
                    ver ''sha256:cc'' ''cc-model.bin'' ''2024-01-03T00:00:00Z'',
                    ver ''sha256:bb'' ''bb-model.bin'' ''2024-01-02T00:00:00Z'']\<rparr>)]\<rparr>"
    by (simp add: cleanup_old_versions_def get_file_record_def stale_manifest_def
        py_slice_to_def py_slice_from_def Let_def stale_sorted)
       (simp add: stale_record_def)
  show ?thesis
    unfolding res
    by (simp add: get_current_version_def get_all_versions_def get_file_record_def
        set_py_sorted_desc)
       (simp add: ver_def)
qed

section \<open>Properties of the pointer codec\<close>

lemma from_dict_missing:
  "k \<in> set required_fields \<Longrightarrow> map_of data k = None \<Longrightarrow> \<exists>err. from_dict data = Inl err"
  by (auto simp: required_fields_def from_dict_def subscript_def Let_def split: option.splits)

lemma from_dict_present:
  assumes "map_of data ''hash'' = Some h" "map_of data ''size'' = Some sz"
    "map_of data ''filename'' = Some fname" "map_of data ''release_tag'' = Some tag"
    "map_of data ''asset_name'' = Some aname"
  shows "from_dict data =
     Inr \<lparr>pf_version = (case map_of data ''version'' of None \<Rightarrow> JInt 1 | Some v \<Rightarrow> v),
          pf_hash = h, pf_size = sz, pf_filename = fname, pf_release_tag = tag,
          pf_asset_name = aname\<rparr>"
  using assms by (simp add: from_dict_def subscript_def Let_def)

text \<open>
  Claim C8, as the code has it. For a file that exists, \<open>read_pointer\<close> gives \<open>None\<close>
  when the content is not JSON, when it parses to something that is not an object, when
  the \<^verbatim>\<open>type\<close> of the object is not \<^verbatim>\<open>lfs-pointer\<close>, and when one of \<^verbatim>\<open>hash\<close>,
  \<^verbatim>\<open>size\<close>, \<^verbatim>\<open>filename\<close>, \<^verbatim>\<open>release_tag\<close>, \<^verbatim>\<open>asset_name\<close> is missing. With these five
  present it gives the pointer, whose version is 1 when the object has no \<^verbatim>\<open>version\<close>.
\<close>

theorem read_pointer_rejects:
  assumes "map_of fsys path = Some content"
  shows "(json_loads e content = None \<longrightarrow> read_pointer e fsys path = None)
    \<and> (\<forall>j. json_loads e content = Some j \<and> (\<forall>data. j \<noteq> JDict data)
          \<longrightarrow> read_pointer e fsys path = None)
    \<and> (\<forall>data. json_loads e content = Some (JDict data)
            \<and> map_of data ''type'' \<noteq> Some (JStr ''lfs-pointer'')
          \<longrightarrow> read_pointer e fsys path = None)
    \<and> (\<forall>data k. json_loads e content = Some (JDict data)
            \<and> k \<in> set required_fields \<and> map_of data k = None
          \<longrightarrow> read_pointer e fsys path = None)
    \<and> (\<forall>data h sz fname tag aname. json_loads e content = Some (JDict data)
            \<and> map_of data ''type'' = Some (JStr ''lfs-pointer'')
            \<and> map_of data ''hash'' = Some h \<and> map_of data ''size'' = Some sz
            \<and> map_of data ''filename'' = Some fname \<and> map_of data ''release_tag'' = Some tag
            \<and> map_of data ''asset_name'' = Some aname
          \<longrightarrow> read_pointer e fsys path =
               Some \<lparr>pf_version = (case map_of data ''version'' of None \<Rightarrow> JInt 1 | Some v \<Rightarrow> v),
                     pf_hash = h, pf_size = sz, pf_filename = fname, pf_release_tag = tag,
                     pf_asset_name = aname\<rparr>)"
proof (intro conjI allI impI)
  assume "json_loads e content = None"
  with assms show "read_pointer e fsys path = None" by (simp add: read_pointer_def)
next
  fix j assume "json_loads e content = Some j \<and> (\<forall>data. j \<noteq> JDict data)"
  with assms show "read_pointer e fsys path = None"
    by (cases j) (simp_all add: read_pointer_def)
next
  fix data assume "json_loads e content = Some (JDict data)
            \<and> map_of data ''type'' \<noteq> Some (JStr ''lfs-pointer'')"
  with assms show "read_pointer e fsys path = None" by (simp add: read_pointer_def)
next
  fix data k assume a: "json_loads e content = Some (JDict data)
            \<and> k \<in> set required_fields \<and> map_of data k = None"
  then obtain err where "from_dict data = Inl err" using from_dict_missing by blast
  with assms a show "read_pointer e fsys path = None" by (simp add: read_pointer_def)
next
  fix data h sz fname tag aname
  assume a: "json_loads e content = Some (JDict data)
            \<and> map_of data ''type'' = Some (JStr ''lfs-pointer'')
            \<and> map_of data ''hash'' = Some h \<and> map_of data ''size'' = Some sz
            \<and> map_of data ''filename'' = Some fname \<and> map_of data ''release_tag'' = Some tag
            \<and> map_of data ''asset_name'' = Some aname"
  then have "from_dict data =
     Inr \<lparr>pf_version = (case map_of data ''version'' of None \<Rightarrow> JInt 1 | Some v \<Rightarrow> v),
          pf_hash = h, pf_size = sz, pf_filename = fname, pf_release_tag = tag,
          pf_asset_name = aname\<rparr>"
    using from_dict_present by blast
  with assms a show "read_pointer e fsys path =
               Some \<lparr>pf_version = (case map_of data ''version'' of None \<Rightarrow> JInt 1 | Some v \<Rightarrow> v),
                     pf_hash = h, pf_size = sz, pf_filename = fname, pf_release_tag = tag,
                     pf_asset_name = aname\<rparr>"
    by (simp add: read_pointer_def)
qed

lemma loads_unversioned: "json_loads demo_env unversioned_text = Some (JDict unversioned_fields)"
  by (simp add: demo_env_def json_table_def model_pointer_text_def unversioned_text_def)

lemma loads_model: "json_loads demo_env model_pointer_text = Some (to_dict model_pointer)"
  by (simp add: demo_env_def json_table_def)

lemma loads_other: "json_loads demo_env ''not json'' = None"
  by (simp add: demo_env_def json_table_def model_pointer_text_def unversioned_text_def)

theorem read_pointer_rejects_witness:
  "read_pointer demo_env [(''/h/data/model.bin.pointer'', ''not json'')]
       ''/h/data/model.bin.pointer'' = None
   \<and> read_pointer demo_env [(''/h/data/model.bin.pointer'', model_pointer_text)]
       ''/h/data/model.bin.pointer'' = Some model_pointer"
proof -
  have 1: "map_of [(''/h/data/model.bin.pointer'', ''not json'')] ''/h/data/model.bin.pointer''
           = Some ''not json''" by simp
  have 2: "map_of [(''/h/data/model.bin.pointer'', model_pointer_text)]
             ''/h/data/model.bin.pointer'' = Some model_pointer_text" by simp
  from read_pointer_rejects [OF 1, of demo_env] read_pointer_rejects [OF 2, of demo_env]
  show ?thesis
    by (simp add: loads_other loads_model to_dict_def model_pointer_def)
qed

text \<open>
  Claim C8 as stated counts \<^verbatim>\<open>version\<close> among the fields whose absence makes
  \<open>read_pointer\<close> fail. A pointer text without \<^verbatim>\<open>version\<close> is read as a pointer of
  version 1.
\<close>

theorem read_pointer_defaults_version:
  "read_pointer demo_env [(''/h/data/model.bin.pointer'', unversioned_text)]
       ''/h/data/model.bin.pointer'' = Some model_pointer
   \<and> json_loads demo_env unversioned_text = Some (JDict unversioned_fields)
   \<and> map_of unversioned_fields ''version'' = None"
  by (simp add: read_pointer_def loads_unversioned from_dict_def subscript_def
        unversioned_fields_def model_pointer_def)

section \<open>Properties of the retrying request\<close>

lemma serve_status: "serve e rq sto = (Inl code, sto') \<Longrightarrow> code < 500"
  by (cases rq) (auto split: option.splits if_splits simp: Let_def)

lemma exchange_transient:
  assumes "faults w = f # rest" "transient f"
  shows "exchange e rq w = (Inl (the (fault_exn f)), w\<lparr>faults := rest, trace := trace w @ [Http rq]\<rparr>)"
  using assms by (cases w; cases f) (simp_all add: exchange_def log_event_def Let_def)

lemma exchange_client_error:
  assumes "faults w = Status code # rest"
  shows "exchange e rq w = (Inl (HTTPStatusError code), w\<lparr>faults := rest, trace := trace w @ [Http rq]\<rparr>)"
  using assms by (cases w) (simp add: exchange_def log_event_def Let_def)

lemma exchange_delivered:
  assumes "faults w = [] \<or> hd (faults w) = Deliver"
  shows "exchange e rq w = deliver e rq (w\<lparr>faults := tl (faults w), trace := trace w @ [Http rq]\<rparr>)"
  using assms by (cases w; cases "faults w") (auto simp add: exchange_def log_event_def Let_def)


lemma attempt_delivered:
  assumes "faults w = [] \<or> hd (faults w) = Deliver"
  shows "request_attempts e rq attempt (Suc k) w =
         deliver e rq (w\<lparr>faults := tl (faults w), trace := trace w @ [Http rq]\<rparr>)"
proof -
  obtain r w' where d: "deliver e rq (w\<lparr>faults := tl (faults w), trace := trace w @ [Http rq]\<rparr>) = (r, w')"
    by (cases "deliver e rq (w\<lparr>faults := tl (faults w), trace := trace w @ [Http rq]\<rparr>)")
  have ex: "exchange e rq w = (r, w')" using exchange_delivered [OF assms] d by simp
  show ?thesis
  proof (cases r)
    case (Inr resp)
    with ex d show ?thesis by simp
  next
    case (Inl err)
    obtain code sto where s: "serve e rq (blob_store w) = (Inl code, sto)" "err = HTTPStatusError code"
      using d Inl by (auto simp: deliver_def split: prod.splits sum.splits)
    then have "code < 500" using serve_status by blast
    with ex d Inl s show ?thesis by (simp add: max_retries_def)
  qed
qed

lemma attempt_retried:
  assumes "faults w = f # rest" "transient f" "attempt < 2"
  shows "request_attempts e rq attempt (Suc k) w =
         request_attempts e rq (Suc attempt) k
           (w\<lparr>faults := rest, trace := trace w @ [Http rq, Sleep (2 ^ attempt)]\<rparr>)"
proof -
  have "exchange e rq w = (Inl (the (fault_exn f)), w\<lparr>faults := rest, trace := trace w @ [Http rq]\<rparr>)"
    using assms(1,2) by (rule exchange_transient)
  then show ?thesis
    using assms(2,3) by (cases f; cases w) (simp_all add: max_retries_def log_event_def)
qed

lemma attempt_exhausted:
  assumes "faults w = f # rest" "transient f"
  shows "request_attempts e rq 2 (Suc k) w =
         (Inl (the (fault_exn f)), w\<lparr>faults := rest, trace := trace w @ [Http rq]\<rparr>)"
proof -
  have "exchange e rq w = (Inl (the (fault_exn f)), w\<lparr>faults := rest, trace := trace w @ [Http rq]\<rparr>)"
    using assms(1,2) by (rule exchange_transient)
  then show ?thesis
    using assms(2) by (cases f) (simp_all add: max_retries_def)
qed

lemma attempt_client_error:
  assumes "faults w = Status code # rest" "code < 500"
  shows "request_attempts e rq attempt (Suc k) w =
         (Inl (HTTPStatusError code), w\<lparr>faults := rest, trace := trace w @ [Http rq]\<rparr>)"
proof -
  have "exchange e rq w = (Inl (HTTPStatusError code), w\<lparr>faults := rest, trace := trace w @ [Http rq]\<rparr>)"
    using assms(1) by (rule exchange_client_error)
  then show ?thesis using assms(2) by (simp add: max_retries_def)
qed


lemma request_unfold: "request e rq w = request_attempts e rq 0 (Suc (Suc (Suc 0))) w"
  by (simp add: request_def max_retries_def numeral_3_eq_3)

lemma request_three_transient:
  assumes "faults w = f1 # f2 # f3 # rest" "transient f1" "transient f2" "transient f3"
  shows "request e rq w =
        (Inl (the (fault_exn f3)),
         w\<lparr>faults := rest,
           trace := trace w @ [Http rq, Sleep 1, Http rq, Sleep 2, Http rq]\<rparr>)"
proof -
  let ?w1 = "w\<lparr>faults := f2 # f3 # rest, trace := trace w @ [Http rq, Sleep (2 ^ 0)]\<rparr>"
  let ?w2 = "?w1\<lparr>faults := f3 # rest, trace := trace ?w1 @ [Http rq, Sleep (2 ^ Suc 0)]\<rparr>"
  have 1: "request_attempts e rq 0 (Suc (Suc (Suc 0))) w =
           request_attempts e rq (Suc 0) (Suc (Suc 0)) ?w1"
    by (rule attempt_retried [OF assms(1) assms(2)]) simp
  have 2: "request_attempts e rq (Suc 0) (Suc (Suc 0)) ?w1 =
           request_attempts e rq (Suc (Suc 0)) (Suc 0) ?w2"
    by (rule attempt_retried [OF _ assms(3)]) simp_all
  have 3: "request_attempts e rq 2 (Suc 0) ?w2 =
           (Inl (the (fault_exn f3)), ?w2\<lparr>faults := rest, trace := trace ?w2 @ [Http rq]\<rparr>)"
    by (rule attempt_exhausted [OF _ assms(4)]) simp
  show ?thesis
    unfolding request_unfold 1 2 using 3 by (simp add: numeral_2_eq_2)
qed

lemma request_two_transient:
  assumes "faults w = f1 # f2 # rest" "transient f1" "transient f2" "rest = [] \<or> hd rest = Deliver"
  shows "request e rq w =
        deliver e rq (w\<lparr>faults := tl rest,
                        trace := trace w @ [Http rq, Sleep 1, Http rq, Sleep 2, Http rq]\<rparr>)"
proof -
  let ?w1 = "w\<lparr>faults := f2 # rest, trace := trace w @ [Http rq, Sleep (2 ^ 0)]\<rparr>"
  let ?w2 = "?w1\<lparr>faults := rest, trace := trace ?w1 @ [Http rq, Sleep (2 ^ Suc 0)]\<rparr>"
  have 1: "request_attempts e rq 0 (Suc (Suc (Suc 0))) w =
           request_attempts e rq (Suc 0) (Suc (Suc 0)) ?w1"
    by (rule attempt_retried [OF assms(1) assms(2)]) simp
  have 2: "request_attempts e rq (Suc 0) (Suc (Suc 0)) ?w1 =
           request_attempts e rq (Suc (Suc 0)) (Suc 0) ?w2"
    by (rule attempt_retried [OF _ assms(3)]) simp_all
  have 3: "request_attempts e rq (Suc (Suc 0)) (Suc 0) ?w2 =
           deliver e rq (?w2\<lparr>faults := tl (faults ?w2), trace := trace ?w2 @ [Http rq]\<rparr>)"
    by (rule attempt_delivered) (use assms(4) in simp)
  show ?thesis
    unfolding request_unfold 1 2 3 by simp
qed

lemma request_one_transient:
  assumes "faults w = f1 # rest" "transient f1" "rest = [] \<or> hd rest = Deliver"
  shows "request e rq w =
        deliver e rq (w\<lparr>faults := tl rest, trace := trace w @ [Http rq, Sleep 1, Http rq]\<rparr>)"
proof -
  let ?w1 = "w\<lparr>faults := rest, trace := trace w @ [Http rq, Sleep (2 ^ 0)]\<rparr>"
  have 1: "request_attempts e rq 0 (Suc (Suc (Suc 0))) w =
           request_attempts e rq (Suc 0) (Suc (Suc 0)) ?w1"
    by (rule attempt_retried [OF assms(1) assms(2)]) simp
  have 2: "request_attempts e rq (Suc 0) (Suc (Suc 0)) ?w1 =
           deliver e rq (?w1\<lparr>faults := tl (faults ?w1), trace := trace ?w1 @ [Http rq]\<rparr>)"
    by (rule attempt_delivered) (use assms(3) in simp)
  show ?thesis
    unfolding request_unfold 1 2 by simp
qed

lemma request_client_error:
  assumes "faults w = Status code # rest" "code < 500"
  shows "request e rq w =
        (Inl (HTTPStatusError code), w\<lparr>faults := rest, trace := trace w @ [Http rq]\<rparr>)"
  unfolding request_unfold by (rule attempt_client_error [OF assms])

lemma request_delivered:
  assumes "faults w = [] \<or> hd (faults w) = Deliver"
  shows "request e rq w = deliver e rq (w\<lparr>faults := tl (faults w), trace := trace w @ [Http rq]\<rparr>)"
  unfolding request_unfold by (rule attempt_delivered [OF assms])

lemma request_quiet:
  assumes "faults w = []"
  shows "request e rq w = deliver e rq (log_event (Http rq) w)"
proof -
  have "w\<lparr>faults := tl (faults w), trace := trace w @ [Http rq]\<rparr> = log_event (Http rq) w"
    using assms by (cases w) (simp add: log_event_def)
  then show ?thesis using request_delivered [of w e rq] assms by simp
qed

lemma exchange_fault:
  assumes "faults w = f # rest" "f \<noteq> Deliver"
  shows "exchange e rq w = (Inl (the (fault_exn f)), w\<lparr>faults := rest, trace := trace w @ [Http rq]\<rparr>)"
  using assms by (cases w; cases f) (simp_all add: exchange_def log_event_def Let_def)

lemma attempt_last:
  assumes "faults w = f # rest" "f \<noteq> Deliver"
  shows "request_attempts e rq 2 (Suc k) w =
         (Inl (the (fault_exn f)), w\<lparr>faults := rest, trace := trace w @ [Http rq]\<rparr>)"
proof -
  have "exchange e rq w = (Inl (the (fault_exn f)), w\<lparr>faults := rest, trace := trace w @ [Http rq]\<rparr>)"
    using assms by (rule exchange_fault)
  then show ?thesis
    using assms(2) by (cases f) (simp_all add: max_retries_def)
qed

lemma request_third_fault:
  assumes "faults w = f1 # f2 # f3 # rest" "transient f1" "transient f2" "f3 \<noteq> Deliver"
  shows "request e rq w =
        (Inl (the (fault_exn f3)),
         w\<lparr>faults := rest,
           trace := trace w @ [Http rq, Sleep 1, Http rq, Sleep 2, Http rq]\<rparr>)"
proof -
  let ?w1 = "w\<lparr>faults := f2 # f3 # rest, trace := trace w @ [Http rq, Sleep (2 ^ 0)]\<rparr>"
  let ?w2 = "?w1\<lparr>faults := f3 # rest, trace := trace ?w1 @ [Http rq, Sleep (2 ^ Suc 0)]\<rparr>"
  have 1: "request_attempts e rq 0 (Suc (Suc (Suc 0))) w =
           request_attempts e rq (Suc 0) (Suc (Suc 0)) ?w1"
    by (rule attempt_retried [OF assms(1) assms(2)]) simp
  have 2: "request_attempts e rq (Suc 0) (Suc (Suc 0)) ?w1 =
           request_attempts e rq (Suc (Suc 0)) (Suc 0) ?w2"
    by (rule attempt_retried [OF _ assms(3)]) simp_all
  have 3: "request_attempts e rq 2 (Suc 0) ?w2 =
           (Inl (the (fault_exn f3)), ?w2\<lparr>faults := rest, trace := trace ?w2 @ [Http rq]\<rparr>)"
    by (rule attempt_last [OF _ assms(4)]) simp
  show ?thesis
    unfolding request_unfold 1 2 using 3 by (simp add: numeral_2_eq_2)
qed

lemma request_second_client_error:
  assumes "faults w = f1 # Status code # rest" "transient f1" "code < 500"
  shows "request e rq w =
        (Inl (HTTPStatusError code),
         w\<lparr>faults := rest, trace := trace w @ [Http rq, Sleep 1, Http rq]\<rparr>)"
proof -
  let ?w1 = "w\<lparr>faults := Status code # rest, trace := trace w @ [Http rq, Sleep (2 ^ 0)]\<rparr>"
  have 1: "request_attempts e rq 0 (Suc (Suc (Suc 0))) w =
           request_attempts e rq (Suc 0) (Suc (Suc 0)) ?w1"
    by (rule attempt_retried [OF assms(1) assms(2)]) simp
  have 2: "request_attempts e rq (Suc 0) (Suc (Suc 0)) ?w1 =
           (Inl (HTTPStatusError code), ?w1\<lparr>faults := rest, trace := trace ?w1 @ [Http rq]\<rparr>)"
    by (rule attempt_client_error [OF _ assms(3)]) simp
  show ?thesis
    unfolding request_unfold 1 2 by simp
qed

lemma get_release_absent:
  assumes "request e (GetReleaseByTag tag) w = (Inl (HTTPStatusError 404), w')"
  shows "get_release e tag w = (Inr None, w')"
  using assms by (simp add: get_release_def)

lemma get_release_raises:
  assumes "request e (GetReleaseByTag tag) w = (Inl err, w')" "err \<noteq> HTTPStatusError 404"
  shows "get_release e tag w = (Inl err, w')"
  using assms by (cases err) (simp_all add: get_release_def)

lemma download_asset_fault:
  assumes "faults w = f # rest" "f \<noteq> Deliver"
  shows "download_asset e asset save_path w =
     (Inl (the (fault_exn f)),
      w\<lparr>faults := rest, trace := trace w @ [Http (DownloadAsset (asset_id asset))]\<rparr>)"
  unfolding download_asset_def exchange_fault [OF assms] by simp

lemma download_asset_store_error:
  assumes "faults w = [] \<or> hd (faults w) = Deliver"
    and "find (\<lambda>b. blob_id b = asset_id asset) (all_blobs (blob_store w)) = None"
  shows "download_asset e asset save_path w =
     (Inl (HTTPStatusError 404),
      w\<lparr>faults := tl (faults w), trace := trace w @ [Http (DownloadAsset (asset_id asset))]\<rparr>)"
  unfolding download_asset_def exchange_delivered [OF assms(1)]
  using assms(2) by (simp add: deliver_def)

lemma find_asset_absent:
  "\<not> list_ex (\<lambda>b. blob_name b = name) blobs \<Longrightarrow>
   find (\<lambda>asset. JStr (asset_name asset) = JStr name) (map describe blobs) = None"
  by (induction blobs) (simp_all add: describe_def)

lemma upload_asset_fault:
  assumes sched: "faults w = Deliver # f # rest" and f: "f \<noteq> Deliver"
    and rel: "map_of (releases (blob_store w)) tag = Some blobs"
    and absent: "\<not> list_ex (\<lambda>b. blob_name b = name) blobs"
    and src: "map_of (files w) file_path = Some payload"
  shows "upload_asset e tag file_path name w =
     (Inl (the (fault_exn f)),
      w\<lparr>faults := rest,
        trace := trace w @ [Http (ListAssets tag), Http (UploadAsset tag name payload)]\<rparr>)"
proof -
  let ?w1 = "w\<lparr>faults := f # rest, trace := trace w @ [Http (ListAssets tag)]\<rparr>"
  have "request e (ListAssets tag) w =
        deliver e (ListAssets tag)
          (w\<lparr>faults := tl (faults w), trace := trace w @ [Http (ListAssets tag)]\<rparr>)"
    by (rule request_delivered) (simp add: sched)
  then have l: "list_assets e tag w = (Inr (map describe blobs), ?w1)"
    using rel sched by (cases w) (simp add: list_assets_def deliver_def)
  have g: "get_asset_by_name e tag (JStr name) w = (Inr None, ?w1)"
    using l find_asset_absent [OF absent]
    by (simp add: get_asset_by_name_def and_then_def ret_def)
  have x: "exchange e (UploadAsset tag name payload) ?w1 =
        (Inl (the (fault_exn f)),
         ?w1\<lparr>faults := rest, trace := trace ?w1 @ [Http (UploadAsset tag name payload)]\<rparr>)"
    by (rule exchange_fault [OF _ f]) simp
  have w: "?w1\<lparr>faults := rest, trace := trace ?w1 @ [Http (UploadAsset tag name payload)]\<rparr>
         = w\<lparr>faults := rest,
              trace := trace w @ [Http (ListAssets tag), Http (UploadAsset tag name payload)]\<rparr>"
    by (cases w) simp
  show ?thesis
    using g x src unfolding w by (simp add: upload_asset_def and_then_def ret_def)
qed

text \<open>
  Claim C6. For the requests sent through \<open>request\<close> (release lookup and creation,
  asset listing, asset deletion), over every schedule of the network:
  \<^item> a delivered first exchange gives what the store answers, after that one exchange;
  \<^item> one or two transient failures (network error, or status 500 and above) followed
    by a delivered exchange: the request is sent again after sleeps of 1 and 2 seconds
    and gives what the store answers;
  \<^item> two transient failures followed by any failure: three exchanges with sleeps of 1
    and 2 seconds between them, then the third failure is raised;
  \<^item> a status from 400 to 499 is raised at once, with no sleep and no further exchange,
    on the first attempt and on the attempt after a transient failure.

  \<open>get_release\<close> answers \<open>None\<close> whenever its request raises status 404 (by the
  network, or by the store not having the tag) and raises every other error.

  The payload requests of \<open>download_asset\<close> and \<open>upload_asset\<close> do not go through
  \<open>request\<close>: any failure of that exchange, transient or not, is raised after the one
  exchange, with no sleep and no second attempt.
\<close>

theorem request_retry_policy:
  "(faults w = [] \<or> hd (faults w) = Deliver \<longrightarrow>
      request e rq w =
        deliver e rq (w\<lparr>faults := tl (faults w), trace := trace w @ [Http rq]\<rparr>))
 \<and> (faults w = f1 # rest \<and> transient f1 \<and> (rest = [] \<or> hd rest = Deliver) \<longrightarrow>
      request e rq w =
        deliver e rq (w\<lparr>faults := tl rest, trace := trace w @ [Http rq, Sleep 1, Http rq]\<rparr>))
 \<and> (faults w = f1 # f2 # rest \<and> transient f1 \<and> transient f2
       \<and> (rest = [] \<or> hd rest = Deliver) \<longrightarrow>
      request e rq w =
        deliver e rq (w\<lparr>faults := tl rest,
                        trace := trace w @ [Http rq, Sleep 1, Http rq, Sleep 2, Http rq]\<rparr>))
 \<and> (faults w = f1 # f2 # f3 # rest \<and> transient f1 \<and> transient f2 \<and> f3 \<noteq> Deliver \<longrightarrow>
      request e rq w =
        (Inl (the (fault_exn f3)),
         w\<lparr>faults := rest,
           trace := trace w @ [Http rq, Sleep 1, Http rq, Sleep 2, Http rq]\<rparr>))
 \<and> (faults w = Status code # rest \<and> 400 \<le> code \<and> code < 500 \<longrightarrow>
      request e rq w =
        (Inl (HTTPStatusError code), w\<lparr>faults := rest, trace := trace w @ [Http rq]\<rparr>))
 \<and> (faults w = f1 # Status code # rest \<and> transient f1 \<and> 400 \<le> code \<and> code < 500 \<longrightarrow>
      request e rq w =
        (Inl (HTTPStatusError code),
         w\<lparr>faults := rest, trace := trace w @ [Http rq, Sleep 1, Http rq]\<rparr>))
 \<and> (request e (GetReleaseByTag tag) w = (Inl (HTTPStatusError 404), w') \<longrightarrow>
      get_release e tag w = (Inr None, w'))
 \<and> (request e (GetReleaseByTag tag) w = (Inl err, w') \<and> err \<noteq> HTTPStatusError 404 \<longrightarrow>
      get_release e tag w = (Inl err, w'))
 \<and> (faults w = Status 404 # rest \<longrightarrow>
      get_release e tag w =
        (Inr None, w\<lparr>faults := rest, trace := trace w @ [Http (GetReleaseByTag tag)]\<rparr>))
 \<and> (faults w = [] \<and> map_of (releases (blob_store w)) tag = None \<longrightarrow>
      get_release e tag w =
        (Inr None, w\<lparr>trace := trace w @ [Http (GetReleaseByTag tag)]\<rparr>))
 \<and> (faults w = Status code # rest \<and> 400 \<le> code \<and> code < 500 \<and> code \<noteq> 404 \<longrightarrow>
      get_release e tag w =
        (Inl (HTTPStatusError code),
         w\<lparr>faults := rest, trace := trace w @ [Http (GetReleaseByTag tag)]\<rparr>))
 \<and> (faults w = f1 # rest \<and> f1 \<noteq> Deliver \<longrightarrow>
      download_asset e asset save_path w =
        (Inl (the (fault_exn f1)),
         w\<lparr>faults := rest, trace := trace w @ [Http (DownloadAsset (asset_id asset))]\<rparr>))
 \<and> ((faults w = [] \<or> hd (faults w) = Deliver)
       \<and> find (\<lambda>b. blob_id b = asset_id asset) (all_blobs (blob_store w)) = None \<longrightarrow>
      download_asset e asset save_path w =
        (Inl (HTTPStatusError 404),
         w\<lparr>faults := tl (faults w),
           trace := trace w @ [Http (DownloadAsset (asset_id asset))]\<rparr>))
 \<and> (faults w = Deliver # f2 # rest \<and> f2 \<noteq> Deliver
       \<and> map_of (releases (blob_store w)) tag = Some blobs
       \<and> \<not> list_ex (\<lambda>b. blob_name b = name) blobs
       \<and> map_of (files w) file_path = Some payload \<longrightarrow>
      upload_asset e tag file_path name w =
        (Inl (the (fault_exn f2)),
         w\<lparr>faults := rest,
           trace := trace w @ [Http (ListAssets tag), Http (UploadAsset tag name payload)]\<rparr>))"
proof (intro conjI impI)
  assume "faults w = [] \<or> hd (faults w) = Deliver"
  then show "request e rq w =
        deliver e rq (w\<lparr>faults := tl (faults w), trace := trace w @ [Http rq]\<rparr>)"
    by (rule request_delivered)
next
  assume "faults w = f1 # rest \<and> transient f1 \<and> (rest = [] \<or> hd rest = Deliver)"
  then show "request e rq w =
        deliver e rq (w\<lparr>faults := tl rest, trace := trace w @ [Http rq, Sleep 1, Http rq]\<rparr>)"
    using request_one_transient by blast
next
  assume "faults w = f1 # f2 # rest \<and> transient f1 \<and> transient f2
       \<and> (rest = [] \<or> hd rest = Deliver)"
  then show "request e rq w =
        deliver e rq (w\<lparr>faults := tl rest,
                        trace := trace w @ [Http rq, Sleep 1, Http rq, Sleep 2, Http rq]\<rparr>)"
    using request_two_transient by blast
next
  assume "faults w = f1 # f2 # f3 # rest \<and> transient f1 \<and> transient f2 \<and> f3 \<noteq> Deliver"
  then show "request e rq w =
        (Inl (the (fault_exn f3)),
         w\<lparr>faults := rest,
           trace := trace w @ [Http rq, Sleep 1, Http rq, Sleep 2, Http rq]\<rparr>)"
    using request_third_fault by blast
next
  assume "faults w = Status code # rest \<and> 400 \<le> code \<and> code < 500"
  then show "request e rq w =
        (Inl (HTTPStatusError code), w\<lparr>faults := rest, trace := trace w @ [Http rq]\<rparr>)"
    using request_client_error by blast
next
  assume "faults w = f1 # Status code # rest \<and> transient f1 \<and> 400 \<le> code \<and> code < 500"
  then show "request e rq w =
        (Inl (HTTPStatusError code),
         w\<lparr>faults := rest, trace := trace w @ [Http rq, Sleep 1, Http rq]\<rparr>)"
    using request_second_client_error by blast
next
  assume "request e (GetReleaseByTag tag) w = (Inl (HTTPStatusError 404), w')"
  then show "get_release e tag w = (Inr None, w')" by (rule get_release_absent)
next
  assume "request e (GetReleaseByTag tag) w = (Inl err, w') \<and> err \<noteq> HTTPStatusError 404"
  then show "get_release e tag w = (Inl err, w')" using get_release_raises by blast
next
  assume a: "faults w = Status 404 # rest"
  have "request e (GetReleaseByTag tag) w =
        (Inl (HTTPStatusError 404),
         w\<lparr>faults := rest, trace := trace w @ [Http (GetReleaseByTag tag)]\<rparr>)"
    by (rule request_client_error [OF a]) simp
  then show "get_release e tag w =
        (Inr None, w\<lparr>faults := rest, trace := trace w @ [Http (GetReleaseByTag tag)]\<rparr>)"
    by (simp add: get_release_def)
next
  assume a: "faults w = [] \<and> map_of (releases (blob_store w)) tag = None"
  then have "request e (GetReleaseByTag tag) w =
        (Inl (HTTPStatusError 404), w\<lparr>trace := trace w @ [Http (GetReleaseByTag tag)]\<rparr>)"
    by (simp add: request_quiet deliver_def log_event_def)
  then show "get_release e tag w =
        (Inr None, w\<lparr>trace := trace w @ [Http (GetReleaseByTag tag)]\<rparr>)"
    by (simp add: get_release_def)
next
  assume a: "faults w = Status code # rest \<and> 400 \<le> code \<and> code < 500 \<and> code \<noteq> 404"
  then have "request e (GetReleaseByTag tag) w =
        (Inl (HTTPStatusError code),
         w\<lparr>faults := rest, trace := trace w @ [Http (GetReleaseByTag tag)]\<rparr>)"
    using request_client_error by blast
  with a show "get_release e tag w =
        (Inl (HTTPStatusError code),
         w\<lparr>faults := rest, trace := trace w @ [Http (GetReleaseByTag tag)]\<rparr>)"
    by (simp add: get_release_def)
next
  assume "faults w = f1 # rest \<and> f1 \<noteq> Deliver"
  then show "download_asset e asset save_path w =
        (Inl (the (fault_exn f1)),
         w\<lparr>faults := rest, trace := trace w @ [Http (DownloadAsset (asset_id asset))]\<rparr>)"
    using download_asset_fault by blast
next
  assume "(faults w = [] \<or> hd (faults w) = Deliver)
       \<and> find (\<lambda>b. blob_id b = asset_id asset) (all_blobs (blob_store w)) = None"
  then show "download_asset e asset save_path w =
        (Inl (HTTPStatusError 404),
         w\<lparr>faults := tl (faults w),
           trace := trace w @ [Http (DownloadAsset (asset_id asset))]\<rparr>)"
    using download_asset_store_error by blast
next
  assume "faults w = Deliver # f2 # rest \<and> f2 \<noteq> Deliver
       \<and> map_of (releases (blob_store w)) tag = Some blobs
       \<and> \<not> list_ex (\<lambda>b. blob_name b = name) blobs
       \<and> map_of (files w) file_path = Some payload"
  then show "upload_asset e tag file_path name w =
        (Inl (the (fault_exn f2)),
         w\<lparr>faults := rest,
           trace := trace w @ [Http (ListAssets tag), Http (UploadAsset tag name payload)]\<rparr>)"
    using upload_asset_fault by blast
qed

theorem request_retry_policy_witness:
  "request demo_env (ListAssets ''large-files-v1'')
      (start_world\<lparr>faults := [NetworkError, Status 503, Status 502]\<rparr>)
     = (Inl (HTTPStatusError 502),
        start_world\<lparr>faults := [],
          trace := [Http (ListAssets ''large-files-v1''), Sleep 1,
                    Http (ListAssets ''large-files-v1''), Sleep 2,
                    Http (ListAssets ''large-files-v1'')]\<rparr>)
   \<and> request demo_env (ListAssets ''large-files-v1'')
      (start_world\<lparr>faults := [Status 503, NetworkError]\<rparr>)
     = (Inr (AssetsJson []),
        start_world\<lparr>faults := [],
          trace := [Http (ListAssets ''large-files-v1''), Sleep 1,
                    Http (ListAssets ''large-files-v1''), Sleep 2,
                    Http (ListAssets ''large-files-v1'')]\<rparr>)
   \<and> request demo_env (ListAssets ''large-files-v1'')
      (start_world\<lparr>faults := [NetworkError]\<rparr>)
     = (Inr (AssetsJson []),
        start_world\<lparr>faults := [],
          trace := [Http (ListAssets ''large-files-v1''), Sleep 1,
                    Http (ListAssets ''large-files-v1'')]\<rparr>)
   \<and> request demo_env (ListAssets ''large-files-v1'')
      (start_world\<lparr>faults := [Status 403, Deliver]\<rparr>)
     = (Inl (HTTPStatusError 403),
        start_world\<lparr>faults := [Deliver], trace := [Http (ListAssets ''large-files-v1'')]\<rparr>)
   \<and> request demo_env (ListAssets ''large-files-v1'')
      (start_world\<lparr>faults := [Status 503, Status 403, Deliver]\<rparr>)
     = (Inl (HTTPStatusError 403),
        start_world\<lparr>faults := [Deliver],
          trace := [Http (ListAssets ''large-files-v1''), Sleep 1,
                    Http (ListAssets ''large-files-v1'')]\<rparr>)
   \<and> get_release demo_env ''large-files-v1'' (start_world\<lparr>faults := [Status 404]\<rparr>)
     = (Inr None,
        start_world\<lparr>faults := [], trace := [Http (GetReleaseByTag ''large-files-v1'')]\<rparr>)
   \<and> get_release demo_env ''no-such-tag'' start_world
     = (Inr None, start_world\<lparr>trace := [Http (GetReleaseByTag ''no-such-tag'')]\<rparr>)
   \<and> get_release demo_env ''large-files-v1'' (start_world\<lparr>faults := [Status 403]\<rparr>)
     = (Inl (HTTPStatusError 403),
        start_world\<lparr>faults := [], trace := [Http (GetReleaseByTag ''large-files-v1'')]\<rparr>)
   \<and> download_asset demo_env \<lparr>asset_id = 1, asset_name = ''ab12cd34ef56-model.bin'',
                               asset_size = 13\<rparr> ''/h/data/model.bin.pointer.tmp''
        (offloaded_world\<lparr>faults := [NetworkError, Deliver]\<rparr>)
     = (Inl RequestError,
        offloaded_world\<lparr>faults := [Deliver], trace := [Http (DownloadAsset 1)]\<rparr>)
   \<and> upload_asset demo_env ''large-files-v1'' ''/h/data/model.bin'' ''ab12cd34ef56-model.bin''
        (start_world\<lparr>faults := [Deliver, NetworkError, Deliver]\<rparr>)
     = (Inl RequestError,
        start_world\<lparr>faults := [Deliver],
          trace := [Http (ListAssets ''large-files-v1''),
                    Http (UploadAsset ''large-files-v1'' ''ab12cd34ef56-model.bin''
                            ''MODEL-WEIGHTS'')]\<rparr>)"
proof -
  have tr: "trace start_world = []" and fl: "faults start_world = []"
    and rel: "releases (blob_store start_world) = [(''large-files-v1'', [])]"
    and src: "files start_world = [(''/h/data/model.bin'', ''MODEL-WEIGHTS'')]"
    by (simp_all add: start_world_def)
  have tr': "trace offloaded_world = []" by (simp add: offloaded_world_def)
  note pol = request_retry_policy [where e = demo_env and rq = "ListAssets ''large-files-v1''"]
  have 1: "request demo_env (ListAssets ''large-files-v1'')
      (start_world\<lparr>faults := [NetworkError, Status 503, Status 502]\<rparr>)
     = (Inl (HTTPStatusError 502),
        start_world\<lparr>faults := [],
          trace := [Http (ListAssets ''large-files-v1''), Sleep 1,
                    Http (ListAssets ''large-files-v1''), Sleep 2,
                    Http (ListAssets ''large-files-v1'')]\<rparr>)"
    using pol [where w = "start_world\<lparr>faults := [NetworkError, Status 503, Status 502]\<rparr>"
        and ?f1.0 = NetworkError and ?f2.0 = "Status 503" and ?f3.0 = "Status 502" and rest = "[]"]
    by (simp add: tr)
  have 2: "request demo_env (ListAssets ''large-files-v1'')
      (start_world\<lparr>faults := [Status 503, NetworkError]\<rparr>)
     = (Inr (AssetsJson []),
        start_world\<lparr>faults := [],
          trace := [Http (ListAssets ''large-files-v1''), Sleep 1,
                    Http (ListAssets ''large-files-v1''), Sleep 2,
                    Http (ListAssets ''large-files-v1'')]\<rparr>)"
    using pol [where w = "start_world\<lparr>faults := [Status 503, NetworkError]\<rparr>"
        and ?f1.0 = "Status 503" and ?f2.0 = NetworkError and rest = "[]"]
    by (simp add: tr deliver_def rel)
  have 3: "request demo_env (ListAssets ''large-files-v1'')
      (start_world\<lparr>faults := [NetworkError]\<rparr>)
     = (Inr (AssetsJson []),
        start_world\<lparr>faults := [],
          trace := [Http (ListAssets ''large-files-v1''), Sleep 1,
                    Http (ListAssets ''large-files-v1'')]\<rparr>)"
    using pol [where w = "start_world\<lparr>faults := [NetworkError]\<rparr>"
        and ?f1.0 = NetworkError and rest = "[]"]
    by (simp add: tr deliver_def rel)
  have 4: "request demo_env (ListAssets ''large-files-v1'')
      (start_world\<lparr>faults := [Status 403, Deliver]\<rparr>)
     = (Inl (HTTPStatusError 403),
        start_world\<lparr>faults := [Deliver], trace := [Http (ListAssets ''large-files-v1'')]\<rparr>)"
    using pol [where w = "start_world\<lparr>faults := [Status 403, Deliver]\<rparr>"
        and code = 403 and rest = "[Deliver]"]
    by (simp add: tr)
  have 5: "request demo_env (ListAssets ''large-files-v1'')
      (start_world\<lparr>faults := [Status 503, Status 403, Deliver]\<rparr>)
     = (Inl (HTTPStatusError 403),
        start_world\<lparr>faults := [Deliver],
          trace := [Http (ListAssets ''large-files-v1''), Sleep 1,
                    Http (ListAssets ''large-files-v1'')]\<rparr>)"
    using pol [where w = "start_world\<lparr>faults := [Status 503, Status 403, Deliver]\<rparr>"
        and ?f1.0 = "Status 503" and code = 403 and rest = "[Deliver]"]
    by (simp add: tr)
  have 6: "get_release demo_env ''large-files-v1'' (start_world\<lparr>faults := [Status 404]\<rparr>)
     = (Inr None,
        start_world\<lparr>faults := [], trace := [Http (GetReleaseByTag ''large-files-v1'')]\<rparr>)"
    using pol [where w = "start_world\<lparr>faults := [Status 404]\<rparr>" and rest = "[]"
        and tag = "''large-files-v1''"]
    by (simp add: tr)
  have 7: "get_release demo_env ''no-such-tag'' start_world
     = (Inr None, start_world\<lparr>trace := [Http (GetReleaseByTag ''no-such-tag'')]\<rparr>)"
    using pol [where w = start_world and tag = "''no-such-tag''"]
    by (simp add: tr fl rel)
  have 8: "get_release demo_env ''large-files-v1'' (start_world\<lparr>faults := [Status 403]\<rparr>)
     = (Inl (HTTPStatusError 403),
        start_world\<lparr>faults := [], trace := [Http (GetReleaseByTag ''large-files-v1'')]\<rparr>)"
    using pol [where w = "start_world\<lparr>faults := [Status 403]\<rparr>" and rest = "[]"
        and tag = "''large-files-v1''" and code = 403]
    by (simp add: tr)
  have 9: "download_asset demo_env \<lparr>asset_id = 1, asset_name = ''ab12cd34ef56-model.bin'',
                               asset_size = 13\<rparr> ''/h/data/model.bin.pointer.tmp''
        (offloaded_world\<lparr>faults := [NetworkError, Deliver]\<rparr>)
     = (Inl RequestError,
        offloaded_world\<lparr>faults := [Deliver], trace := [Http (DownloadAsset 1)]\<rparr>)"
    using pol [where w = "offloaded_world\<lparr>faults := [NetworkError, Deliver]\<rparr>"
        and ?f1.0 = NetworkError and rest = "[Deliver]"
        and asset = "\<lparr>asset_id = 1, asset_name = ''ab12cd34ef56-model.bin'', asset_size = 13\<rparr>"
        and save_path = "''/h/data/model.bin.pointer.tmp''"]
    by (simp add: tr')
  have 10: "upload_asset demo_env ''large-files-v1'' ''/h/data/model.bin'' ''ab12cd34ef56-model.bin''
        (start_world\<lparr>faults := [Deliver, NetworkError, Deliver]\<rparr>)
     = (Inl RequestError,
        start_world\<lparr>faults := [Deliver],
          trace := [Http (ListAssets ''large-files-v1''),
                    Http (UploadAsset ''large-files-v1'' ''ab12cd34ef56-model.bin''
                            ''MODEL-WEIGHTS'')]\<rparr>)"
    using pol [where w = "start_world\<lparr>faults := [Deliver, NetworkError, Deliver]\<rparr>"
        and ?f2.0 = NetworkError and rest = "[Deliver]" and tag = "''large-files-v1''"
        and blobs = "[]" and name = "''ab12cd34ef56-model.bin''"
        and file_path = "''/h/data/model.bin''" and payload = "''MODEL-WEIGHTS''"]
    by (simp add: tr rel src)
  from 1 2 3 4 5 6 7 8 9 10 show ?thesis by blast
qed

text \<open>
  Claim C6 as stated speaks of every request to the blob store. The payload request
  of \<open>upload_asset\<close> does not go through \<open>request\<close>: answered with 503 it is raised
  after that one exchange, with no sleep and no second attempt, although the next
  exchange would have been delivered.
\<close>

theorem upload_not_retried:
  "upload_asset demo_env ''large-files-v1'' ''/h/data/model.bin'' ''ab12cd34ef56-model.bin''
      (start_world\<lparr>faults := [Deliver, Status 503]\<rparr>)
     = (Inl (HTTPStatusError 503),
        start_world\<lparr>faults := [],
          trace := [Http (ListAssets ''large-files-v1''),
                    Http (UploadAsset ''large-files-v1'' ''ab12cd34ef56-model.bin''
                            ''MODEL-WEIGHTS'')]\<rparr>)"
proof -
  let ?w = "start_world\<lparr>faults := [Deliver, Status 503]\<rparr>"
  have "request demo_env (ListAssets ''large-files-v1'') ?w =
        deliver demo_env (ListAssets ''large-files-v1'')
          (?w\<lparr>faults := tl (faults ?w), trace := trace ?w @ [Http (ListAssets ''large-files-v1'')]\<rparr>)"
    by (rule request_delivered) simp
  then have l: "list_assets demo_env ''large-files-v1'' ?w =
        (Inr [], start_world\<lparr>faults := [Status 503],
                   trace := [Http (ListAssets ''large-files-v1'')]\<rparr>)"
    by (simp add: list_assets_def deliver_def) (simp add: start_world_def)
  show ?thesis
    by (simp add: upload_asset_def get_asset_by_name_def and_then_def ret_def l)
       (simp add: start_world_def exchange_def log_event_def)
qed

section \<open>The client on a quiet network\<close>

text \<open>
  With no fault scheduled every exchange is delivered, and each operation of the client
  is determined by the state of the store.
\<close>

lemma log_event_fields [simp]:
  "files (log_event ev w) = files w"
  "blob_store (log_event ev w) = blob_store w"
  "faults (log_event ev w) = faults w"
  "manifest (log_event ev w) = manifest w"
  "git_index (log_event ev w) = git_index w"
  "git_exclude (log_event ev w) = git_exclude w"
  "clock (log_event ev w) = clock w"
  "trace (log_event ev w) = trace w @ [ev]"
  by (simp_all add: log_event_def)

lemma deliver_same_store:
  assumes "serve e rq (blob_store w) = (r, blob_store w)"
  shows "deliver e rq w =
     ((case r of Inl code \<Rightarrow> Inl (HTTPStatusError code) | Inr resp \<Rightarrow> Inr resp), w)"
  using assms by (cases w) (simp add: deliver_def split: sum.splits)

lemma get_release_quiet:
  assumes "faults w = []"
  shows "get_release e tag w =
     (Inr (case map_of (releases (blob_store w)) tag of None \<Rightarrow> None | Some blobs \<Rightarrow> Some tag),
      log_event (Http (GetReleaseByTag tag)) w)"
proof -
  let ?w = "log_event (Http (GetReleaseByTag tag)) w"
  have "serve e (GetReleaseByTag tag) (blob_store ?w) =
          ((case map_of (releases (blob_store w)) tag of
              None \<Rightarrow> Inl 404 | Some blobs \<Rightarrow> Inr (ReleaseJson tag)), blob_store ?w)"
    by (simp split: option.splits)
  then have "deliver e (GetReleaseByTag tag) ?w =
      ((case map_of (releases (blob_store w)) tag of
          None \<Rightarrow> Inl (HTTPStatusError 404) | Some blobs \<Rightarrow> Inr (ReleaseJson tag)), ?w)"
    by (simp add: deliver_same_store split: option.splits)
  then show ?thesis
    using assms by (simp add: get_release_def request_quiet split: option.splits)
qed

lemma create_release_quiet:
  assumes "faults w = []" "map_of (releases (blob_store w)) tag = None"
  shows "create_release e tag w =
     (Inr tag,
      (log_event (Http (CreateRelease tag)) w)
        \<lparr>blob_store := (blob_store w)\<lparr>releases := AList.update tag [] (releases (blob_store w))\<rparr>\<rparr>)"
  using assms by (simp add: create_release_def request_quiet deliver_def)

lemma list_assets_quiet:
  assumes "faults w = []"
  shows "list_assets e tag w =
     ((case map_of (releases (blob_store w)) tag of
         None \<Rightarrow> Inl (HTTPStatusError 404)
       | Some blobs \<Rightarrow> Inr (map describe blobs)),
      log_event (Http (ListAssets tag)) w)"
proof -
  let ?w = "log_event (Http (ListAssets tag)) w"
  have "serve e (ListAssets tag) (blob_store ?w) =
          ((case map_of (releases (blob_store w)) tag of
              None \<Rightarrow> Inl 404 | Some blobs \<Rightarrow> Inr (AssetsJson (map describe blobs))),
           blob_store ?w)"
    by (simp split: option.splits)
  then have "deliver e (ListAssets tag) ?w =
      ((case map_of (releases (blob_store w)) tag of
          None \<Rightarrow> Inl (HTTPStatusError 404)
        | Some blobs \<Rightarrow> Inr (AssetsJson (map describe blobs))), ?w)"
    by (simp add: deliver_same_store split: option.splits)
  then show ?thesis
    using assms by (simp add: list_assets_def request_quiet split: option.splits)
qed

lemma get_asset_by_name_quiet:
  assumes "faults w = []" "map_of (releases (blob_store w)) tag = Some blobs"
  shows "get_asset_by_name e tag name w =
     (Inr (find (\<lambda>asset. JStr (asset_name asset) = name) (map describe blobs)),
      log_event (Http (ListAssets tag)) w)"
  using assms by (simp add: get_asset_by_name_def and_then_def ret_def list_assets_quiet)

lemma exchange_quiet:
  assumes "faults w = []"
  shows "exchange e rq w = deliver e rq (log_event (Http rq) w)"
  using assms by (simp add: exchange_def)

lemma download_asset_quiet:
  assumes "faults w = []"
    "find (\<lambda>b. blob_id b = asset_id asset) (all_blobs (blob_store w)) = Some b"
  shows "download_asset e asset save_path w =
     (Inr True,
      (log_event (Http (DownloadAsset (asset_id asset))) w)
        \<lparr>files := AList.update save_path (blob_content b) (files w)\<rparr>)"
proof -
  let ?w = "log_event (Http (DownloadAsset (asset_id asset))) w"
  have "serve e (DownloadAsset (asset_id asset)) (blob_store ?w) =
          (Inr (Bytes (blob_content b)), blob_store ?w)"
    using assms(2) by simp
  then have "deliver e (DownloadAsset (asset_id asset)) ?w = (Inr (Bytes (blob_content b)), ?w)"
    by (simp add: deliver_same_store)
  then show ?thesis
    using assms(1) by (simp add: download_asset_def exchange_quiet)
qed

section \<open>Restore, step by step\<close>

lemma ensure_git_info_exclude_fields [simp]:
  "files (ensure_git_info_exclude xs w) = files w"
  "blob_store (ensure_git_info_exclude xs w) = blob_store w"
  "faults (ensure_git_info_exclude xs w) = faults w"
  "manifest (ensure_git_info_exclude xs w) = manifest w"
  "trace (ensure_git_info_exclude xs w) = trace w"
  "clock (ensure_git_info_exclude xs w) = clock w"
  by (simp_all add: ensure_git_info_exclude_def)

lemma materialize_result:
  assumes "map_of (files w) temp_path = Some payload"
  shows "materialize e pointer_path temp_path pointer w =
     (Inr True,
      if already_satisfied e (files w) pointer_path pointer
      then w\<lparr>files := AList.delete temp_path (files w)\<rparr>
      else ensure_git_info_exclude
             [relpath e (get_real_path_from_pointer pointer_path) (hist_dir (manifest w))]
             (w\<lparr>files := AList.update (get_real_path_from_pointer pointer_path) payload
                              (AList.delete temp_path (files w))\<rparr>))"
  using assms
  by (simp add: materialize_def already_satisfied_def get_real_path_from_pointer_def isfile_def
      calculate_file_hash_def os_remove_def shutil_move_def and_then_def ret_def Let_def
      split: option.splits)

text \<open>
  A restore whose pointer parses and validates, whose release exists and whose asset
  is found under the pointer's name: one release lookup, one listing, one download.
\<close>

lemma restore_from_lfs_direct:
  assumes quiet: "faults w = []"
    and ptr: "read_pointer e (files w) pointer_path = Some pointer"
    and valid: "validate_pointer pointer = Inr True"
    and rel: "map_of (releases (blob_store w)) (format_tag e (pf_release_tag pointer)) = Some blobs"
    and hit: "find (\<lambda>asset. JStr (asset_name asset) = pf_asset_name pointer) (map describe blobs)
              = Some asset"
    and blob: "find (\<lambda>b. blob_id b = asset_id asset) (all_blobs (blob_store w)) = Some b"
  shows "restore_from_lfs e pointer_path verify w =
     (let tag = format_tag e (pf_release_tag pointer);
          temp_path = pointer_path @ ''.tmp'';
          w1 = w\<lparr>files := AList.update temp_path (blob_content b) (files w),
                  trace := trace w @ [RestoreCall pointer_path verify, Http (GetReleaseByTag tag),
                                      Http (ListAssets tag), Http (DownloadAsset (asset_id asset))]\<rparr>
      in if verify \<and> JStr (''sha256:'' @ sha256_hexdigest e (blob_content b)) \<noteq> pf_hash pointer
         then (False, w1\<lparr>files := AList.delete temp_path (files w1)\<rparr>)
         else (True, snd (materialize e pointer_path temp_path pointer w1)))"
proof -
  let ?tag = "format_tag e (pf_release_tag pointer)"
  let ?tmp = "pointer_path @ ''.tmp''"
  let ?w0 = "log_event (RestoreCall pointer_path verify) w"
  let ?wa = "log_event (Http (GetReleaseByTag ?tag)) ?w0"
  let ?wb = "log_event (Http (ListAssets ?tag)) ?wa"
  let ?wc = "(log_event (Http (DownloadAsset (asset_id asset))) ?wb)
               \<lparr>files := AList.update ?tmp (blob_content b) (files w)\<rparr>"
  let ?w1 = "w\<lparr>files := AList.update ?tmp (blob_content b) (files w),
                  trace := trace w @ [RestoreCall pointer_path verify, Http (GetReleaseByTag ?tag),
                                      Http (ListAssets ?tag), Http (DownloadAsset (asset_id asset))]\<rparr>"
  have wc: "?wc = ?w1" by (cases w) (simp add: log_event_def)
  have g: "get_release e ?tag ?w0 = (Inr (Some ?tag), ?wa)"
    using quiet rel by (simp add: get_release_quiet)
  have a: "get_asset_by_name e ?tag (pf_asset_name pointer) ?wa = (Inr (Some asset), ?wb)"
    using quiet rel hit by (simp add: get_asset_by_name_quiet)
  have d: "download_asset e asset ?tmp ?wb = (Inr True, ?w1)"
    using quiet blob wc by (simp add: download_asset_quiet)
  have tmp: "map_of (files ?w1) ?tmp = Some (blob_content b)"
    by (simp add: update_conv')
  have m: "fst (materialize e pointer_path ?tmp pointer ?w1) = Inr True"
    using materialize_result [OF tmp] by simp
  have body: "restore_body e pointer_path verify ?w0 =
     (if verify \<and> JStr (''sha256:'' @ sha256_hexdigest e (blob_content b)) \<noteq> pf_hash pointer
      then (Inr False, ?w1\<lparr>files := AList.delete ?tmp (files ?w1)\<rparr>)
      else materialize e pointer_path ?tmp pointer ?w1)"
    using ptr valid g a d tmp
    by (simp add: restore_body_def and_then_def ret_def calculate_file_hash_def os_remove_def
        isfile_def Let_def)
  show ?thesis
    unfolding restore_from_lfs_def body Let_def
    using m by (cases "materialize e pointer_path ?tmp pointer ?w1") auto
qed

section \<open>Restoring over a destination that already matches\<close>

lemma real_path_not_temp: "get_real_path_from_pointer pointer_path \<noteq> pointer_path @ ''.tmp''"
proof
  assume "get_real_path_from_pointer pointer_path = pointer_path @ ''.tmp''"
  then have "length (get_real_path_from_pointer pointer_path) = length (pointer_path @ ''.tmp'')"
    by simp
  then show False by (simp add: get_real_path_from_pointer_def split: if_splits)
qed

lemma already_satisfied_temp:
  "already_satisfied e (AList.update (pointer_path @ ''.tmp'') payload fsys) pointer_path pointer
     = already_satisfied e fsys pointer_path pointer"
  using real_path_not_temp [of pointer_path]
  by (simp add: already_satisfied_def update_conv')

lemma downloads_append [simp]: "downloads (xs @ ys) = downloads xs + downloads ys"
  by (simp add: downloads_def)

lemma uploads_append [simp]: "uploads (xs @ ys) = uploads xs + uploads ys"
  by (simp add: uploads_def)

text \<open>
  Claim C2, as the code has it. When the destination of a pointer already holds content
  with the recorded hash, and the pointer's asset resolves (release found, asset found
  under the pointer's name, payload intact when the hash is verified), a restore
  returns success after exactly one download: the payload is fetched to the temporary
  file first and discarded when the destination is found to match. The destination is
  not touched.
\<close>

theorem restore_already_satisfied:
  assumes quiet: "faults w = []"
    and ptr: "read_pointer e (files w) pointer_path = Some pointer"
    and valid: "validate_pointer pointer = Inr True"
    and rel: "map_of (releases (blob_store w)) (format_tag e (pf_release_tag pointer)) = Some blobs"
    and hit: "find (\<lambda>asset. JStr (asset_name asset) = pf_asset_name pointer) (map describe blobs)
              = Some asset"
    and blob: "find (\<lambda>b. blob_id b = asset_id asset) (all_blobs (blob_store w)) = Some b"
    and intact: "verify \<longrightarrow> JStr (''sha256:'' @ sha256_hexdigest e (blob_content b)) = pf_hash pointer"
    and sat: "already_satisfied e (files w) pointer_path pointer"
  shows "fst (restore_from_lfs e pointer_path verify w) = True
    \<and> downloads (trace (snd (restore_from_lfs e pointer_path verify w)))
        = downloads (trace w) + 1
    \<and> trace (snd (restore_from_lfs e pointer_path verify w))
        = trace w @ [RestoreCall pointer_path verify,
                     Http (GetReleaseByTag (format_tag e (pf_release_tag pointer))),
                     Http (ListAssets (format_tag e (pf_release_tag pointer))),
                     Http (DownloadAsset (asset_id asset))]
    \<and> map_of (files (snd (restore_from_lfs e pointer_path verify w)))
          (get_real_path_from_pointer pointer_path)
        = map_of (files w) (get_real_path_from_pointer pointer_path)
    \<and> map_of (files (snd (restore_from_lfs e pointer_path verify w))) (pointer_path @ ''.tmp'')
        = None"
proof -
  let ?tag = "format_tag e (pf_release_tag pointer)"
  let ?tmp = "pointer_path @ ''.tmp''"
  let ?w1 = "w\<lparr>files := AList.update ?tmp (blob_content b) (files w),
                  trace := trace w @ [RestoreCall pointer_path verify, Http (GetReleaseByTag ?tag),
                                      Http (ListAssets ?tag), Http (DownloadAsset (asset_id asset))]\<rparr>"
  have tmp: "map_of (files ?w1) ?tmp = Some (blob_content b)"
    by (simp add: update_conv')
  have sat1: "already_satisfied e (files ?w1) pointer_path pointer"
    using sat by (simp add: already_satisfied_temp)
  have m: "materialize e pointer_path ?tmp pointer ?w1
           = (Inr True, ?w1\<lparr>files := AList.delete ?tmp (files ?w1)\<rparr>)"
    using materialize_result [OF tmp] sat1 by simp
  have r: "restore_from_lfs e pointer_path verify w
           = (True, ?w1\<lparr>files := AList.delete ?tmp (files ?w1)\<rparr>)"
    using restore_from_lfs_direct [OF quiet ptr valid rel hit blob, of verify] intact m
    by (simp add: Let_def)
  show ?thesis
    unfolding r using real_path_not_temp [of pointer_path]
    by (simp add: downloads_def delete_conv' update_conv')
qed

lemma offloaded_pointer:
  "read_pointer demo_env (files offloaded_world) ''/h/data/model.bin.pointer'' = Some model_pointer"
  by (simp add: read_pointer_def offloaded_world_def demo_env_def json_table_def
      to_dict_def from_dict_def subscript_def model_pointer_def)

lemma model_pointer_valid: "validate_pointer model_pointer = Inr True"
  by (simp add: validate_pointer_def model_pointer_def)

lemma offloaded_release:
  "map_of (releases (blob_store offloaded_world))
      (format_tag demo_env (pf_release_tag model_pointer))
     = Some [\<lparr>blob_id = 1, blob_name = ''ab12cd34ef56-model.bin'',
               blob_content = ''MODEL-WEIGHTS''\<rparr>]"
  by (simp add: offloaded_world_def format_tag_def model_pointer_def)

lemma offloaded_asset:
  "find (\<lambda>asset. JStr (asset_name asset) = pf_asset_name model_pointer)
     (map describe [\<lparr>blob_id = 1, blob_name = ''ab12cd34ef56-model.bin'',
                     blob_content = ''MODEL-WEIGHTS''\<rparr>])
   = Some \<lparr>asset_id = 1, asset_name = ''ab12cd34ef56-model.bin'', asset_size = 13\<rparr>"
  by (simp add: describe_def model_pointer_def)

lemma offloaded_blob:
  "find (\<lambda>b. blob_id b
               = asset_id \<lparr>asset_id = 1, asset_name = ''ab12cd34ef56-model.bin'', asset_size = 13\<rparr>)
     (all_blobs (blob_store offloaded_world))
   = Some \<lparr>blob_id = 1, blob_name = ''ab12cd34ef56-model.bin'', blob_content = ''MODEL-WEIGHTS''\<rparr>"
  by (simp add: all_blobs_def offloaded_world_def)

lemma model_digest:
  "sha256_hexdigest demo_env ''MODEL-WEIGHTS'' = ''ab12cd34ef56aa77''"
  by (simp add: demo_env_def digest_table_def)

lemma offloaded_satisfied:
  "already_satisfied demo_env (files offloaded_world) ''/h/data/model.bin.pointer'' model_pointer"
  by (simp add: already_satisfied_def get_real_path_from_pointer_def endswith_def
      offloaded_world_def model_digest model_pointer_def)

theorem restore_already_satisfied_witness:
  "fst (restore_from_lfs demo_env ''/h/data/model.bin.pointer'' True offloaded_world) = True
   \<and> trace (snd (restore_from_lfs demo_env ''/h/data/model.bin.pointer'' True offloaded_world))
       = [RestoreCall ''/h/data/model.bin.pointer'' True,
          Http (GetReleaseByTag ''large-files-v1''),
          Http (ListAssets ''large-files-v1''),
          Http (DownloadAsset 1)]
   \<and> map_of (files (snd (restore_from_lfs demo_env ''/h/data/model.bin.pointer'' True
                            offloaded_world))) ''/h/data/model.bin''
       = Some ''MODEL-WEIGHTS''"
proof -
  have quiet: "faults offloaded_world = []" by (simp add: offloaded_world_def)
  have intact: "True \<longrightarrow> JStr (''sha256:'' @ sha256_hexdigest demo_env
           (blob_content \<lparr>blob_id = 1, blob_name = ''ab12cd34ef56-model.bin'',
                          blob_content = ''MODEL-WEIGHTS''\<rparr>)) = pf_hash model_pointer"
    by (simp add: model_digest model_pointer_def)
  have tr: "trace offloaded_world = []"
    and fl: "map_of (files offloaded_world) ''/h/data/model.bin'' = Some ''MODEL-WEIGHTS''"
    by (simp_all add: offloaded_world_def)
  have real: "get_real_path_from_pointer ''/h/data/model.bin.pointer'' = ''/h/data/model.bin''"
    by (simp add: get_real_path_from_pointer_def endswith_def)
  have tag: "format_tag demo_env (pf_release_tag model_pointer) = ''large-files-v1''"
    by (simp add: format_tag_def model_pointer_def)
  from restore_already_satisfied [OF quiet offloaded_pointer model_pointer_valid offloaded_release
      offloaded_asset offloaded_blob intact offloaded_satisfied]
  show ?thesis by (simp add: tr fl real tag)
qed

text \<open>
  Claim C2 as stated says that such a restore performs no download. In the world after
  the offload the real file is in place and matches the pointer; a restore of the
  pointer returns success and its trace holds one download.
\<close>

theorem restore_already_satisfied_downloads:
  "already_satisfied demo_env (files offloaded_world) ''/h/data/model.bin.pointer'' model_pointer
   \<and> read_pointer demo_env (files offloaded_world) ''/h/data/model.bin.pointer''
       = Some model_pointer
   \<and> fst (restore_from_lfs demo_env ''/h/data/model.bin.pointer'' True offloaded_world) = True
   \<and> downloads (trace offloaded_world) = 0
   \<and> downloads (trace (snd (restore_from_lfs demo_env ''/h/data/model.bin.pointer'' True
                               offloaded_world))) = 1"
proof -
  have quiet: "faults offloaded_world = []" by (simp add: offloaded_world_def)
  have tr: "trace offloaded_world = []" by (simp add: offloaded_world_def)
  let ?w1 = "offloaded_world\<lparr>
      files := AList.update ''/h/data/model.bin.pointer.tmp'' ''MODEL-WEIGHTS''
                 (files offloaded_world),
      trace := [RestoreCall ''/h/data/model.bin.pointer'' True,
                Http (GetReleaseByTag ''large-files-v1''),
                Http (ListAssets ''large-files-v1''),
                Http (DownloadAsset 1)]\<rparr>"
  have tmp: "map_of (files ?w1) ''/h/data/model.bin.pointer.tmp'' = Some ''MODEL-WEIGHTS''"
    by (simp add: update_conv')
  have sat1: "already_satisfied demo_env (files ?w1) ''/h/data/model.bin.pointer'' model_pointer"
    using offloaded_satisfied already_satisfied_temp [of demo_env "''/h/data/model.bin.pointer''"]
    by simp
  have m: "snd (materialize demo_env ''/h/data/model.bin.pointer''
                  ''/h/data/model.bin.pointer.tmp'' model_pointer ?w1)
           = ?w1\<lparr>files := AList.delete ''/h/data/model.bin.pointer.tmp'' (files ?w1)\<rparr>"
    using materialize_result [OF tmp] sat1 by simp
  have r: "restore_from_lfs demo_env ''/h/data/model.bin.pointer'' True offloaded_world
           = (True, ?w1\<lparr>files := AList.delete ''/h/data/model.bin.pointer.tmp'' (files ?w1)\<rparr>)"
    using restore_from_lfs_direct [OF quiet offloaded_pointer model_pointer_valid
        offloaded_release offloaded_asset offloaded_blob, of True] m
    by (simp add: Let_def model_digest tr format_tag_def) (simp add: model_pointer_def)
  show ?thesis
    unfolding r using offloaded_satisfied offloaded_pointer
    by (simp add: tr downloads_def)
qed

section \<open>Restoring through an older recorded version\<close>

lemma find_describe:
  "find (\<lambda>asset. asset_name asset = name) (map describe blobs)
     = map_option describe (find (\<lambda>b. blob_name b = name) blobs)"
  by (induction blobs) (simp_all add: describe_def)

lemma find_name_survives:
  "(find (\<lambda>b. blob_name b = fv_asset_name v) blobs = None) = (\<not> survives blobs v)"
  by (auto simp add: survives_def find_None_iff list_ex_iff)

lemma log_event_trace_update:
  "(log_event ev w)\<lparr>trace := trace (log_event ev w) @ evs\<rparr> = w\<lparr>trace := trace w @ ev # evs\<rparr>"
  by (cases w) (simp add: log_event_def)

lemma fallback_versions_quiet:
  assumes "faults w = []" "map_of (releases (blob_store w)) tag = Some blobs"
  shows "fallback_versions e tag vs pointer w =
     (case find (survives blobs) vs of
        None \<Rightarrow>
          (Inr (None, pointer),
           w\<lparr>trace := trace w @ replicate (length vs) (Http (ListAssets tag))\<rparr>)
      | Some v \<Rightarrow>
          (Inr (map_option describe (find (\<lambda>b. blob_name b = fv_asset_name v) blobs),
                adopt pointer v),
           w\<lparr>trace := trace w @
                 replicate (Suc (length (takeWhile (\<lambda>u. \<not> survives blobs u) vs)))
                   (Http (ListAssets tag))\<rparr>))"
  using assms
proof (induction vs arbitrary: w)
  case Nil
  then show ?case by (cases w) simp
next
  case (Cons v vs)
  let ?w' = "log_event (Http (ListAssets tag)) w"
  have g: "get_asset_by_name e tag (JStr (fv_asset_name v)) w =
        (Inr (map_option describe (find (\<lambda>b. blob_name b = fv_asset_name v) blobs)), ?w')"
    using Cons.prems by (simp add: get_asset_by_name_quiet find_describe)
  show ?case
  proof (cases "survives blobs v")
    case True
    then obtain b where b: "find (\<lambda>b. blob_name b = fv_asset_name v) blobs = Some b"
      using find_name_survives [of v blobs] by (cases "find (\<lambda>b. blob_name b = fv_asset_name v) blobs") auto
    have "?w' = w\<lparr>trace := trace w @ [Http (ListAssets tag)]\<rparr>"
      by (simp add: log_event_def)
    with True b g show ?thesis by (simp add: adopt_def)
  next
    case False
    then have n: "find (\<lambda>b. blob_name b = fv_asset_name v) blobs = None"
      using find_name_survives [of v blobs] by simp
    have ih: "fallback_versions e tag vs pointer ?w' =
     (case find (survives blobs) vs of
        None \<Rightarrow>
          (Inr (None, pointer),
           ?w'\<lparr>trace := trace ?w' @ replicate (length vs) (Http (ListAssets tag))\<rparr>)
      | Some v \<Rightarrow>
          (Inr (map_option describe (find (\<lambda>b. blob_name b = fv_asset_name v) blobs),
                adopt pointer v),
           ?w'\<lparr>trace := trace ?w' @
                 replicate (Suc (length (takeWhile (\<lambda>u. \<not> survives blobs u) vs)))
                   (Http (ListAssets tag))\<rparr>))"
      by (rule Cons.IH) (use Cons.prems in simp_all)
    show ?thesis
      using False n g ih
      by (simp add: log_event_trace_update split: option.splits)
  qed
qed

text \<open>
  The restore when the pointer's own asset is absent: the body up to the end of the
  fallback loop, then download, verification and placement as in the direct case.
\<close>

lemma restore_from_lfs_exhausted:
  assumes quiet: "faults w = []"
    and ptr: "read_pointer e (files w) pointer_path = Some pointer"
    and valid: "validate_pointer pointer = Inr True"
    and rel: "map_of (releases (blob_store w)) (format_tag e (pf_release_tag pointer)) = Some blobs"
    and miss: "find (\<lambda>asset. JStr (asset_name asset) = pf_asset_name pointer) (map describe blobs)
               = None"
    and none: "find (survives blobs)
                 (get_all_versions (manifest w)
                    (relpath e (take (length pointer_path - 8) pointer_path)
                       (hist_dir (manifest w)))) = None"
  shows "restore_from_lfs e pointer_path verify w =
     (False,
      w\<lparr>trace := trace w @
           [RestoreCall pointer_path verify,
            Http (GetReleaseByTag (format_tag e (pf_release_tag pointer))),
            Http (ListAssets (format_tag e (pf_release_tag pointer)))]
           @ replicate (length (get_all_versions (manifest w)
                                  (relpath e (take (length pointer_path - 8) pointer_path)
                                     (hist_dir (manifest w)))))
               (Http (ListAssets (format_tag e (pf_release_tag pointer))))\<rparr>)"
proof -
  let ?tag = "format_tag e (pf_release_tag pointer)"
  let ?vs = "get_all_versions (manifest w)
               (relpath e (take (length pointer_path - 8) pointer_path) (hist_dir (manifest w)))"
  let ?w0 = "log_event (RestoreCall pointer_path verify) w"
  let ?wa = "log_event (Http (GetReleaseByTag ?tag)) ?w0"
  let ?wb = "log_event (Http (ListAssets ?tag)) ?wa"
  have g: "get_release e ?tag ?w0 = (Inr (Some ?tag), ?wa)"
    using quiet rel by (simp add: get_release_quiet)
  have a: "get_asset_by_name e ?tag (pf_asset_name pointer) ?wa = (Inr None, ?wb)"
    using quiet rel miss by (simp add: get_asset_by_name_quiet)
  have f: "fallback_versions e ?tag ?vs pointer ?wb =
        (Inr (None, pointer),
         ?wb\<lparr>trace := trace ?wb @ replicate (length ?vs) (Http (ListAssets ?tag))\<rparr>)"
    using fallback_versions_quiet [of ?wb ?tag blobs e ?vs pointer] quiet rel none by simp
  have wb: "?wb\<lparr>trace := trace ?wb @ replicate (length ?vs) (Http (ListAssets ?tag))\<rparr>
          = w\<lparr>trace := trace w @ [RestoreCall pointer_path verify, Http (GetReleaseByTag ?tag),
                                   Http (ListAssets ?tag)]
                            @ replicate (length ?vs) (Http (ListAssets ?tag))\<rparr>"
    by (cases w) (simp add: log_event_def)
  have body: "restore_body e pointer_path verify ?w0 =
        (Inr False,
         ?wb\<lparr>trace := trace ?wb @ replicate (length ?vs) (Http (ListAssets ?tag))\<rparr>)"
    using ptr valid g a f
    by (simp add: restore_body_def and_then_def ret_def)
  show ?thesis
    unfolding restore_from_lfs_def body wb by simp
qed

lemma restore_from_lfs_fallback:
  assumes quiet: "faults w = []"
    and ptr: "read_pointer e (files w) pointer_path = Some pointer"
    and valid: "validate_pointer pointer = Inr True"
    and rel: "map_of (releases (blob_store w)) (format_tag e (pf_release_tag pointer)) = Some blobs"
    and miss: "find (\<lambda>asset. JStr (asset_name asset) = pf_asset_name pointer) (map describe blobs)
               = None"
    and some: "find (survives blobs)
                 (get_all_versions (manifest w)
                    (relpath e (take (length pointer_path - 8) pointer_path)
                       (hist_dir (manifest w)))) = Some v"
    and named: "find (\<lambda>b. blob_name b = fv_asset_name v) blobs = Some b"
    and blob: "find (\<lambda>b'. blob_id b' = blob_id b) (all_blobs (blob_store w)) = Some b"
  shows "restore_from_lfs e pointer_path verify w =
     (let tag = format_tag e (pf_release_tag pointer);
          temp_path = pointer_path @ ''.tmp'';
          vs = get_all_versions (manifest w)
                 (relpath e (take (length pointer_path - 8) pointer_path)
                    (hist_dir (manifest w)));
          w1 = w\<lparr>files := AList.update temp_path (blob_content b) (files w),
                  trace := trace w @
                    [RestoreCall pointer_path verify, Http (GetReleaseByTag tag),
                     Http (ListAssets tag)]
                    @ replicate (Suc (length (takeWhile (\<lambda>u. \<not> survives blobs u) vs)))
                        (Http (ListAssets tag))
                    @ [Http (DownloadAsset (blob_id b))]\<rparr>
      in if verify \<and> ''sha256:'' @ sha256_hexdigest e (blob_content b) \<noteq> fv_hash v
         then (False, w1\<lparr>files := AList.delete temp_path (files w1)\<rparr>)
         else (True, snd (materialize e pointer_path temp_path (adopt pointer v) w1)))"
proof -
  let ?tag = "format_tag e (pf_release_tag pointer)"
  let ?tmp = "pointer_path @ ''.tmp''"
  let ?vs = "get_all_versions (manifest w)
               (relpath e (take (length pointer_path - 8) pointer_path) (hist_dir (manifest w)))"
  let ?k = "Suc (length (takeWhile (\<lambda>u. \<not> survives blobs u) ?vs))"
  let ?w0 = "log_event (RestoreCall pointer_path verify) w"
  let ?wa = "log_event (Http (GetReleaseByTag ?tag)) ?w0"
  let ?wb = "log_event (Http (ListAssets ?tag)) ?wa"
  let ?wf = "?wb\<lparr>trace := trace ?wb @ replicate ?k (Http (ListAssets ?tag))\<rparr>"
  let ?w1 = "w\<lparr>files := AList.update ?tmp (blob_content b) (files w),
                trace := trace w @
                    [RestoreCall pointer_path verify, Http (GetReleaseByTag ?tag),
                     Http (ListAssets ?tag)]
                    @ replicate ?k (Http (ListAssets ?tag))
                    @ [Http (DownloadAsset (blob_id b))]\<rparr>"
  have g: "get_release e ?tag ?w0 = (Inr (Some ?tag), ?wa)"
    using quiet rel by (simp add: get_release_quiet)
  have a: "get_asset_by_name e ?tag (pf_asset_name pointer) ?wa = (Inr None, ?wb)"
    using quiet rel miss by (simp add: get_asset_by_name_quiet)
  have f: "fallback_versions e ?tag ?vs pointer ?wb =
        (Inr (Some (describe b), adopt pointer v), ?wf)"
    using fallback_versions_quiet [of ?wb ?tag blobs e ?vs pointer] quiet rel some named by simp
  have d0: "download_asset e (describe b) ?tmp ?wf =
        (Inr True,
         (log_event (Http (DownloadAsset (asset_id (describe b)))) ?wf)
           \<lparr>files := AList.update ?tmp (blob_content b) (files ?wf)\<rparr>)"
    by (rule download_asset_quiet) (use quiet blob in \<open>simp_all add: describe_def\<close>)
  have w1: "(log_event (Http (DownloadAsset (asset_id (describe b)))) ?wf)
           \<lparr>files := AList.update ?tmp (blob_content b) (files ?wf)\<rparr> = ?w1"
    by (cases w) (simp add: log_event_def describe_def)
  have d: "download_asset e (describe b) ?tmp ?wf = (Inr True, ?w1)"
    using d0 w1 by simp
  have tmp: "map_of (files ?w1) ?tmp = Some (blob_content b)"
    by (simp add: update_conv')
  have m: "fst (materialize e pointer_path ?tmp (adopt pointer v) ?w1) = Inr True"
    using materialize_result [OF tmp] by simp
  have body: "restore_body e pointer_path verify ?w0 =
     (if verify \<and> ''sha256:'' @ sha256_hexdigest e (blob_content b) \<noteq> fv_hash v
      then (Inr False, ?w1\<lparr>files := AList.delete ?tmp (files ?w1)\<rparr>)
      else materialize e pointer_path ?tmp (adopt pointer v) ?w1)"
    using ptr valid g a f d tmp
    by (simp add: restore_body_def and_then_def ret_def calculate_file_hash_def os_remove_def
        isfile_def Let_def adopt_def)
  show ?thesis
    unfolding restore_from_lfs_def body Let_def
    using m by (cases "materialize e pointer_path ?tmp (adopt pointer v) ?w1") auto
qed

lemma first_found_is_newest:
  fixes key :: "'a \<Rightarrow> 'k::linorder"
  assumes sorted: "sorted_wrt (\<lambda>x y. key y \<le> key x) vs"
    and found: "find P vs = Some v"
    and other: "u \<in> set vs" "P u"
  shows "key u \<le> key v"
proof -
  from found obtain i where i: "i < length vs" "v = vs ! i" "\<forall>j<i. \<not> P (vs ! j)"
    unfolding find_Some_iff by blast
  from other(1) obtain j where j: "j < length vs" "u = vs ! j"
    by (auto simp: in_set_conv_nth)
  have "\<not> j < i" using i(3) j(2) other(2) by blast
  then consider "j = i" | "i < j" by linarith
  then show ?thesis
  proof cases
    case 1
    with i j show ?thesis by simp
  next
    case 2
    with sorted j(1) have "key (vs ! j) \<le> key (vs ! i)"
      by (simp add: sorted_wrt_iff_nth_less)
    with i j show ?thesis by simp
  qed
qed

text \<open>
  Claim C7. The pointer parses and validates, its release exists, and no asset of the
  release has the pointer's asset name. The restore then walks the versions the
  manifest records for the path (all of them, each once), newest first by timestamp,
  listing the release once for each name it tries. If no recorded version survives,
  every name is tried and the restore fails without a download. Otherwise it stops at
  the first surviving version (no surviving version is newer), downloads that
  version's asset and goes on with the version's name, hash and size; no further name
  is looked up. It succeeds unless the hash is verified and the payload does not hash
  to the version's hash, and on success the destination holds the payload (or is left
  alone when it already hashed to the version's hash).
\<close>

theorem restore_falls_back:
  assumes quiet: "faults w = []"
    and ptr: "read_pointer e (files w) pointer_path = Some pointer"
    and valid: "validate_pointer pointer = Inr True"
    and rel: "map_of (releases (blob_store w)) (format_tag e (pf_release_tag pointer)) = Some blobs"
    and miss: "find (\<lambda>asset. JStr (asset_name asset) = pf_asset_name pointer) (map describe blobs)
               = None"
  shows "let tag = format_tag e (pf_release_tag pointer);
             vs = get_all_versions (manifest w)
                    (relpath e (take (length pointer_path - 8) pointer_path)
                       (hist_dir (manifest w)));
             res = restore_from_lfs e pointer_path verify w
         in sorted_wrt (\<lambda>x y. fv_timestamp y \<le> fv_timestamp x) vs
          \<and> mset vs = mset (case get_file_record (manifest w)
                                   (relpath e (take (length pointer_path - 8) pointer_path)
                                      (hist_dir (manifest w))) of
                                 None \<Rightarrow> []
                               | Some record \<Rightarrow> versions record)
          \<and> (find (survives blobs) vs = None \<longrightarrow>
                fst res = False
              \<and> trace (snd res) = trace w @
                  [RestoreCall pointer_path verify, Http (GetReleaseByTag tag),
                   Http (ListAssets tag)]
                  @ replicate (length vs) (Http (ListAssets tag))
              \<and> files (snd res) = files w)
          \<and> (\<forall>v b. find (survives blobs) vs = Some v
                  \<and> find (\<lambda>b. blob_name b = fv_asset_name v) blobs = Some b
                  \<and> find (\<lambda>b'. blob_id b' = blob_id b) (all_blobs (blob_store w)) = Some b \<longrightarrow>
                (\<forall>u\<in>set vs. survives blobs u \<longrightarrow> fv_timestamp u \<le> fv_timestamp v)
              \<and> fst res = (verify \<longrightarrow> ''sha256:'' @ sha256_hexdigest e (blob_content b) = fv_hash v)
              \<and> trace (snd res) = trace w @
                  [RestoreCall pointer_path verify, Http (GetReleaseByTag tag),
                   Http (ListAssets tag)]
                  @ replicate (Suc (length (takeWhile (\<lambda>u. \<not> survives blobs u) vs)))
                      (Http (ListAssets tag))
                  @ [Http (DownloadAsset (blob_id b))]
              \<and> (fst res \<longrightarrow>
                   map_of (files (snd res)) (get_real_path_from_pointer pointer_path)
                   = (if already_satisfied e (files w) pointer_path (adopt pointer v)
                      then map_of (files w) (get_real_path_from_pointer pointer_path)
                      else Some (blob_content b))))"
proof -
  let ?tag = "format_tag e (pf_release_tag pointer)"
  let ?tmp = "pointer_path @ ''.tmp''"
  let ?real = "get_real_path_from_pointer pointer_path"
  let ?vs = "get_all_versions (manifest w)
               (relpath e (take (length pointer_path - 8) pointer_path) (hist_dir (manifest w)))"
  let ?res = "restore_from_lfs e pointer_path verify w"
  have sorted: "sorted_wrt (\<lambda>x y. fv_timestamp y \<le> fv_timestamp x) ?vs"
    by (simp add: get_all_versions_def py_sorted_desc_wrt split: option.splits)
  have every: "mset ?vs = mset (case get_file_record (manifest w)
                                   (relpath e (take (length pointer_path - 8) pointer_path)
                                      (hist_dir (manifest w))) of
                                 None \<Rightarrow> []
                               | Some record \<Rightarrow> versions record)"
    by (simp add: get_all_versions_def mset_py_sorted_desc split: option.splits)
  have none: "find (survives blobs) ?vs = None \<longrightarrow>
                fst ?res = False
              \<and> trace (snd ?res) = trace w @
                  [RestoreCall pointer_path verify, Http (GetReleaseByTag ?tag),
                   Http (ListAssets ?tag)]
                  @ replicate (length ?vs) (Http (ListAssets ?tag))
              \<and> files (snd ?res) = files w"
    using restore_from_lfs_exhausted [OF quiet ptr valid rel miss, of verify] by simp
  have some: "(\<forall>u\<in>set ?vs. survives blobs u \<longrightarrow> fv_timestamp u \<le> fv_timestamp v)
              \<and> fst ?res = (verify \<longrightarrow> ''sha256:'' @ sha256_hexdigest e (blob_content b) = fv_hash v)
              \<and> trace (snd ?res) = trace w @
                  [RestoreCall pointer_path verify, Http (GetReleaseByTag ?tag),
                   Http (ListAssets ?tag)]
                  @ replicate (Suc (length (takeWhile (\<lambda>u. \<not> survives blobs u) ?vs)))
                      (Http (ListAssets ?tag))
                  @ [Http (DownloadAsset (blob_id b))]
              \<and> (fst ?res \<longrightarrow>
                   map_of (files (snd ?res)) ?real
                   = (if already_satisfied e (files w) pointer_path (adopt pointer v)
                      then map_of (files w) ?real
                      else Some (blob_content b)))"
    if hyp: "find (survives blobs) ?vs = Some v
            \<and> find (\<lambda>b. blob_name b = fv_asset_name v) blobs = Some b
            \<and> find (\<lambda>b'. blob_id b' = blob_id b) (all_blobs (blob_store w)) = Some b"
    for v b
  proof -
    let ?w1 = "w\<lparr>files := AList.update ?tmp (blob_content b) (files w),
                  trace := trace w @
                    [RestoreCall pointer_path verify, Http (GetReleaseByTag ?tag),
                     Http (ListAssets ?tag)]
                    @ replicate (Suc (length (takeWhile (\<lambda>u. \<not> survives blobs u) ?vs)))
                        (Http (ListAssets ?tag))
                    @ [Http (DownloadAsset (blob_id b))]\<rparr>"
    have newest: "\<forall>u\<in>set ?vs. survives blobs u \<longrightarrow> fv_timestamp u \<le> fv_timestamp v"
      using first_found_is_newest [OF sorted] hyp by blast
    have r: "?res =
       (if verify \<and> ''sha256:'' @ sha256_hexdigest e (blob_content b) \<noteq> fv_hash v
        then (False, ?w1\<lparr>files := AList.delete ?tmp (files ?w1)\<rparr>)
        else (True, snd (materialize e pointer_path ?tmp (adopt pointer v) ?w1)))"
      using restore_from_lfs_fallback [OF quiet ptr valid rel miss, of v b verify] hyp
      by (simp add: Let_def)
    have tmp: "map_of (files ?w1) ?tmp = Some (blob_content b)"
      by (simp add: update_conv')
    have sat: "already_satisfied e (files ?w1) pointer_path (adopt pointer v)
               = already_satisfied e (files w) pointer_path (adopt pointer v)"
      by (simp add: already_satisfied_temp)
    have m: "snd (materialize e pointer_path ?tmp (adopt pointer v) ?w1) =
       (if already_satisfied e (files w) pointer_path (adopt pointer v)
        then ?w1\<lparr>files := AList.delete ?tmp (files ?w1)\<rparr>
        else ensure_git_info_exclude [relpath e ?real (hist_dir (manifest ?w1))]
               (?w1\<lparr>files := AList.update ?real (blob_content b)
                                  (AList.delete ?tmp (files ?w1))\<rparr>))"
      using materialize_result [OF tmp] sat by simp
    show ?thesis
      unfolding r m using newest real_path_not_temp [of pointer_path]
      by (simp add: delete_conv' update_conv')
  qed
  show ?thesis
    unfolding Let_def using sorted every none some by blast
qed

lemma evicted_pointer:
  "read_pointer demo_env (files evicted_world) ''/h/data/model.bin.pointer'' = Some model_pointer"
  by (simp add: read_pointer_def evicted_world_def demo_env_def json_table_def
      to_dict_def from_dict_def subscript_def model_pointer_def)

lemma evicted_release:
  "map_of (releases (blob_store evicted_world))
      (format_tag demo_env (pf_release_tag model_pointer)) = Some [older_blob]"
  by (simp add: evicted_world_def format_tag_def model_pointer_def)

lemma evicted_miss:
  "find (\<lambda>asset. JStr (asset_name asset) = pf_asset_name model_pointer)
     (map describe [older_blob]) = None"
  by (simp add: describe_def older_blob_def model_pointer_def)

lemma evicted_versions:
  "get_all_versions (manifest evicted_world)
     (relpath demo_env (take (length ''/h/data/model.bin.pointer'' - 8) ''/h/data/model.bin.pointer'')
        (hist_dir (manifest evicted_world)))
   = [newer_version, older_version]"
  by (simp add: get_all_versions_def get_file_record_def evicted_world_def demo_env_def
      py_sorted_desc_def older_version_def newer_version_def)

lemma evicted_survivor: "find (survives [older_blob]) [newer_version, older_version] = Some older_version"
  by (simp add: survives_def older_blob_def newer_version_def older_version_def)

theorem restore_falls_back_witness:
  "fst (restore_from_lfs demo_env ''/h/data/model.bin.pointer'' True evicted_world) = True
   \<and> trace (snd (restore_from_lfs demo_env ''/h/data/model.bin.pointer'' True evicted_world))
       = [RestoreCall ''/h/data/model.bin.pointer'' True,
          Http (GetReleaseByTag ''large-files-v1''),
          Http (ListAssets ''large-files-v1''),
          Http (ListAssets ''large-files-v1''),
          Http (ListAssets ''large-files-v1''),
          Http (DownloadAsset 7)]
   \<and> map_of (files (snd (restore_from_lfs demo_env ''/h/data/model.bin.pointer'' True
                            evicted_world))) ''/h/data/model.bin''
       = Some ''OLDER-WEIGHTS''"
proof -
  have quiet: "faults evicted_world = []" by (simp add: evicted_world_def)
  have tr: "trace evicted_world = []" by (simp add: evicted_world_def)
  have real: "get_real_path_from_pointer ''/h/data/model.bin.pointer'' = ''/h/data/model.bin''"
    by (simp add: get_real_path_from_pointer_def endswith_def)
  have tag: "format_tag demo_env (pf_release_tag model_pointer) = ''large-files-v1''"
    by (simp add: format_tag_def model_pointer_def)
  have named: "find (\<lambda>b. blob_name b = fv_asset_name older_version) [older_blob] = Some older_blob"
    by (simp add: older_blob_def older_version_def)
  have blob: "find (\<lambda>b'. blob_id b' = blob_id older_blob) (all_blobs (blob_store evicted_world))
              = Some older_blob"
    by (simp add: all_blobs_def evicted_world_def)
  have digest: "''sha256:'' @ sha256_hexdigest demo_env (blob_content older_blob)
                = fv_hash older_version"
    by (simp add: demo_env_def digest_table_def older_blob_def older_version_def)
  have unsat: "\<not> already_satisfied demo_env (files evicted_world) ''/h/data/model.bin.pointer''
                   (adopt model_pointer older_version)"
    by (simp add: already_satisfied_def real evicted_world_def)
  have skipped: "takeWhile (\<lambda>u. \<not> survives [older_blob] u) [newer_version, older_version]
                 = [newer_version]"
    by (simp add: survives_def older_blob_def newer_version_def older_version_def)
  note fb = restore_falls_back [OF quiet evicted_pointer model_pointer_valid evicted_release
      evicted_miss, of True, unfolded Let_def evicted_versions]
  have hyp: "find (survives [older_blob]) [newer_version, older_version] = Some older_version
     \<and> find (\<lambda>b. blob_name b = fv_asset_name older_version) [older_blob] = Some older_blob
     \<and> find (\<lambda>b'. blob_id b' = blob_id older_blob) (all_blobs (blob_store evicted_world))
         = Some older_blob"
    by (intro conjI) (rule evicted_survivor, rule named, rule blob)
  let ?res = "restore_from_lfs demo_env ''/h/data/model.bin.pointer'' True evicted_world"
  from fb [THEN conjunct2, THEN conjunct2, THEN conjunct2, THEN spec, THEN spec, THEN mp,
      OF hyp]
  have res: "fst ?res = (True \<longrightarrow> ''sha256:'' @ sha256_hexdigest demo_env (blob_content older_blob)
                              = fv_hash older_version)"
    and trc: "trace (snd ?res) = trace evicted_world @
                  [RestoreCall ''/h/data/model.bin.pointer'' True,
                   Http (GetReleaseByTag (format_tag demo_env (pf_release_tag model_pointer))),
                   Http (ListAssets (format_tag demo_env (pf_release_tag model_pointer)))]
                  @ replicate (Suc (length (takeWhile (\<lambda>u. \<not> survives [older_blob] u)
                                              [newer_version, older_version])))
                      (Http (ListAssets (format_tag demo_env (pf_release_tag model_pointer))))
                  @ [Http (DownloadAsset (blob_id older_blob))]"
    and fil: "fst ?res \<longrightarrow>
                   map_of (files (snd ?res)) (get_real_path_from_pointer ''/h/data/model.bin.pointer'')
                   = (if already_satisfied demo_env (files evicted_world)
                           ''/h/data/model.bin.pointer'' (adopt model_pointer older_version)
                      then map_of (files evicted_world)
                             (get_real_path_from_pointer ''/h/data/model.bin.pointer'')
                      else Some (blob_content older_blob))"
    by blast+
  have ok: "fst ?res = True" using res digest by simp
  have 2: "trace (snd ?res) = [RestoreCall ''/h/data/model.bin.pointer'' True,
          Http (GetReleaseByTag ''large-files-v1''),
          Http (ListAssets ''large-files-v1''),
          Http (ListAssets ''large-files-v1''),
          Http (ListAssets ''large-files-v1''),
          Http (DownloadAsset 7)]"
    unfolding trc skipped tag tr by (simp add: older_blob_def)
  have 3: "map_of (files (snd ?res)) ''/h/data/model.bin'' = Some ''OLDER-WEIGHTS''"
    using fil ok unsat unfolding real by (simp add: older_blob_def)
  from ok 2 3 show ?thesis by blast
qed

text \<open>
  Claim C7 as stated has the restore succeed as soon as some recorded version's asset
  still exists. In \<open>tampered_world\<close> the assets of two recorded versions exist. The
  walk stops at the newer of them; its payload does not hash to the hash recorded for
  that version, and the verifying restore returns \<open>False\<close> there: the oldest version,
  whose asset is intact, is never looked up (three listings: the pointer's name, the
  newest version, the middle version).
\<close>

theorem restore_fallback_stops_at_first_hit:
  "fst (restore_from_lfs demo_env ''/h/data/model.bin.pointer'' True tampered_world) = False
   \<and> trace (snd (restore_from_lfs demo_env ''/h/data/model.bin.pointer'' True tampered_world))
       = [RestoreCall ''/h/data/model.bin.pointer'' True,
          Http (GetReleaseByTag ''large-files-v1''),
          Http (ListAssets ''large-files-v1''),
          Http (ListAssets ''large-files-v1''),
          Http (ListAssets ''large-files-v1''),
          Http (DownloadAsset 8)]
   \<and> map_of (files (snd (restore_from_lfs demo_env ''/h/data/model.bin.pointer'' True
                            tampered_world))) ''/h/data/model.bin'' = None
   \<and> get_all_versions (manifest tampered_world) ''data/model.bin''
       = [newer_version, middle_version, older_version]
   \<and> survives [older_blob, middle_blob] older_version
   \<and> ''sha256:'' @ sha256_hexdigest demo_env (blob_content older_blob) = fv_hash older_version"
  by code_simp

section \<open>Offload, step by step\<close>

lemma unstage_fields [simp]:
  "files (unstage p w) = files w"
  "blob_store (unstage p w) = blob_store w"
  "faults (unstage p w) = faults w"
  "manifest (unstage p w) = manifest w"
  "trace (unstage p w) = trace w"
  "clock (unstage p w) = clock w"
  "git_exclude (unstage p w) = git_exclude w"
  by (simp_all add: unstage_def)

lemma split_colon_1_hash:
  "split_colon_1 (''sha256:'' @ hex) = Inr (takeWhile (\<lambda>c. c \<noteq> CHR '':'') hex)"
  by (simp add: split_colon_1_def)

lemmas split_colon_1_hash_cons = split_colon_1_hash [simplified]

lemma get_or_create_release_quiet:
  assumes "faults w = []"
  shows "get_or_create_release e tag w =
     (Inr tag,
      case map_of (releases (blob_store w)) tag of
        Some blobs \<Rightarrow> log_event (Http (GetReleaseByTag tag)) w
      | None \<Rightarrow>
          (log_event (Http (CreateRelease tag)) (log_event (Http (GetReleaseByTag tag)) w))
            \<lparr>blob_store :=
               (blob_store w)\<lparr>releases := AList.update tag [] (releases (blob_store w))\<rparr>\<rparr>)"
  using assms
  by (simp add: get_or_create_release_def and_then_def ret_def get_release_quiet
      create_release_quiet split: option.splits)

lemma upload_asset_quiet:
  assumes quiet: "faults w = []"
    and rel: "map_of (releases (blob_store w)) tag = Some blobs"
    and absent: "\<not> list_ex (\<lambda>b. blob_name b = name) blobs"
    and free: "\<not> list_ex (\<lambda>b. blob_name b = stored_name e name) blobs"
    and src: "map_of (files w) file_path = Some payload"
  shows "upload_asset e tag file_path name w =
     (Inr \<lparr>asset_id = next_id (blob_store w), asset_name = stored_name e name,
           asset_size = length payload\<rparr>,
      w\<lparr>blob_store := (blob_store w)\<lparr>
            releases := AList.update tag
              (blobs @ [\<lparr>blob_id = next_id (blob_store w), blob_name = stored_name e name,
                         blob_content = payload\<rparr>]) (releases (blob_store w)),
            next_id := Suc (next_id (blob_store w))\<rparr>,
         trace := trace w @ [Http (ListAssets tag), Http (UploadAsset tag name payload)]\<rparr>)"
proof -
  let ?wl = "log_event (Http (ListAssets tag)) w"
  have n: "find (\<lambda>b. blob_name b = name) blobs = None"
    using absent by (auto simp: find_None_iff list_ex_iff)
  have g: "get_asset_by_name e tag (JStr name) w = (Inr None, ?wl)"
    using quiet rel n by (simp add: get_asset_by_name_quiet find_describe)
  have x: "exchange e (UploadAsset tag name payload) ?wl =
        deliver e (UploadAsset tag name payload) (log_event (Http (UploadAsset tag name payload)) ?wl)"
    using quiet by (simp add: exchange_quiet)
  show ?thesis
    using g x rel free src
    by (cases w) (simp add: upload_asset_def and_then_def ret_def deliver_def log_event_def
        describe_def Let_def)
qed

lemma convert_to_lfs_upload:
  assumes quiet: "faults w = []"
    and src: "map_of (files w) file_path = Some content"
    and rel: "map_of (releases (blob_store w)) tag = Some blobs"
    and absent: "\<not> list_ex (\<lambda>b. blob_name b = derived_asset_name e file_path content) blobs"
    and free: "\<not> list_ex (\<lambda>b. blob_name b
                   = stored_name e (derived_asset_name e file_path content)) blobs"
  shows "convert_to_lfs e file_path tag w =
     (True,
      ensure_git_info_exclude [relpath e file_path (hist_dir (manifest w))]
        ((unstage (relpath e file_path (hist_dir (manifest w)))
            (w\<lparr>files := write_pointer e (files w) (file_path @ ''.pointer'')
                           (offload_pointer e file_path content tag
                              (stored_name e (derived_asset_name e file_path content))),
                blob_store := (blob_store w)\<lparr>
                  releases := AList.update tag
                    (blobs @ [\<lparr>blob_id = next_id (blob_store w),
                               blob_name = stored_name e (derived_asset_name e file_path content),
                               blob_content = content\<rparr>]) (releases (blob_store w)),
                  next_id := Suc (next_id (blob_store w))\<rparr>,
                trace := trace w @ [ConvertCall file_path, Http (GetReleaseByTag tag),
                                    Http (ListAssets tag), Http (ListAssets tag),
                                    Http (UploadAsset tag
                                            (derived_asset_name e file_path content) content)]\<rparr>))
         \<lparr>manifest := save (add_version (clock w) (manifest w)
                             (relpath e file_path (hist_dir (manifest w)))
                             (content_hash e content)
                             (stored_name e (derived_asset_name e file_path content))
                             (int (length content)) True)\<rparr>))"
proof -
  let ?name = "derived_asset_name e file_path content"
  let ?w0 = "log_event (ConvertCall file_path) w"
  let ?wa = "log_event (Http (GetReleaseByTag tag)) ?w0"
  let ?wb = "log_event (Http (ListAssets tag)) ?wa"
  let ?bnew = "\<lparr>blob_id = next_id (blob_store w), blob_name = stored_name e ?name,
                 blob_content = content\<rparr>"
  let ?wu = "?wb\<lparr>blob_store := (blob_store ?wb)\<lparr>
            releases := AList.update tag (blobs @ [?bnew]) (releases (blob_store ?wb)),
            next_id := Suc (next_id (blob_store ?wb))\<rparr>,
         trace := trace ?wb @ [Http (ListAssets tag), Http (UploadAsset tag ?name content)]\<rparr>"
  have n: "find (\<lambda>b. blob_name b = ?name) blobs = None"
    using absent by (auto simp: find_None_iff list_ex_iff)
  have g: "get_or_create_release e tag ?w0 = (Inr tag, ?wa)"
    using quiet rel by (simp add: get_or_create_release_quiet)
  have a: "get_asset_by_name e tag (JStr ?name) ?wa = (Inr None, ?wb)"
    using quiet rel n by (simp add: get_asset_by_name_quiet find_describe)
  have u: "upload_asset e tag file_path ?name ?wb =
       (Inr \<lparr>asset_id = next_id (blob_store ?wb), asset_name = stored_name e ?name,
             asset_size = length content\<rparr>, ?wu)"
    using upload_asset_quiet [of ?wb tag blobs ?name e file_path content] quiet rel absent free src
    by simp
  have wu: "?wu = w\<lparr>blob_store := (blob_store w)\<lparr>
                  releases := AList.update tag (blobs @ [?bnew]) (releases (blob_store w)),
                  next_id := Suc (next_id (blob_store w))\<rparr>,
                trace := trace w @ [ConvertCall file_path, Http (GetReleaseByTag tag),
                                    Http (ListAssets tag), Http (ListAssets tag),
                                    Http (UploadAsset tag ?name content)]\<rparr>"
    by (cases w) (simp add: log_event_def)
  have body: "convert_body e file_path tag ?w0 =
     (Inr True,
      ensure_git_info_exclude [relpath e file_path (hist_dir (manifest w))]
        ((unstage (relpath e file_path (hist_dir (manifest w)))
            (?wu\<lparr>files := write_pointer e (files w) (file_path @ ''.pointer'')
                           (offload_pointer e file_path content tag (stored_name e ?name))\<rparr>))
         \<lparr>manifest := save (add_version (clock w) (manifest w)
                             (relpath e file_path (hist_dir (manifest w)))
                             (content_hash e content) (stored_name e ?name)
                             (int (length content)) True)\<rparr>))"
    using src g a u
    by (simp add: convert_body_def and_then_def ret_def calculate_file_hash_def
        split_colon_1_hash_cons Let_def derived_asset_name_def offload_pointer_def
        content_hash_def)
  show ?thesis
    unfolding convert_to_lfs_def body wu by (cases w) simp
qed

section \<open>Offloading unchanged content again\<close>


lemma model_derived_name:
  "derived_asset_name demo_env ''/h/data/model.bin'' ''MODEL-WEIGHTS'' = ''ab12cd34ef56-model.bin''"
  by (simp add: derived_asset_name_def model_digest basename_def sanitize_filename_def
      allowed_char_def)

lemma model_content_hash: "content_hash demo_env ''MODEL-WEIGHTS'' = ''sha256:ab12cd34ef56aa77''"
  by (simp add: content_hash_def model_digest)

lemma model_offload_pointer:
  "offload_pointer demo_env ''/h/data/model.bin'' ''MODEL-WEIGHTS'' ''large-files-v1''
     ''ab12cd34ef56-model.bin'' = model_pointer"
  by (simp add: offload_pointer_def model_content_hash basename_def model_pointer_def)

lemma dumps_model: "json_dumps demo_env (to_dict model_pointer) = model_pointer_text"
  by (simp add: demo_env_def json_table_def)



section \<open>Offload, removal of the real file, restore\<close>

lemma convert_to_lfs_upload_created:
  assumes quiet: "faults w = []"
    and src: "map_of (files w) file_path = Some content"
    and norel: "map_of (releases (blob_store w)) tag = None"
  shows "convert_to_lfs e file_path tag w =
     (True,
      ensure_git_info_exclude [relpath e file_path (hist_dir (manifest w))]
        ((unstage (relpath e file_path (hist_dir (manifest w)))
            (w\<lparr>files := write_pointer e (files w) (file_path @ ''.pointer'')
                           (offload_pointer e file_path content tag
                              (stored_name e (derived_asset_name e file_path content))),
                blob_store := (blob_store w)\<lparr>
                  releases := AList.update tag
                    [\<lparr>blob_id = next_id (blob_store w),
                      blob_name = stored_name e (derived_asset_name e file_path content),
                      blob_content = content\<rparr>]
                    (AList.update tag [] (releases (blob_store w))),
                  next_id := Suc (next_id (blob_store w))\<rparr>,
                trace := trace w @ [ConvertCall file_path, Http (GetReleaseByTag tag),
                                    Http (CreateRelease tag),
                                    Http (ListAssets tag), Http (ListAssets tag),
                                    Http (UploadAsset tag
                                            (derived_asset_name e file_path content) content)]\<rparr>))
         \<lparr>manifest := save (add_version (clock w) (manifest w)
                             (relpath e file_path (hist_dir (manifest w)))
                             (content_hash e content)
                             (stored_name e (derived_asset_name e file_path content))
                             (int (length content)) True)\<rparr>))"
proof -
  let ?name = "derived_asset_name e file_path content"
  let ?w0 = "log_event (ConvertCall file_path) w"
  let ?wa = "(log_event (Http (CreateRelease tag)) (log_event (Http (GetReleaseByTag tag)) ?w0))
            \<lparr>blob_store :=
               (blob_store w)\<lparr>releases := AList.update tag [] (releases (blob_store w))\<rparr>\<rparr>"
  let ?wb = "log_event (Http (ListAssets tag)) ?wa"
  let ?bnew = "\<lparr>blob_id = next_id (blob_store w), blob_name = stored_name e ?name,
                 blob_content = content\<rparr>"
  let ?wu = "?wb\<lparr>blob_store := (blob_store ?wb)\<lparr>
            releases := AList.update tag ([] @ [?bnew]) (releases (blob_store ?wb)),
            next_id := Suc (next_id (blob_store ?wb))\<rparr>,
         trace := trace ?wb @ [Http (ListAssets tag), Http (UploadAsset tag ?name content)]\<rparr>"
  have g: "get_or_create_release e tag ?w0 = (Inr tag, ?wa)"
    using quiet norel by (simp add: get_or_create_release_quiet)
  have rel: "map_of (releases (blob_store ?wa)) tag = Some []"
    by (simp add: update_conv')
  have a: "get_asset_by_name e tag (JStr ?name) ?wa = (Inr None, ?wb)"
    using quiet rel get_asset_by_name_quiet [of ?wa tag "[]" e "JStr ?name"] by simp
  have relb: "map_of (releases (blob_store ?wb)) tag = Some []"
    using rel by simp
  have u: "upload_asset e tag file_path ?name ?wb =
       (Inr \<lparr>asset_id = next_id (blob_store ?wb), asset_name = stored_name e ?name,
             asset_size = length content\<rparr>, ?wu)"
    using upload_asset_quiet [of ?wb tag "[]" ?name e file_path content] quiet relb src
    by simp
  have wu: "?wu = w\<lparr>blob_store := (blob_store w)\<lparr>
                  releases := AList.update tag [?bnew]
                                (AList.update tag [] (releases (blob_store w))),
                  next_id := Suc (next_id (blob_store w))\<rparr>,
                trace := trace w @ [ConvertCall file_path, Http (GetReleaseByTag tag),
                                    Http (CreateRelease tag),
                                    Http (ListAssets tag), Http (ListAssets tag),
                                    Http (UploadAsset tag ?name content)]\<rparr>"
    by (cases w) (simp add: log_event_def)
  have body: "convert_body e file_path tag ?w0 =
     (Inr True,
      ensure_git_info_exclude [relpath e file_path (hist_dir (manifest w))]
        ((unstage (relpath e file_path (hist_dir (manifest w)))
            (?wu\<lparr>files := write_pointer e (files w) (file_path @ ''.pointer'')
                           (offload_pointer e file_path content tag (stored_name e ?name))\<rparr>))
         \<lparr>manifest := save (add_version (clock w) (manifest w)
                             (relpath e file_path (hist_dir (manifest w)))
                             (content_hash e content) (stored_name e ?name)
                             (int (length content)) True)\<rparr>))"
    using src g a u
    by (simp add: convert_body_def and_then_def ret_def calculate_file_hash_def
        split_colon_1_hash_cons Let_def derived_asset_name_def offload_pointer_def
        content_hash_def)
  show ?thesis
    unfolding convert_to_lfs_def body wu by (cases w) simp
qed
lemma find_in_append:
  "find P (xs @ ys) = (case find P xs of None \<Rightarrow> find P ys | Some x \<Rightarrow> Some x)"
  by (induction xs) simp_all

lemma find_none_list_all: "list_all (\<lambda>b. \<not> P b) xs \<Longrightarrow> find P xs = None"
  by (induction xs) simp_all

lemma find_uploaded_blob:
  assumes "map_of rels tag = Some blobs"
    and "list_all (\<lambda>b. blob_id b \<noteq> blob_id bnew) (concat (map snd rels))"
  shows "find (\<lambda>b. blob_id b = blob_id bnew)
           (concat (map snd (AList.update tag (blobs @ [bnew]) rels))) = Some bnew"
  using assms
proof (induction rels)
  case Nil
  then show ?case by simp
next
  case (Cons kv rels)
  obtain k v where kv: "kv = (k, v)" by (cases kv)
  show ?case
  proof (cases "k = tag")
    case True
    with Cons.prems kv have "v = blobs" by simp
    with Cons.prems kv True show ?thesis
      by (simp add: find_in_append find_none_list_all)
  next
    case False
    with Cons kv show ?thesis
      by (simp add: find_in_append find_none_list_all)
  qed
qed

lemma blobs_after_empty_release:
  "set (concat (map snd (AList.update tag [] rels))) \<subseteq> set (concat (map snd rels))"
  by (induction rels) auto

lemma ids_fresh:
  assumes "ids_below_next sto"
  shows "list_all (\<lambda>b. blob_id b \<noteq> next_id sto) (concat (map snd (releases sto)))"
  using assms by (fastforce simp: ids_below_next_def all_blobs_def list_all_iff)

lemma ids_fresh_created:
  assumes "ids_below_next sto"
  shows "list_all (\<lambda>b. blob_id b \<noteq> next_id sto)
           (concat (map snd (AList.update tag [] (releases sto))))"
proof -
  have "\<forall>b\<in>set (concat (map snd (releases sto))). blob_id b \<noteq> next_id sto"
    using ids_fresh [OF assms] by (simp add: list_all_iff)
  then have "\<forall>b\<in>set (concat (map snd (AList.update tag [] (releases sto)))).
               blob_id b \<noteq> next_id sto"
    using blobs_after_empty_release [of tag "releases sto"] by blast
  then show ?thesis by (simp add: list_all_iff)
qed

text \<open>What the round trip needs to know of the world an uploading offload leaves.\<close>

lemma convert_to_lfs_upload_facts:
  assumes quiet: "faults w = []"
    and src: "map_of (files w) file_path = Some content"
    and absent: "\<not> list_ex (\<lambda>b. blob_name b = derived_asset_name e file_path content)
                     (blobs_of (blob_store w) tag)"
    and free: "\<not> list_ex (\<lambda>b. blob_name b
                   = stored_name e (derived_asset_name e file_path content))
                     (blobs_of (blob_store w) tag)"
    and ids: "ids_below_next (blob_store w)"
  shows "\<exists>w1. convert_to_lfs e file_path tag w = (True, w1)
     \<and> faults w1 = []
     \<and> files w1 = write_pointer e (files w) (file_path @ ''.pointer'')
                     (offload_pointer e file_path content tag
                        (stored_name e (derived_asset_name e file_path content)))
     \<and> map_of (releases (blob_store w1)) tag
         = Some (blobs_of (blob_store w) tag
                 @ [\<lparr>blob_id = next_id (blob_store w),
                     blob_name = stored_name e (derived_asset_name e file_path content),
                     blob_content = content\<rparr>])
     \<and> find (\<lambda>b. blob_id b = next_id (blob_store w)) (all_blobs (blob_store w1))
         = Some \<lparr>blob_id = next_id (blob_store w),
                 blob_name = stored_name e (derived_asset_name e file_path content),
                 blob_content = content\<rparr>
     \<and> uploads (trace w1) = uploads (trace w) + 1"
proof (cases "map_of (releases (blob_store w)) tag")
  case None
  let ?bnew = "\<lparr>blob_id = next_id (blob_store w),
                 blob_name = stored_name e (derived_asset_name e file_path content),
                 blob_content = content\<rparr>"
  have e: "map_of (AList.update tag [] (releases (blob_store w))) tag = Some []"
    by (simp add: update_conv')
  have f: "find (\<lambda>b. blob_id b = blob_id ?bnew)
             (concat (map snd (AList.update tag ([] @ [?bnew])
                                 (AList.update tag [] (releases (blob_store w)))))) = Some ?bnew"
    by (rule find_uploaded_blob [OF e]) (use ids_fresh_created [OF ids] in simp)
  show ?thesis
    unfolding convert_to_lfs_upload_created [OF quiet src None]
    using None f quiet
    by (simp add: blobs_of_def update_conv' all_blobs_def uploads_def)
next
  case (Some blobs)
  let ?bnew = "\<lparr>blob_id = next_id (blob_store w),
                 blob_name = stored_name e (derived_asset_name e file_path content),
                 blob_content = content\<rparr>"
  have a: "\<not> list_ex (\<lambda>b. blob_name b = derived_asset_name e file_path content) blobs"
    and fr: "\<not> list_ex (\<lambda>b. blob_name b
                   = stored_name e (derived_asset_name e file_path content)) blobs"
    using absent free Some by (simp_all add: blobs_of_def)
  have f: "find (\<lambda>b. blob_id b = blob_id ?bnew)
             (concat (map snd (AList.update tag (blobs @ [?bnew]) (releases (blob_store w)))))
           = Some ?bnew"
    by (rule find_uploaded_blob [OF Some]) (use ids_fresh [OF ids] in simp)
  show ?thesis
    unfolding convert_to_lfs_upload [OF quiet src Some a fr]
    using Some f quiet
    by (simp add: blobs_of_def update_conv' all_blobs_def uploads_def)
qed
lemma read_pointer_written:
  assumes "map_of fsys path = Some (json_dumps e (to_dict pointer))"
    and "json_loads e (json_dumps e (to_dict pointer)) = Some (to_dict pointer)"
  shows "read_pointer e fsys path = Some pointer"
  using assms
  by (simp add: read_pointer_def to_dict_def from_dict_def subscript_def)

lemma validate_offload_pointer:
  assumes "content \<noteq> []" "tag \<noteq> []" "basename file_path \<noteq> []" "name \<noteq> []"
  shows "validate_pointer (offload_pointer e file_path content tag name) = Inr True"
  using assms by (simp add: validate_pointer_def offload_pointer_def content_hash_def)

lemma startswith_append: "startswith (p @ s) p"
  by (induction p) simp_all

lemma real_path_of_pointer:
  "get_real_path_from_pointer (file_path @ ''.pointer'') = file_path"
proof -
  have "endswith (file_path @ ''.pointer'') ''.pointer''"
    unfolding endswith_def using startswith_append [of "rev ''.pointer''" "rev file_path"]
    by simp
  then show ?thesis by (simp add: get_real_path_from_pointer_def)
qed

text \<open>
  Claim C1. A non-empty file is offloaded under a non-empty tag on a reachable store
  whose asset numbers are below its next number, and the offload uploads (neither the
  derived asset name nor the name the store files it under is taken in the release),
  so that the store's name for the asset is not empty; the pointer text written
  parses back to the pointer. Then the offload returns \<open>True\<close> after one upload and
  leaves the pointer at \<^verbatim>\<open>path.pointer\<close>; and once the real file is removed, a restore
  of that pointer (with or without hash verification) returns \<open>True\<close> and puts at the
  original path the original content, whose hash is the hash the pointer records.
\<close>

theorem offload_restore_round_trip:
  assumes quiet: "faults w = []"
    and src: "map_of (files w) file_path = Some content"
    and nonempty: "content \<noteq> []"
    and tagged: "tag \<noteq> []"
    and named: "basename file_path \<noteq> []"
    and absent: "\<not> list_ex (\<lambda>b. blob_name b = derived_asset_name e file_path content)
                     (blobs_of (blob_store w) tag)"
    and free: "\<not> list_ex (\<lambda>b. blob_name b
                   = stored_name e (derived_asset_name e file_path content))
                     (blobs_of (blob_store w) tag)"
    and stored: "stored_name e (derived_asset_name e file_path content) \<noteq> []"
    and ids: "ids_below_next (blob_store w)"
    and parses: "json_loads e (json_dumps e (to_dict (offload_pointer e file_path content tag
                    (stored_name e (derived_asset_name e file_path content)))))
                 = Some (to_dict (offload_pointer e file_path content tag
                    (stored_name e (derived_asset_name e file_path content))))"
  shows "let pointer = offload_pointer e file_path content tag
                         (stored_name e (derived_asset_name e file_path content));
             offloaded = convert_to_lfs e file_path tag w;
             removed = (snd offloaded)\<lparr>files := AList.delete file_path (files (snd offloaded))\<rparr>;
             restored = restore_from_lfs e (file_path @ ''.pointer'') verify removed
         in fst offloaded = True
          \<and> uploads (trace (snd offloaded)) = uploads (trace w) + 1
          \<and> read_pointer e (files (snd offloaded)) (file_path @ ''.pointer'') = Some pointer
          \<and> map_of (files removed) file_path = None
          \<and> fst restored = True
          \<and> map_of (files (snd restored)) file_path = Some content
          \<and> calculate_file_hash e (files (snd restored)) file_path = Inr (content_hash e content)
          \<and> pf_hash pointer = JStr (content_hash e content)"
proof -
  let ?name = "stored_name e (derived_asset_name e file_path content)"
  let ?p = "offload_pointer e file_path content tag ?name"
  let ?ptr = "file_path @ ''.pointer''"
  let ?tmp = "?ptr @ ''.tmp''"
  let ?bnew = "\<lparr>blob_id = next_id (blob_store w), blob_name = ?name, blob_content = content\<rparr>"
  let ?blobs = "blobs_of (blob_store w) tag"
  from convert_to_lfs_upload_facts [OF quiet src absent free ids]
  obtain w1 where conv: "convert_to_lfs e file_path tag w = (True, w1)"
    and q1: "faults w1 = []"
    and f1: "files w1 = write_pointer e (files w) ?ptr ?p"
    and r1: "map_of (releases (blob_store w1)) tag = Some (?blobs @ [?bnew])"
    and b1: "find (\<lambda>b. blob_id b = next_id (blob_store w)) (all_blobs (blob_store w1)) = Some ?bnew"
    and u1: "uploads (trace w1) = uploads (trace w) + 1"
    by blast
  let ?w2 = "w1\<lparr>files := AList.delete file_path (files w1)\<rparr>"
  have ne: "?ptr \<noteq> file_path" by simp
  have written: "map_of (files w1) ?ptr = Some (json_dumps e (to_dict ?p))"
    by (simp add: f1 write_pointer_def update_conv')
  have rp1: "read_pointer e (files w1) ?ptr = Some ?p"
    using written parses by (rule read_pointer_written)
  have written2: "map_of (files ?w2) ?ptr = Some (json_dumps e (to_dict ?p))"
    using written ne by (simp add: delete_conv')
  have rp2: "read_pointer e (files ?w2) ?ptr = Some ?p"
    using written2 parses by (rule read_pointer_written)
  have gone: "map_of (files ?w2) file_path = None"
    by (simp add: delete_conv')
  have valid: "validate_pointer ?p = Inr True"
    using nonempty tagged named stored by (rule validate_offload_pointer)
  have tagp: "format_tag e (pf_release_tag ?p) = tag"
    by (simp add: format_tag_def offload_pointer_def)
  have rel2: "map_of (releases (blob_store ?w2)) (format_tag e (pf_release_tag ?p))
              = Some (?blobs @ [?bnew])"
    using r1 tagp by simp
  have nofree: "find (\<lambda>b. blob_name b = ?name) ?blobs = None"
    using free by (auto simp: find_None_iff list_ex_iff)
  have hit: "find (\<lambda>asset. JStr (asset_name asset) = pf_asset_name ?p)
               (map describe (?blobs @ [?bnew])) = Some (describe ?bnew)"
    using nofree by (simp add: offload_pointer_def find_describe find_in_append describe_def)
  have blob2: "find (\<lambda>b. blob_id b = asset_id (describe ?bnew)) (all_blobs (blob_store ?w2))
               = Some ?bnew"
    using b1 by (simp add: describe_def)
  have hashp: "pf_hash ?p = JStr (content_hash e content)"
    by (simp add: offload_pointer_def)
  let ?w3 = "?w2\<lparr>files := AList.update ?tmp (blob_content ?bnew) (files ?w2),
                  trace := trace ?w2 @ [RestoreCall ?ptr verify, Http (GetReleaseByTag tag),
                                      Http (ListAssets tag),
                                      Http (DownloadAsset (asset_id (describe ?bnew)))]\<rparr>"
  have res: "restore_from_lfs e ?ptr verify ?w2
             = (True, snd (materialize e ?ptr ?tmp ?p ?w3))"
    using restore_from_lfs_direct [OF _ rp2 valid rel2 hit blob2, of verify] q1 tagp hashp
    by (simp add: Let_def content_hash_def)
  have tmp3: "map_of (files ?w3) ?tmp = Some content"
    by (simp add: update_conv')
  have unsat: "\<not> already_satisfied e (files ?w3) ?ptr ?p"
    using gone by (simp add: already_satisfied_def real_path_of_pointer update_conv')
  have mat: "map_of (files (snd (materialize e ?ptr ?tmp ?p ?w3))) file_path = Some content"
    using materialize_result [OF tmp3] unsat
    by (simp add: real_path_of_pointer update_conv')
  show ?thesis
    unfolding Let_def conv snd_conv fst_conv res
    using u1 rp1 gone mat hashp
    by (simp add: calculate_file_hash_def content_hash_def)
qed

theorem offload_restore_round_trip_witness:
  "fst (convert_to_lfs demo_env ''/h/data/model.bin'' ''large-files-v1'' start_world) = True
   \<and> map_of (files ((snd (convert_to_lfs demo_env ''/h/data/model.bin'' ''large-files-v1''
                             start_world))
        \<lparr>files := AList.delete ''/h/data/model.bin''
           (files (snd (convert_to_lfs demo_env ''/h/data/model.bin'' ''large-files-v1''
                          start_world)))\<rparr>)) ''/h/data/model.bin'' = None
   \<and> fst (restore_from_lfs demo_env ''/h/data/model.bin.pointer'' True
        ((snd (convert_to_lfs demo_env ''/h/data/model.bin'' ''large-files-v1'' start_world))
        \<lparr>files := AList.delete ''/h/data/model.bin''
           (files (snd (convert_to_lfs demo_env ''/h/data/model.bin'' ''large-files-v1''
                          start_world)))\<rparr>)) = True
   \<and> map_of (files (snd (restore_from_lfs demo_env ''/h/data/model.bin.pointer'' True
        ((snd (convert_to_lfs demo_env ''/h/data/model.bin'' ''large-files-v1'' start_world))
        \<lparr>files := AList.delete ''/h/data/model.bin''
           (files (snd (convert_to_lfs demo_env ''/h/data/model.bin'' ''large-files-v1''
                          start_world)))\<rparr>)))) ''/h/data/model.bin'' = Some ''MODEL-WEIGHTS''"
proof -
  have quiet: "faults start_world = []" by (simp add: start_world_def)
  have src: "map_of (files start_world) ''/h/data/model.bin'' = Some ''MODEL-WEIGHTS''"
    by (simp add: start_world_def)
  have nonempty: "''MODEL-WEIGHTS'' \<noteq> []" by simp
  have tagged: "''large-files-v1'' \<noteq> []" by simp
  have named: "basename ''/h/data/model.bin'' \<noteq> []" by (simp add: basename_def)
  have blobs: "blobs_of (blob_store start_world) ''large-files-v1'' = []"
    by (simp add: blobs_of_def start_world_def)
  have keeps: "stored_name demo_env
                 (derived_asset_name demo_env ''/h/data/model.bin'' ''MODEL-WEIGHTS'')
               = ''ab12cd34ef56-model.bin''"
    by (simp add: model_derived_name) (simp add: demo_env_def)
  have absent: "\<not> list_ex (\<lambda>b. blob_name b
                    = derived_asset_name demo_env ''/h/data/model.bin'' ''MODEL-WEIGHTS'')
                     (blobs_of (blob_store start_world) ''large-files-v1'')"
    by (simp add: blobs)
  have free: "\<not> list_ex (\<lambda>b. blob_name b = stored_name demo_env
                    (derived_asset_name demo_env ''/h/data/model.bin'' ''MODEL-WEIGHTS''))
                     (blobs_of (blob_store start_world) ''large-files-v1'')"
    by (simp add: blobs)
  have stored: "stored_name demo_env
                  (derived_asset_name demo_env ''/h/data/model.bin'' ''MODEL-WEIGHTS'') \<noteq> []"
    by (simp add: keeps)
  have ids: "ids_below_next (blob_store start_world)"
    by (simp add: ids_below_next_def all_blobs_def start_world_def)
  have parses: "json_loads demo_env (json_dumps demo_env (to_dict
                  (offload_pointer demo_env ''/h/data/model.bin'' ''MODEL-WEIGHTS''
                     ''large-files-v1''
                     (stored_name demo_env
                        (derived_asset_name demo_env ''/h/data/model.bin'' ''MODEL-WEIGHTS'')))))
                = Some (to_dict
                  (offload_pointer demo_env ''/h/data/model.bin'' ''MODEL-WEIGHTS''
                     ''large-files-v1''
                     (stored_name demo_env
                        (derived_asset_name demo_env ''/h/data/model.bin'' ''MODEL-WEIGHTS''))))"
    unfolding keeps model_offload_pointer dumps_model by (rule loads_model)
  note rt = offload_restore_round_trip [OF quiet src nonempty tagged named absent free stored
      ids parses, of True, unfolded Let_def]
  have ptr: "''/h/data/model.bin'' @ ''.pointer'' = ''/h/data/model.bin.pointer''" by simp
  from rt show ?thesis unfolding ptr by blast
qed

section \<open>What each operation adds to the trace\<close>

lemma extends_refl [simp]: "extends P w w"
  by (simp add: extends_def)

lemma extends_trans: "extends P w w1 \<Longrightarrow> extends P w1 w2 \<Longrightarrow> extends P w w2"
  by (auto simp: extends_def)

lemma extends_mono: "extends P w w' \<Longrightarrow> (\<And>ev. P ev \<Longrightarrow> Q ev) \<Longrightarrow> extends Q w w'"
  by (auto simp: extends_def list_all_iff)

lemma extends_log: "P ev \<Longrightarrow> extends P w (log_event ev w)"
  by (simp add: extends_def)

lemma extends_same_trace: "trace w' = trace w \<Longrightarrow> extends P w w'"
  by (simp add: extends_def)

lemma extends_and_then:
  assumes "\<And>w. extends P w (snd (m w))" and "\<And>x w. extends P w (snd (f x w))"
  shows "extends P w (snd (and_then m f w))"
proof (cases "m w")
  case (Pair r w1)
  with assms(1) [of w] have 1: "extends P w w1" by simp
  show ?thesis
  proof (cases r)
    case (Inl err)
    with Pair 1 show ?thesis by (simp add: and_then_def)
  next
    case (Inr x)
    with Pair have "and_then m f w = f x w1" by (simp add: and_then_def)
    with 1 assms(2) [of w1 x] show ?thesis by (auto intro: extends_trans)
  qed
qed

lemma extends_ret [simp]: "extends P w (snd (ret x w))"
  by (simp add: ret_def)

lemma deliver_trace: "trace (snd (deliver e rq w)) = trace w"
  by (simp add: deliver_def split: prod.splits sum.splits)

lemma extends_exchange: "extends is_net w (snd (exchange e rq w))"
proof -
  have "trace (snd (exchange e rq w)) = trace w @ [Http rq]"
    by (simp add: exchange_def Let_def deliver_trace split: list.splits fault.splits)
  then show ?thesis by (simp add: extends_def)
qed

lemma extends_request_attempts:
  "extends is_net w (snd (request_attempts e rq attempt remaining w))"
proof (induction remaining arbitrary: attempt w)
  case 0
  then show ?case by simp
next
  case (Suc remaining)
  obtain r w1 where x: "exchange e rq w = (r, w1)" by (cases "exchange e rq w")
  then have 1: "extends is_net w w1" using extends_exchange [of w e rq] by simp
  have 2: "extends is_net w1 (log_event (Sleep (2 ^ attempt)) w1)"
    by (rule extends_log) simp
  have 3: "extends is_net w
         (snd (request_attempts e rq (attempt + 1) remaining (log_event (Sleep (2 ^ attempt)) w1)))"
    using 1 2 Suc.IH by (blast intro: extends_trans)
  show ?case
    using x 1 3
    by (simp split: sum.splits exn.splits)
qed

lemma extends_request: "extends is_net w (snd (request e rq w))"
  by (simp add: request_def extends_request_attempts)

lemma request_result_world:
  "request e rq w = (r, w') \<Longrightarrow> extends is_net w w'"
  using extends_request [of w e rq] by simp

lemma extends_get_release: "extends is_net w (snd (get_release e tag w))"
  using extends_request [of w e "GetReleaseByTag tag"]
  by (auto simp add: get_release_def split: prod.splits sum.splits exn.splits response.splits)

lemma extends_create_release: "extends is_net w (snd (create_release e tag w))"
  using extends_request [of w e "CreateRelease tag"]
  by (auto simp add: create_release_def split: prod.splits sum.splits response.splits)

lemma extends_get_or_create_release:
  "extends is_net w (snd (get_or_create_release e tag w))"
  unfolding get_or_create_release_def
  by (rule extends_and_then) (simp_all add: extends_get_release extends_create_release
      split: option.splits)

lemma extends_list_assets: "extends is_net w (snd (list_assets e release w))"
  using extends_request [of w e "ListAssets release"]
  by (auto simp add: list_assets_def split: prod.splits sum.splits response.splits)

lemma extends_get_asset_by_name:
  "extends is_net w (snd (get_asset_by_name e release name w))"
  unfolding get_asset_by_name_def
  by (rule extends_and_then) (simp_all add: extends_list_assets)

lemma extends_delete_asset: "extends is_net w (snd (delete_asset e asset w))"
  using extends_request [of w e "DeleteAsset (asset_id asset)"]
  by (auto simp add: delete_asset_def split: prod.splits sum.splits)

lemma extends_upload_asset:
  "extends is_net w (snd (upload_asset e release file_path name w))"
  unfolding upload_asset_def
proof (intro extends_and_then)
  fix w show "extends is_net w (snd (get_asset_by_name e release (JStr name) w))"
    by (rule extends_get_asset_by_name)
next
  fix existing w
  show "extends is_net w
          (snd ((case existing of None \<Rightarrow> ret True | Some old \<Rightarrow> delete_asset e old) w))"
    by (simp add: extends_delete_asset split: option.splits)
next
  fix existing deleted w
  show "extends is_net w
     (snd (case map_of (files w) file_path of
             None \<Rightarrow> (Inl OSError, w)
           | Some file_data \<Rightarrow>
               (case exchange e (UploadAsset release name file_data) w of
                  (Inr (AssetJson asset), w') \<Rightarrow> (Inr asset, w')
                | (Inr other, w') \<Rightarrow> (Inl TypeError, w')
                | (Inl err, w') \<Rightarrow> (Inl err, w'))))"
  proof (cases "map_of (files w) file_path")
    case None
    then show ?thesis by simp
  next
    case (Some file_data)
    then show ?thesis
      using extends_exchange [of w e "UploadAsset release name file_data"]
      by (auto split: prod.splits sum.splits response.splits)
  qed
qed

lemma extends_download_asset:
  "extends is_net w (snd (download_asset e asset save_path w))"
  using extends_exchange [of w e "DownloadAsset (asset_id asset)"]
  by (auto simp add: download_asset_def extends_def split: prod.splits sum.splits response.splits)
lemma extends_pure [simp]: "extends P w (snd ((\<lambda>w. (r w, w)) w))"
  by simp

lemma os_remove_trace: "trace (snd (os_remove path w)) = trace w"
  by (simp add: os_remove_def)

lemma shutil_move_trace: "trace (snd (shutil_move src dst w)) = trace w"
  by (simp add: shutil_move_def split: option.splits)

lemma extends_os_remove: "extends P w (snd (os_remove path w))"
  by (rule extends_same_trace) (rule os_remove_trace)

lemma extends_shutil_move: "extends P w (snd (shutil_move src dst w))"
  by (rule extends_same_trace) (rule shutil_move_trace)

lemma materialize_trace:
  "trace (snd (materialize e pointer_path temp_path pointer w)) = trace w"
  by (simp add: materialize_def Let_def and_then_def ret_def os_remove_def shutil_move_def
      split: sum.splits option.splits)

lemma extends_materialize:
  "extends P w (snd (materialize e pointer_path temp_path pointer w))"
  by (rule extends_same_trace) (rule materialize_trace)

lemma extends_convert_tail [simp]:
  "extends P w (ensure_git_info_exclude xs ((unstage rp (w\<lparr>files := fsys\<rparr>))\<lparr>manifest := m\<rparr>))"
  by (rule extends_same_trace) simp

lemma extends_fallback_versions:
  "extends is_net w (snd (fallback_versions e release vs pointer w))"
proof (induction vs arbitrary: w)
  case Nil
  then show ?case by simp
next
  case (Cons v vs)
  obtain r w1 where g: "get_asset_by_name e release (JStr (fv_asset_name v)) w = (r, w1)"
    by (cases "get_asset_by_name e release (JStr (fv_asset_name v)) w")
  then have 1: "extends is_net w w1"
    using extends_get_asset_by_name [of w e release "JStr (fv_asset_name v)"] by simp
  have 2: "extends is_net w (snd (fallback_versions e release vs pointer w1))"
    using 1 Cons.IH by (blast intro: extends_trans)
  show ?case using g 1 2 by (simp split: sum.splits option.splits)
qed

lemma extends_restore_body:
  "extends is_net w (snd (restore_body e pointer_path verify w))"
  unfolding restore_body_def Let_def
  by (auto split: option.splits sum.splits bool.splits prod.splits
      intro!: extends_and_then extends_get_release extends_get_asset_by_name
        extends_fallback_versions extends_download_asset extends_os_remove
        extends_materialize)

lemma restore_from_lfs_trace:
  "\<exists>evs. trace (snd (restore_from_lfs e pointer_path verify w))
           = trace w @ RestoreCall pointer_path verify # evs \<and> list_all is_net evs"
proof -
  let ?w0 = "log_event (RestoreCall pointer_path verify) w"
  obtain r w1 where b: "restore_body e pointer_path verify ?w0 = (r, w1)"
    by (cases "restore_body e pointer_path verify ?w0")
  then have "extends is_net ?w0 w1"
    using extends_restore_body [of ?w0 e pointer_path verify] by simp
  then obtain evs where evs: "trace w1 = trace ?w0 @ evs" "list_all is_net evs"
    by (auto simp: extends_def)
  have "trace (snd (restore_from_lfs e pointer_path verify w)) = trace w1"
    using b by (simp add: restore_from_lfs_def split: sum.splits)
  with evs show ?thesis by simp
qed

lemma extends_convert_body:
  "extends is_net w (snd (convert_body e file_path release_tag w))"
  unfolding convert_body_def Let_def
  by (auto split: option.splits sum.splits
      intro!: extends_and_then extends_get_or_create_release extends_get_asset_by_name
        extends_upload_asset)

lemma convert_to_lfs_trace:
  "\<exists>evs. trace (snd (convert_to_lfs e file_path release_tag w))
           = trace w @ ConvertCall file_path # evs \<and> list_all is_net evs"
proof -
  let ?w0 = "log_event (ConvertCall file_path) w"
  obtain r w1 where b: "convert_body e file_path release_tag ?w0 = (r, w1)"
    by (cases "convert_body e file_path release_tag ?w0")
  then have "extends is_net ?w0 w1"
    using extends_convert_body [of ?w0 e file_path release_tag] by simp
  then obtain evs where evs: "trace w1 = trace ?w0 @ evs" "list_all is_net evs"
    by (auto simp: extends_def)
  have "trace (snd (convert_to_lfs e file_path release_tag w)) = trace w1"
    using b by (simp add: convert_to_lfs_def split: sum.splits)
  with evs show ?thesis by simp
qed

section \<open>The order of the steps of a cycle\<close>

lemma net_in_repair: "is_net ev \<Longrightarrow> in_repair_step ev"
  by (simp add: in_repair_step_def)

lemma net_in_offload: "is_net ev \<Longrightarrow> in_offload_step ev"
  by (simp add: in_offload_step_def)

lemma extends_repair_one: "extends in_repair_step w (repair_one e pointer_path w)"
proof -
  obtain evs where evs:
    "trace (snd (restore_from_lfs e pointer_path False w))
       = trace w @ RestoreCall pointer_path False # evs" "list_all is_net evs"
    using restore_from_lfs_trace [of e pointer_path False w] by blast
  have "list_all in_repair_step (RestoreCall pointer_path False # evs)"
    using evs(2) by (auto simp: list_all_iff in_repair_step_def)
  with evs(1) have "extends in_repair_step w (snd (restore_from_lfs e pointer_path False w))"
    unfolding extends_def by blast
  then show ?thesis
    by (simp add: repair_one_def Let_def split: option.splits)
qed

lemma extends_repair_loop: "extends in_repair_step w (repair_loop e pointers w)"
proof (induction pointers arbitrary: w)
  case Nil
  then show ?case by simp
next
  case (Cons p ps)
  show ?case
    using extends_repair_one [of w e p] Cons.IH [of "repair_one e p w"]
    by (auto intro: extends_trans)
qed

lemma repair_trace:
  "if lfs_enabled (settings d) \<and> lfs_ready d
   then \<exists>evs. trace (repair d e w) = trace w @ ScanPointers (st_hist_dir (settings d)) # evs
              \<and> list_all in_repair_step evs
   else repair d e w = w"
proof (cases "lfs_enabled (settings d) \<and> lfs_ready d")
  case False
  then show ?thesis by (auto simp: repair_def)
next
  case True
  let ?dir = "st_hist_dir (settings d)"
  let ?w1 = "log_event (ScanPointers ?dir) w"
  obtain r where s: "scan_pointer_files e ?dir w = (r, ?w1)"
    by (simp add: scan_pointer_files_def)
  have "extends in_repair_step ?w1 (repair d e w)"
    using True s extends_repair_loop [of ?w1 e]
    by (cases r) (simp_all add: repair_def)
  then obtain evs where "trace (repair d e w) = trace ?w1 @ evs" "list_all in_repair_step evs"
    by (auto simp: extends_def)
  with True show ?thesis by simp
qed

lemma extends_convert_all: "extends in_offload_step w (convert_all e tag paths w)"
proof (induction paths arbitrary: w)
  case Nil
  then show ?case by simp
next
  case (Cons p ps)
  obtain evs where evs:
    "trace (snd (convert_to_lfs e p tag w)) = trace w @ ConvertCall p # evs" "list_all is_net evs"
    using convert_to_lfs_trace [of e p tag w] by blast
  have "list_all in_offload_step (ConvertCall p # evs)"
    using evs(2) by (auto simp: list_all_iff in_offload_step_def)
  with evs(1) have "extends in_offload_step w (snd (convert_to_lfs e p tag w))"
    unfolding extends_def by blast
  with Cons.IH [of "snd (convert_to_lfs e p tag w)"] show ?case
    by (auto intro: extends_trans)
qed

lemma extends_delete_old_assets: "extends is_net w (delete_old_assets e release names w)"
proof (induction names arbitrary: w)
  case Nil
  then show ?case by simp
next
  case (Cons n ns)
  obtain r w1 where g: "get_asset_by_name e release (JStr n) w = (r, w1)"
    by (cases "get_asset_by_name e release (JStr n) w")
  then have 1: "extends is_net w w1"
    using extends_get_asset_by_name [of w e release "JStr n"] by simp
  have 2: "extends is_net w (delete_old_assets e release ns w1)"
    using 1 Cons.IH [of w1] by (rule extends_trans)
  have 3: "extends is_net w (delete_old_assets e release ns (snd (delete_asset e asset w1)))"
    for asset
    using extends_trans [OF extends_trans [OF 1 extends_delete_asset [of w1 e asset]]
        Cons.IH [of "snd (delete_asset e asset w1)"]] .
  show ?case
    using g 2 3 by (simp split: sum.splits option.splits)
qed

lemma extends_manifest_update: "extends P w w' \<Longrightarrow> extends P w (w'\<lparr>manifest := m\<rparr>)"
  by (simp add: extends_def)

lemma process_large_files_trace:
  "if lfs_enabled (settings d) \<and> lfs_ready d
   then \<exists>evs. trace (process_large_files d e w)
                = trace w @ ScanLarge (st_hist_dir (settings d)) # evs
              \<and> list_all in_offload_step evs
   else process_large_files d e w = w"
proof (cases "lfs_enabled (settings d) \<and> lfs_ready d")
  case False
  then show ?thesis by (auto simp: process_large_files_def)
next
  case True
  let ?dir = "st_hist_dir (settings d)"
  let ?tag = "lfs_release_tag (settings d)"
  let ?w1 = "log_event (ScanLarge ?dir) w"
  obtain large where s: "scan_large_files e ?dir (lfs_threshold (settings d))
                           (st_excludes (settings d)) w = (large, ?w1)"
    by (simp add: scan_large_files_def)
  let ?w2 = "convert_all e ?tag large ?w1"
  obtain to_delete m where c: "cleanup_all_old_versions (manifest ?w2)
                                 (lfs_max_versions (settings d)) = (to_delete, m)"
    by (cases "cleanup_all_old_versions (manifest ?w2) (lfs_max_versions (settings d))")
  let ?w3 = "?w2\<lparr>manifest := m\<rparr>"
  have 2: "extends in_offload_step ?w1 ?w2" by (rule extends_convert_all)
  then have 3: "extends in_offload_step ?w1 (?w2\<lparr>manifest := mm\<rparr>)" for mm
    by (rule extends_manifest_update)
  obtain r w4 where g: "get_or_create_release e ?tag ?w3 = (r, w4)"
    by (cases "get_or_create_release e ?tag ?w3")
  then have "extends is_net ?w3 w4"
    using extends_get_or_create_release [of ?w3 e ?tag] by simp
  then have "extends in_offload_step ?w3 w4"
    by (rule extends_mono) (rule net_in_offload)
  with 3 [of m] have 4: "extends in_offload_step ?w1 w4"
    by (rule extends_trans)
  have 5: "extends in_offload_step ?w1
             ((delete_old_assets e release names w4)\<lparr>manifest := mm\<rparr>)" for release names mm
  proof -
    have "extends in_offload_step w4 (delete_old_assets e release names w4)"
      using extends_delete_old_assets [of w4 e release names]
      by (rule extends_mono) (rule net_in_offload)
    with 4 have "extends in_offload_step ?w1 (delete_old_assets e release names w4)"
      by (rule extends_trans)
    then show ?thesis by (rule extends_manifest_update)
  qed
  have "extends in_offload_step ?w1 (process_large_files d e w)"
    using True s c g 3 4 5
    by (cases r) (simp_all add: process_large_files_def Let_def)
  then obtain evs where "trace (process_large_files d e w) = trace ?w1 @ evs"
    "list_all in_offload_step evs"
    by (auto simp: extends_def)
  with True show ?thesis by simp
qed

text \<open>
  One cycle adds to the trace: the pull and the permission fix, then the events of the
  repair step, then the events of the offload step, then the tracking of empty
  directories, the commit and the push.
\<close>

lemma cycle_decomposition:
  "\<exists>rep off.
     trace (pull_commit_push d e w)
       = trace w @ [GitPull, Chmod] @ rep @ off @ [TrackEmptyDirs, GitCommit, GitPush]
   \<and> list_all in_repair_step rep \<and> list_all in_offload_step off
   \<and> (if lfs_enabled (settings d) \<and> lfs_ready d
       then rep \<noteq> [] \<and> hd rep = ScanPointers (st_hist_dir (settings d))
          \<and> off \<noteq> [] \<and> hd off = ScanLarge (st_hist_dir (settings d))
       else rep = [] \<and> off = [])"
proof -
  let ?w2 = "log_event Chmod (log_event GitPull (w\<lparr>files := git_pull e (files w)\<rparr>))"
  let ?w3 = "repair d e ?w2"
  let ?w4 = "process_large_files d e ?w3"
  have t2: "trace ?w2 = trace w @ [GitPull, Chmod]" by simp
  have t: "trace (pull_commit_push d e w) = trace ?w4 @ [TrackEmptyDirs, GitCommit, GitPush]"
    by (simp add: pull_commit_push_def Let_def)
  show ?thesis
  proof (cases "lfs_enabled (settings d) \<and> lfs_ready d")
    case False
    then have "?w3 = ?w2" "?w4 = ?w3"
      using repair_trace [of d e ?w2] process_large_files_trace [of d e ?w3] by auto
    with t t2 False show ?thesis by auto
  next
    case True
    obtain evs where r: "trace ?w3 = trace ?w2 @ ScanPointers (st_hist_dir (settings d)) # evs"
      "list_all in_repair_step evs"
      using repair_trace [of d e ?w2] True by auto
    obtain evs' where p: "trace ?w4 = trace ?w3 @ ScanLarge (st_hist_dir (settings d)) # evs'"
      "list_all in_offload_step evs'"
      using process_large_files_trace [of d e ?w3] True by auto
    let ?rep = "ScanPointers (st_hist_dir (settings d)) # evs"
    let ?off = "ScanLarge (st_hist_dir (settings d)) # evs'"
    have "trace (pull_commit_push d e w)
            = trace w @ [GitPull, Chmod] @ ?rep @ ?off @ [TrackEmptyDirs, GitCommit, GitPush]"
      using t t2 r(1) p(1) by simp
    moreover have "list_all in_repair_step ?rep" using r(2) by (simp add: in_repair_step_def)
    moreover have "list_all in_offload_step ?off" using p(2) by (simp add: in_offload_step_def)
    ultimately show ?thesis using True by (intro exI [of _ ?rep] exI [of _ ?off]) simp
  qed
qed

lemma repair_not_offload:
  "in_repair_step ev \<Longrightarrow> \<not> offload_step_event ev"
  by (cases ev) (simp_all add: in_repair_step_def)

lemma offload_not_repair:
  "in_offload_step ev \<Longrightarrow> \<not> repair_step_event ev"
  by (cases ev) (simp_all add: in_offload_step_def)

lemma segment_order:
  assumes t: "t = pre @ rep @ off @ post"
    and pre: "\<forall>x\<in>set pre. \<not> P x \<and> \<not> Q x"
    and post: "\<forall>x\<in>set post. \<not> P x \<and> \<not> Q x"
    and rep: "\<forall>x\<in>set rep. \<not> Q x"
    and off: "\<forall>x\<in>set off. \<not> P x"
    and i: "i < length t" "P (t ! i)"
    and j: "j < length t" "Q (t ! j)"
  shows "length pre \<le> i \<and> i < length pre + length rep \<and> length pre + length rep \<le> j"
proof -
  have nth_in: "\<And>xs k. k < length xs \<Longrightarrow> xs ! k \<in> set xs" by simp
  have i1: "length pre \<le> i"
  proof (rule ccontr)
    assume "\<not> length pre \<le> i"
    then have "i < length pre" by simp
    then have "t ! i = pre ! i" "pre ! i \<in> set pre" by (simp_all add: t nth_append)
    with pre i(2) show False by auto
  qed
  have i2: "i < length pre + length rep"
  proof (rule ccontr)
    assume a: "\<not> i < length pre + length rep"
    show False
    proof (cases "i < length pre + length rep + length off")
      case True
      with a have "t ! i = off ! (i - length pre - length rep)"
        "i - length pre - length rep < length off"
        by (auto simp: t nth_append)
      then have "t ! i \<in> set off" by (metis nth_in)
      with off i(2) show False by auto
    next
      case False
      with a i(1) have "t ! i = post ! (i - length pre - length rep - length off)"
        "i - length pre - length rep - length off < length post"
        by (auto simp: t nth_append)
      then have "t ! i \<in> set post" by (metis nth_in)
      with post i(2) show False by auto
    qed
  qed
  have j1: "length pre + length rep \<le> j"
  proof (rule ccontr)
    assume a: "\<not> length pre + length rep \<le> j"
    show False
    proof (cases "j < length pre")
      case True
      then have "t ! j = pre ! j" "pre ! j \<in> set pre" by (simp_all add: t nth_append)
      with pre j(2) show False by auto
    next
      case False
      with a have "t ! j = rep ! (j - length pre)" "j - length pre < length rep"
        by (auto simp: t nth_append)
      then have "t ! j \<in> set rep" by (metis nth_in)
      with rep j(2) show False by auto
    qed
  qed
  from i1 i2 j1 show ?thesis by blast
qed

text \<open>
  Claim C9. In the events a cycle adds to the trace, the pull comes first; every event
  of the repair step (the scan for pointers, each restore call) comes after the pull
  and before every event of the offload step (the scan for large files, each convert
  call). With large-file support enabled and set up, both scans are in the cycle, each
  on the repository directory. This holds for every daemon, environment and world:
  also when the scan for pointers raises, and whatever the network does.
\<close>

theorem repair_precedes_offload:
  "let t = cycle_events d e w in
     trace (pull_commit_push d e w) = trace w @ t
   \<and> t \<noteq> [] \<and> t ! 0 = GitPull
   \<and> (\<forall>i j. i < length t \<and> j < length t
          \<and> repair_step_event (t ! i) \<and> offload_step_event (t ! j) \<longrightarrow> 0 < i \<and> i < j)
   \<and> (lfs_enabled (settings d) \<and> lfs_ready d \<longrightarrow>
         ScanPointers (st_hist_dir (settings d)) \<in> set t
       \<and> ScanLarge (st_hist_dir (settings d)) \<in> set t)"
proof -
  obtain rep off where dec:
    "trace (pull_commit_push d e w)
       = trace w @ [GitPull, Chmod] @ rep @ off @ [TrackEmptyDirs, GitCommit, GitPush]"
    and rep: "list_all in_repair_step rep" and off: "list_all in_offload_step off"
    and on: "if lfs_enabled (settings d) \<and> lfs_ready d
       then rep \<noteq> [] \<and> hd rep = ScanPointers (st_hist_dir (settings d))
          \<and> off \<noteq> [] \<and> hd off = ScanLarge (st_hist_dir (settings d))
       else rep = [] \<and> off = []"
    using cycle_decomposition [of d e w] by blast
  let ?t = "[GitPull, Chmod] @ rep @ off @ [TrackEmptyDirs, GitCommit, GitPush]"
  have t: "cycle_events d e w = ?t"
    by (simp add: cycle_events_def dec)
  have order: "0 < i \<and> i < j"
    if "i < length ?t \<and> j < length ?t \<and> repair_step_event (?t ! i) \<and> offload_step_event (?t ! j)"
    for i j
  proof -
    have "length [GitPull, Chmod] \<le> i \<and> i < length [GitPull, Chmod] + length rep
          \<and> length [GitPull, Chmod] + length rep \<le> j"
    proof (rule segment_order [where P = repair_step_event and Q = offload_step_event
          and post = "[TrackEmptyDirs, GitCommit, GitPush]" and off = off and t = ?t])
      show "?t = [GitPull, Chmod] @ rep @ off @ [TrackEmptyDirs, GitCommit, GitPush]" by simp
      show "\<forall>x\<in>set [GitPull, Chmod]. \<not> repair_step_event x \<and> \<not> offload_step_event x" by simp
      show "\<forall>x\<in>set [TrackEmptyDirs, GitCommit, GitPush].
              \<not> repair_step_event x \<and> \<not> offload_step_event x" by simp
      show "\<forall>x\<in>set rep. \<not> offload_step_event x"
        using rep repair_not_offload by (auto simp: list_all_iff)
      show "\<forall>x\<in>set off. \<not> repair_step_event x"
        using off offload_not_repair by (auto simp: list_all_iff)
      show "i < length ?t" using that by blast
      show "repair_step_event (?t ! i)" using that by blast
      show "j < length ?t" using that by blast
      show "offload_step_event (?t ! j)" using that by blast
    qed
    then show ?thesis by simp
  qed
  have scans: "ScanPointers (st_hist_dir (settings d)) \<in> set ?t
             \<and> ScanLarge (st_hist_dir (settings d)) \<in> set ?t"
    if "lfs_enabled (settings d) \<and> lfs_ready d"
  proof -
    from on that have "rep \<noteq> []" "hd rep = ScanPointers (st_hist_dir (settings d))"
      "off \<noteq> []" "hd off = ScanLarge (st_hist_dir (settings d))" by simp_all
    then have "ScanPointers (st_hist_dir (settings d)) \<in> set rep"
      "ScanLarge (st_hist_dir (settings d)) \<in> set off"
      using hd_in_set [of rep] hd_in_set [of off] by simp_all
    then show ?thesis by simp
  qed
  have grows: "trace (pull_commit_push d e w) = trace w @ ?t" by (rule dec)
  have first: "?t \<noteq> [] \<and> ?t ! 0 = GitPull" by simp
  show ?thesis
    unfolding Let_def t
    apply (intro conjI allI impI)
         apply (rule grows)
        apply (rule first [THEN conjunct1])
       apply (rule first [THEN conjunct2])
      apply (erule order [THEN conjunct1])
     apply (erule order [THEN conjunct2])
    apply (erule scans [THEN conjunct1])
    apply (erule scans [THEN conjunct2])
    done
qed

text \<open>
  The cycle of the running example, on the world where \<^verbatim>\<open>model.bin\<close> is missing: the
  repair step scans, restores the file with three exchanges, and only then the offload
  step scans (it finds nothing above the threshold).
\<close>

lemma garbled_cycle:
  "cycle_events demo_daemon demo_env garbled_world =
     [GitPull, Chmod, ScanPointers ''/h'',
      RestoreCall ''/h/data/model.bin.pointer'' False,
      Http (GetReleaseByTag ''large-files-v1''), Http (ListAssets ''large-files-v1''),
      Http (DownloadAsset 1),
      ScanLarge ''/h'', TrackEmptyDirs, GitCommit, GitPush]"
  by code_simp

theorem repair_precedes_offload_witness:
  "trace (pull_commit_push demo_daemon demo_env garbled_world) =
     [GitPull, Chmod, ScanPointers ''/h'',
      RestoreCall ''/h/data/model.bin.pointer'' False,
      Http (GetReleaseByTag ''large-files-v1''), Http (ListAssets ''large-files-v1''),
      Http (DownloadAsset 1),
      ScanLarge ''/h'', TrackEmptyDirs, GitCommit, GitPush]
   \<and> ScanPointers ''/h'' \<in> set (cycle_events demo_daemon demo_env garbled_world)
   \<and> ScanLarge ''/h'' \<in> set (cycle_events demo_daemon demo_env garbled_world)
   \<and> cycle_events demo_daemon demo_env garbled_world ! 0 = GitPull"
proof -
  note T = repair_precedes_offload [of demo_daemon demo_env garbled_world, unfolded Let_def]
  have tr: "trace garbled_world = []" by (simp add: garbled_world_def)
  have on: "lfs_enabled (settings demo_daemon) \<and> lfs_ready demo_daemon"
    by (simp add: demo_daemon_def)
  have dir: "st_hist_dir (settings demo_daemon) = ''/h''" by (simp add: demo_daemon_def)
  from T have 1: "trace (pull_commit_push demo_daemon demo_env garbled_world)
                  = trace garbled_world @ cycle_events demo_daemon demo_env garbled_world"
    by blast
  from T on have 2: "ScanPointers (st_hist_dir (settings demo_daemon))
                       \<in> set (cycle_events demo_daemon demo_env garbled_world)
                   \<and> ScanLarge (st_hist_dir (settings demo_daemon))
                       \<in> set (cycle_events demo_daemon demo_env garbled_world)"
    by blast
  from T have 3: "cycle_events demo_daemon demo_env garbled_world ! 0 = GitPull" by blast
  have 4: "trace (pull_commit_push demo_daemon demo_env garbled_world) =
     [GitPull, Chmod, ScanPointers ''/h'',
      RestoreCall ''/h/data/model.bin.pointer'' False,
      Http (GetReleaseByTag ''large-files-v1''), Http (ListAssets ''large-files-v1''),
      Http (DownloadAsset 1),
      ScanLarge ''/h'', TrackEmptyDirs, GitCommit, GitPush]"
    unfolding 1 tr garbled_cycle by simp
  from 2 3 4 show ?thesis unfolding dir by blast
qed

section \<open>The restores of the repair step\<close>

lemma repair_event_unverified: "in_repair_step ev \<Longrightarrow> \<not> verifying_restore ev"
  by (cases ev) (simp_all add: in_repair_step_def)

lemma offload_event_unverified: "in_offload_step ev \<Longrightarrow> \<not> verifying_restore ev"
  by (cases ev) (simp_all add: in_offload_step_def)

lemma cycle_restores_unverified:
  assumes "ev \<in> set (cycle_events d e w)"
  shows "\<not> verifying_restore ev"
proof -
  obtain rep off where dec:
    "trace (pull_commit_push d e w)
       = trace w @ [GitPull, Chmod] @ rep @ off @ [TrackEmptyDirs, GitCommit, GitPush]"
    and rep: "list_all in_repair_step rep" and off: "list_all in_offload_step off"
    using cycle_decomposition [of d e w] by blast
  have "cycle_events d e w = [GitPull, Chmod] @ rep @ off @ [TrackEmptyDirs, GitCommit, GitPush]"
    by (simp add: cycle_events_def dec)
  with assms consider "ev \<in> set [GitPull, Chmod]" | "ev \<in> set rep" | "ev \<in> set off"
    | "ev \<in> set [TrackEmptyDirs, GitCommit, GitPush]"
    by auto
  then show ?thesis
  proof cases
    case 1 then show ?thesis by auto
  next
    case 2 with rep show ?thesis by (simp add: list_all_iff repair_event_unverified)
  next
    case 3 with off show ?thesis by (simp add: list_all_iff offload_event_unverified)
  next
    case 4 then show ?thesis by auto
  qed
qed

lemma repair_one_missing:
  assumes quiet: "faults w = []"
    and ptr: "read_pointer e (files w) pointer_path = Some pointer"
    and valid: "validate_pointer pointer = Inr True"
    and rel: "map_of (releases (blob_store w)) (format_tag e (pf_release_tag pointer)) = Some blobs"
    and hit: "find (\<lambda>asset. JStr (asset_name asset) = pf_asset_name pointer) (map describe blobs)
              = Some asset"
    and blob: "find (\<lambda>b. blob_id b = asset_id asset) (all_blobs (blob_store w)) = Some b"
    and missing: "\<not> isfile (files w) (get_real_path_from_pointer pointer_path)"
  shows "repair_one e pointer_path w =
     ensure_git_info_exclude
       [relpath e (get_real_path_from_pointer pointer_path) (hist_dir (manifest w))]
       (w\<lparr>files := AList.update (get_real_path_from_pointer pointer_path) (blob_content b)
                      (AList.delete (pointer_path @ ''.tmp'')
                         (AList.update (pointer_path @ ''.tmp'') (blob_content b) (files w))),
          trace := trace w @ [RestoreCall pointer_path False,
                              Http (GetReleaseByTag (format_tag e (pf_release_tag pointer))),
                              Http (ListAssets (format_tag e (pf_release_tag pointer))),
                              Http (DownloadAsset (asset_id asset))]\<rparr>)"
proof -
  let ?tmp = "pointer_path @ ''.tmp''"
  let ?real = "get_real_path_from_pointer pointer_path"
  let ?tag = "format_tag e (pf_release_tag pointer)"
  let ?w1 = "w\<lparr>files := AList.update ?tmp (blob_content b) (files w),
                trace := trace w @ [RestoreCall pointer_path False, Http (GetReleaseByTag ?tag),
                                    Http (ListAssets ?tag), Http (DownloadAsset (asset_id asset))]\<rparr>"
  have r: "restore_from_lfs e pointer_path False w
           = (True, snd (materialize e pointer_path ?tmp pointer ?w1))"
    using restore_from_lfs_direct [OF quiet ptr valid rel hit blob, of False]
    by (simp add: Let_def)
  have tmp: "map_of (files ?w1) ?tmp = Some (blob_content b)"
    by (simp add: update_conv')
  have unsat: "\<not> already_satisfied e (files ?w1) pointer_path pointer"
    using missing real_path_not_temp [of pointer_path]
    by (simp add: already_satisfied_def isfile_def update_conv' split: option.splits)
  have m: "snd (materialize e pointer_path ?tmp pointer ?w1) =
       ensure_git_info_exclude [relpath e ?real (hist_dir (manifest ?w1))]
         (?w1\<lparr>files := AList.update ?real (blob_content b) (AList.delete ?tmp (files ?w1))\<rparr>)"
    using materialize_result [OF tmp] unsat by simp
  have one: "repair_one e pointer_path w = snd (restore_from_lfs e pointer_path False w)"
    using ptr missing by (simp add: repair_one_def get_real_path_from_pointer_def Let_def)
  have w: "?w1\<lparr>files := AList.update ?real (blob_content b) (AList.delete ?tmp (files ?w1))\<rparr>
         = w\<lparr>files := AList.update ?real (blob_content b)
                      (AList.delete ?tmp (AList.update ?tmp (blob_content b) (files w))),
            trace := trace w @ [RestoreCall pointer_path False, Http (GetReleaseByTag ?tag),
                                Http (ListAssets ?tag), Http (DownloadAsset (asset_id asset))]\<rparr>"
    by (cases w) simp
  show ?thesis unfolding one r m w by simp
qed

text \<open>
  Claim C10. No restore call of a cycle asks for hash verification, for every daemon
  (whatever its settings), environment and world: the repair step is the only caller
  of \<open>restore_from_lfs\<close> in the cycle and passes \<open>False\<close>. For a pointer whose real
  file is missing and whose asset resolves, the repair sends the restore call without
  verification and moves the downloaded payload to the real path, whatever it hashes
  to. When the payload does not hash to the pointer's hash, the same restore with
  verification returns \<open>False\<close> and leaves the real path absent.
\<close>

theorem repair_restores_unverified:
  assumes quiet: "faults w = []"
    and ptr: "read_pointer e (files w) pointer_path = Some pointer"
    and valid: "validate_pointer pointer = Inr True"
    and rel: "map_of (releases (blob_store w)) (format_tag e (pf_release_tag pointer)) = Some blobs"
    and hit: "find (\<lambda>asset. JStr (asset_name asset) = pf_asset_name pointer) (map describe blobs)
              = Some asset"
    and blob: "find (\<lambda>b. blob_id b = asset_id asset) (all_blobs (blob_store w)) = Some b"
    and missing: "\<not> isfile (files w) (get_real_path_from_pointer pointer_path)"
  shows "(\<forall>ev\<in>set (cycle_events d e w0). \<not> verifying_restore ev)
       \<and> trace (repair_one e pointer_path w) =
           trace w @ [RestoreCall pointer_path False,
                      Http (GetReleaseByTag (format_tag e (pf_release_tag pointer))),
                      Http (ListAssets (format_tag e (pf_release_tag pointer))),
                      Http (DownloadAsset (asset_id asset))]
       \<and> map_of (files (repair_one e pointer_path w)) (get_real_path_from_pointer pointer_path)
           = Some (blob_content b)
       \<and> (JStr (''sha256:'' @ sha256_hexdigest e (blob_content b)) \<noteq> pf_hash pointer \<longrightarrow>
            fst (restore_from_lfs e pointer_path True w) = False
          \<and> map_of (files (snd (restore_from_lfs e pointer_path True w)))
              (get_real_path_from_pointer pointer_path) = None)"
proof -
  let ?tmp = "pointer_path @ ''.tmp''"
  let ?real = "get_real_path_from_pointer pointer_path"
  have all: "\<forall>ev\<in>set (cycle_events d e w0). \<not> verifying_restore ev"
    using cycle_restores_unverified by blast
  note one = repair_one_missing [OF quiet ptr valid rel hit blob missing]
  have tr: "trace (repair_one e pointer_path w) =
           trace w @ [RestoreCall pointer_path False,
                      Http (GetReleaseByTag (format_tag e (pf_release_tag pointer))),
                      Http (ListAssets (format_tag e (pf_release_tag pointer))),
                      Http (DownloadAsset (asset_id asset))]"
    unfolding one by simp
  have moved: "map_of (files (repair_one e pointer_path w)) ?real = Some (blob_content b)"
    unfolding one by (simp add: update_conv')
  have guarded: "fst (restore_from_lfs e pointer_path True w) = False
          \<and> map_of (files (snd (restore_from_lfs e pointer_path True w))) ?real = None"
    if bad: "JStr (''sha256:'' @ sha256_hexdigest e (blob_content b)) \<noteq> pf_hash pointer"
  proof -
    have none: "map_of (files w) ?real = None"
      using missing by (simp add: isfile_def split: option.splits)
    show ?thesis
      using restore_from_lfs_direct [OF quiet ptr valid rel hit blob, of True] bad none
        real_path_not_temp [of pointer_path]
      by (simp add: Let_def delete_conv' update_conv')
  qed
  from all tr moved guarded show ?thesis by blast
qed

lemma garbled_pointer:
  "read_pointer demo_env (files garbled_world) ''/h/data/model.bin.pointer'' = Some model_pointer"
  by (simp add: read_pointer_def garbled_world_def demo_env_def json_table_def
      to_dict_def from_dict_def subscript_def model_pointer_def)

lemma garbled_release:
  "map_of (releases (blob_store garbled_world))
      (format_tag demo_env (pf_release_tag model_pointer))
     = Some [\<lparr>blob_id = 1, blob_name = ''ab12cd34ef56-model.bin'',
               blob_content = ''GARBLED-BYTES''\<rparr>]"
  by (simp add: garbled_world_def format_tag_def model_pointer_def)

lemma garbled_asset:
  "find (\<lambda>asset. JStr (asset_name asset) = pf_asset_name model_pointer)
     (map describe [\<lparr>blob_id = 1, blob_name = ''ab12cd34ef56-model.bin'',
                     blob_content = ''GARBLED-BYTES''\<rparr>])
   = Some \<lparr>asset_id = 1, asset_name = ''ab12cd34ef56-model.bin'', asset_size = 13\<rparr>"
  by (simp add: describe_def model_pointer_def)

lemma garbled_blob:
  "find (\<lambda>b. blob_id b
               = asset_id \<lparr>asset_id = 1, asset_name = ''ab12cd34ef56-model.bin'', asset_size = 13\<rparr>)
     (all_blobs (blob_store garbled_world))
   = Some \<lparr>blob_id = 1, blob_name = ''ab12cd34ef56-model.bin'', blob_content = ''GARBLED-BYTES''\<rparr>"
  by (simp add: all_blobs_def garbled_world_def)

theorem repair_restores_unverified_witness:
  "\<not> verifying_restore (RestoreCall ''/h/data/model.bin.pointer'' False)
   \<and> RestoreCall ''/h/data/model.bin.pointer'' False
       \<in> set (cycle_events demo_daemon demo_env garbled_world)
   \<and> map_of (files (repair_one demo_env ''/h/data/model.bin.pointer'' garbled_world))
       ''/h/data/model.bin'' = Some ''GARBLED-BYTES''
   \<and> sha256_hexdigest demo_env ''GARBLED-BYTES'' = ''ffffeeeeddddcccc''
   \<and> pf_hash model_pointer = JStr ''sha256:ab12cd34ef56aa77''
   \<and> fst (restore_from_lfs demo_env ''/h/data/model.bin.pointer'' True garbled_world) = False
   \<and> map_of (files (snd (restore_from_lfs demo_env ''/h/data/model.bin.pointer'' True
                            garbled_world))) ''/h/data/model.bin'' = None"
proof -
  have quiet: "faults garbled_world = []" by (simp add: garbled_world_def)
  have real: "get_real_path_from_pointer ''/h/data/model.bin.pointer'' = ''/h/data/model.bin''"
    by (simp add: get_real_path_from_pointer_def endswith_def)
  have missing: "\<not> isfile (files garbled_world)
                     (get_real_path_from_pointer ''/h/data/model.bin.pointer'')"
    unfolding real by (simp add: isfile_def garbled_world_def)
  have digest: "sha256_hexdigest demo_env ''GARBLED-BYTES'' = ''ffffeeeeddddcccc''"
    by (simp add: demo_env_def digest_table_def)
  have hash: "pf_hash model_pointer = JStr ''sha256:ab12cd34ef56aa77''"
    by (simp add: model_pointer_def)
  have bad: "JStr (''sha256:'' @ sha256_hexdigest demo_env
                (blob_content \<lparr>blob_id = 1, blob_name = ''ab12cd34ef56-model.bin'',
                               blob_content = ''GARBLED-BYTES''\<rparr>)) \<noteq> pf_hash model_pointer"
    by (simp add: digest hash)
  have inc: "RestoreCall ''/h/data/model.bin.pointer'' False
               \<in> set (cycle_events demo_daemon demo_env garbled_world)"
    unfolding garbled_cycle by simp
  note T = repair_restores_unverified [OF quiet garbled_pointer model_pointer_valid
      garbled_release garbled_asset garbled_blob missing,
      of demo_daemon garbled_world, unfolded real]
  from T inc have 1: "\<not> verifying_restore (RestoreCall ''/h/data/model.bin.pointer'' False)"
    by blast
  from T have 2: "map_of (files (repair_one demo_env ''/h/data/model.bin.pointer'' garbled_world))
       ''/h/data/model.bin''
       = Some (blob_content \<lparr>blob_id = 1, blob_name = ''ab12cd34ef56-model.bin'',
                               blob_content = ''GARBLED-BYTES''\<rparr>)"
    by blast
  from T bad have 3:
    "fst (restore_from_lfs demo_env ''/h/data/model.bin.pointer'' True garbled_world) = False
     \<and> map_of (files (snd (restore_from_lfs demo_env ''/h/data/model.bin.pointer'' True
                              garbled_world))) ''/h/data/model.bin'' = None"
    by blast
  from 1 inc 2 3 digest hash show ?thesis by simp
qed

section \<open>Offloading unchanged content twice\<close>





lemma path_not_pointer: "file_path \<noteq> file_path @ ''.pointer''"
  by simp







end
